theory Spec2Isabelle
  imports Main "HOL-Library.Word" "HOL-Library.AList"
begin

unbundle bit_operations_syntax

section \<open>JavaScript values\<close>

text \<open>
  The CDP shim (the Hono app \<^verbatim>\<open>cdp\<close> with \<^verbatim>\<open>initCDPSession\<close>, \<^verbatim>\<open>handleCDPMethod\<close> and the
  per-domain handlers) works on parsed JSON. A parsed value is a \<open>jsval\<close>. Numbers are
  the integers: the ids and counters the handlers compare are integers, and a fractional
  number never equals a key of the node map. An object is the list of its own properties
  in property order (keys distinct, as in every JavaScript object).
\<close>

datatype jsval =
    JUndefined
  | JNull
  | JBool bool
  | JNum int
  | JStr string
  | JArr "jsval list"
  | JObj "(string \<times> jsval) list"

text \<open>\<^verbatim>\<open>!v\<close> is \<open>\<not> truthy v\<close>.\<close>

fun truthy :: "jsval \<Rightarrow> bool" where
  "truthy JUndefined = False"
| "truthy JNull = False"
| "truthy (JBool b) = b"
| "truthy (JNum n) = (n \<noteq> 0)"
| "truthy (JStr s) = (s \<noteq> [])"
| "truthy (JArr xs) = True"
| "truthy (JObj kvs) = True"

text \<open>\<^verbatim>\<open>v.k\<close> for a value that is neither null nor undefined (on those the access throws,
  which the callers below write out).\<close>

fun getProp :: "jsval \<Rightarrow> string \<Rightarrow> jsval" where
  "getProp (JObj kvs) k = (case map_of kvs k of Some v \<Rightarrow> v | None \<Rightarrow> JUndefined)"
| "getProp v k = JUndefined"

definition nullish :: "jsval \<Rightarrow> bool" where
  "nullish v = (v = JUndefined \<or> v = JNull)"

text \<open>\<^verbatim>\<open>a ?? b\<close> and \<^verbatim>\<open>a || b\<close>.\<close>

definition coalesce :: "jsval \<Rightarrow> jsval \<Rightarrow> jsval" where
  "coalesce a b = (if nullish a then b else a)"

definition orElse :: "jsval \<Rightarrow> jsval \<Rightarrow> jsval" where
  "orElse a b = (if truthy a then a else b)"

fun typeof :: "jsval \<Rightarrow> string" where
  "typeof JUndefined = ''undefined''"
| "typeof JNull = ''object''"
| "typeof (JBool b) = ''boolean''"
| "typeof (JNum n) = ''number''"
| "typeof (JStr s) = ''string''"
| "typeof (JArr xs) = ''object''"
| "typeof (JObj kvs) = ''object''"

subsection \<open>Numbers and strings\<close>

text \<open>The decimal digits of a natural number, as a template literal prints an integer.\<close>

definition digit_char :: "nat \<Rightarrow> char" where
  "digit_char d = char_of (48 + d)"

function digits :: "nat \<Rightarrow> string" where
  "digits n = (if n < 10 then [digit_char n] else digits (n div 10) @ [digit_char (n mod 10)])"
  by pat_completeness auto
termination
  by (relation "measure id") auto

declare digits.simps [simp del]

text \<open>How a number prints (\<^verbatim>\<open>Number::toString\<close>). A JavaScript number is a double: a
  natural number with more than 53 significant bits stands for the double nearest to it
  (\<open>roundDouble\<close>, ties to the even mantissa), as \<^verbatim>\<open>JSON.parse\<close> reads a number literal.
  The digits printed are the shortest decimal that reads back as the same double
  (\<open>shortestDigits\<close>: \<open>k\<close> digits \<open>s\<close> with \<open>s \<times> 10 ^ (n - k)\<close> rounding to the number, \<open>k\<close>
  least, the nearest such \<open>s\<close>); up to 21 integer digits they are followed by zeros, from
  \<open>1e21\<close> on the number prints in exponent form; the numbers that round beyond the largest
  double print as \<^verbatim>\<open>Infinity\<close>.\<close>

function bitLength :: "nat \<Rightarrow> nat" where
  "bitLength n = (if n = 0 then 0 else Suc (bitLength (n div 2)))"
  by pat_completeness auto
termination
  by (relation "measure id") auto

declare bitLength.simps [simp del]

definition roundDouble :: "nat \<Rightarrow> nat" where
  "roundDouble m =
     (if bitLength m \<le> 53 then m
      else (let sh = bitLength m - 53; q = m div 2 ^ sh; r = m mod 2 ^ sh; h = 2 ^ (sh - 1)
            in (if h < r \<or> (r = h \<and> odd q) then q + 1 else q) * 2 ^ sh))"

definition candidatesAt :: "nat \<Rightarrow> nat \<Rightarrow> (nat \<times> nat) list" where
  "candidatesAt x k =
     (let d = length (digits x); lo = x div 10 ^ (d - k) in
      filter (\<lambda>(s, n). 10 ^ (k - 1) \<le> s \<and> s < 10 ^ k \<and> k \<le> n \<and> roundDouble (s * 10 ^ (n - k)) = x)
        [(lo, d), (lo + 1, d), (10 ^ (k - 1), d + 1)])"

definition distanceTo :: "nat \<Rightarrow> nat \<Rightarrow> nat \<times> nat \<Rightarrow> nat" where
  "distanceTo x k c = (case c of (s, n) \<Rightarrow> (if x \<le> s * 10 ^ (n - k) then s * 10 ^ (n - k) - x else x - s * 10 ^ (n - k)))"

definition nearer :: "nat \<Rightarrow> nat \<Rightarrow> nat \<times> nat \<Rightarrow> nat \<times> nat \<Rightarrow> nat \<times> nat" where
  "nearer x k b a =
     (if distanceTo x k b < distanceTo x k a \<or> (distanceTo x k b = distanceTo x k a \<and> even (fst b))
      then b else a)"

definition shortestDigits :: "nat \<Rightarrow> (nat \<times> nat \<times> nat) option" where
  "shortestDigits x =
     (case concat (map (\<lambda>k. case candidatesAt x k of [] \<Rightarrow> [] | c # cs \<Rightarrow> [(k, fold (nearer x k) cs c)])
                    [1..<18]) of
        [] \<Rightarrow> None
      | r # rs \<Rightarrow> Some r)"

definition numberToString :: "nat \<Rightarrow> string" where
  "numberToString m =
     (let x = roundDouble m in
      if x = 0 then ''0''
      else if 2 ^ 1024 \<le> x then ''Infinity''
      else (case shortestDigits x of
              None \<Rightarrow> digits x
            | Some (k, s, n) \<Rightarrow>
                (if n \<le> 21 then digits s @ replicate (n - k) (CHR ''0'')
                 else (if k = 1 then digits s else hd (digits s) # CHR ''.'' # tl (digits s))
                      @ ''e+'' @ digits (n - 1))))"

definition show_int :: "int \<Rightarrow> string" where
  "show_int i = (if i < 0 then CHR ''-'' # numberToString (nat (- i)) else numberToString (nat i))"

text \<open>\<^verbatim>\<open>xs.join(',')\<close> on strings.\<close>

fun join_comma :: "string list \<Rightarrow> string" where
  "join_comma [] = []"
| "join_comma [x] = x"
| "join_comma (x # y # ys) = x @ CHR '','' # join_comma (y # ys)"

text \<open>\<^verbatim>\<open>String(v)\<close>, which is also what a template literal \<^verbatim>\<open>${v}\<close> inserts and what a computed
  property key \<^verbatim>\<open>acc[v]\<close> becomes. An array joins its elements with commas (null and
  undefined elements print as nothing), a plain object prints as \<^verbatim>\<open>[object Object]\<close>. The
  conversion of an object calls its \<^verbatim>\<open>toString\<close>: a parsed object with an own property named
  \<^verbatim>\<open>toString\<close> has a value there that is no function, and the inherited \<^verbatim>\<open>valueOf\<close> gives the
  object back, so the conversion throws a \<^verbatim>\<open>TypeError\<close> (the text is V8's); so does the
  conversion of an array that has such an object among the elements it joins.\<close>

fun printable :: "jsval \<Rightarrow> bool" where
  "printable (JArr xs) = (\<forall>x \<in> set xs. printable x)"
| "printable (JObj kvs) = (''toString'' \<notin> fst ` set kvs)"
| "printable v = True"

fun textOf :: "jsval \<Rightarrow> string" where
  "textOf JUndefined = ''undefined''"
| "textOf JNull = ''null''"
| "textOf (JBool b) = (if b then ''true'' else ''false'')"
| "textOf (JNum n) = show_int n"
| "textOf (JStr s) = s"
| "textOf (JArr xs) = join_comma (map (\<lambda>x. if x = JUndefined \<or> x = JNull then [] else textOf x) xs)"
| "textOf (JObj kvs) = ''[object Object]''"

text \<open>\<^verbatim>\<open>v?.constructor?.name\<close>: the name of the constructor a value inherits, unless the
  value is an object with an own property \<^verbatim>\<open>constructor\<close>, whose \<^verbatim>\<open>name\<close> is then read.\<close>

fun className :: "jsval \<Rightarrow> jsval" where
  "className JUndefined = JUndefined"
| "className JNull = JUndefined"
| "className (JBool b) = JStr ''Boolean''"
| "className (JNum n) = JStr ''Number''"
| "className (JStr s) = JStr ''String''"
| "className (JArr xs) = JStr ''Array''"
| "className (JObj kvs) =
     (case map_of kvs ''constructor'' of None \<Rightarrow> JStr ''Object'' | Some c \<Rightarrow> getProp c ''name'')"

text \<open>\<^verbatim>\<open>s.split('.')\<close>: the pieces between the dots; never empty.\<close>

fun split_dot :: "string \<Rightarrow> string list" where
  "split_dot [] = [[]]"
| "split_dot (c # cs) =
     (if c = CHR ''.'' then [] # split_dot cs
      else (case split_dot cs of p # ps \<Rightarrow> (c # p) # ps | [] \<Rightarrow> [[c]]))"

text \<open>\<^verbatim>\<open>s.toLowerCase()\<close> on the ASCII letters and \<^verbatim>\<open>s.includes(t)\<close>. Characters outside
  ASCII are left as they are.\<close>

definition lower_char :: "char \<Rightarrow> char" where
  "lower_char c =
     (if 65 \<le> (of_char c :: nat) \<and> (of_char c :: nat) \<le> 90 then char_of ((of_char c :: nat) + 32) else c)"

definition toLowerCase :: "string \<Rightarrow> string" where
  "toLowerCase s = map lower_char s"

fun startsWith :: "string \<Rightarrow> string \<Rightarrow> bool" where
  "startsWith s [] = True"
| "startsWith [] (c # cs) = False"
| "startsWith (x # xs) (c # cs) = (x = c \<and> startsWith xs cs)"

fun str_includes :: "string \<Rightarrow> string \<Rightarrow> bool" where
  "str_includes [] t = (t = [])"
| "str_includes (x # xs) t = (startsWith (x # xs) t \<or> str_includes xs t)"

text \<open>A counter held in a JavaScript number: \<^verbatim>\<open>c++\<close> adds one exactly below \<open>2^53\<close> and
  leaves \<open>2^53\<close> as it is (\<open>2^53 + 1\<close> rounds back to \<open>2^53\<close>).\<close>

definition incr :: "nat \<Rightarrow> nat" where
  "incr c = (if c < 2 ^ 53 then c + 1 else c)"

section \<open>Session state, frames and the browser backend\<close>

text \<open>What a \<^verbatim>\<open>catch\<close> clause receives: an \<^verbatim>\<open>Error\<close> instance with its message (also the
  \<^verbatim>\<open>TypeError\<close>s the engine raises, whose wording is the engine's), or any other value.\<close>

datatype thrown = JsError string | NonError jsval

text \<open>\<^verbatim>\<open>String(v)\<close> and \<^verbatim>\<open>${v}\<close> as the code runs them: the string, or the \<^verbatim>\<open>TypeError\<close>.\<close>

definition js_String :: "jsval \<Rightarrow> thrown + string" where
  "js_String v =
     (if printable v then Inr (textOf v)
      else Inl (JsError ''Cannot convert object to primitive value''))"

text \<open>The three frame shapes written to the socket by \<^verbatim>\<open>sendResponse\<close>, \<^verbatim>\<open>sendError\<close>
  and \<^verbatim>\<open>sendEvent\<close>.\<close>

datatype frame =
    Response jsval jsval
  | ErrorResponse jsval int string
  | Event string jsval

type_synonym page = nat

text \<open>A request handed to the \<^verbatim>\<open>'request'\<close> listener by the backend.\<close>

record http_request =
  req_url :: string
  req_method :: string
  req_headers :: jsval
  req_postData :: jsval
  req_resourceType :: string

text \<open>\<^verbatim>\<open>interface CDPSession\<close>. \<open>pages\<close> keeps the insertion order of the JavaScript
  \<^verbatim>\<open>Map\<close>, which \<^verbatim>\<open>Target.getTargets\<close> iterates; the other maps are only looked up. The
  \<^verbatim>\<open>browser\<close> handle is the one browser of the session and is not stored. The last field
  is not in the interface: it holds the closures that \<^verbatim>\<open>Fetch.enable\<close> registers with
  \<^verbatim>\<open>page.on('request', ...)\<close>, each with the page and the \<^verbatim>\<open>patterns\<close> it captured.\<close>

record session =
  pages :: "(string \<times> page) list"
  defaultTargetId :: string
  nodeIdCounter :: nat
  nodeMap :: "nat \<rightharpoonup> jsval"
  objectIdCounter :: nat
  objectMap :: "string \<rightharpoonup> jsval"
  scriptsToEvaluateOnNewDocument :: "string \<rightharpoonup> jsval"
  extraHTTPHeaders :: "string \<rightharpoonup> jsval"
  requestInterceptionEnabled :: bool
  pendingRequests :: "string \<rightharpoonup> http_request"
  requestListeners :: "(page \<times> jsval) list"

text \<open>\<^verbatim>\<open>map.get(k)\<close> and \<^verbatim>\<open>map.delete(k)\<close> with a key of any type: a key of another type
  than the map's keys matches nothing.\<close>

definition pages_get :: "session \<Rightarrow> jsval \<Rightarrow> page option" where
  "pages_get s k = (case k of JStr t \<Rightarrow> map_of (pages s) t | _ \<Rightarrow> None)"

definition pages_delete :: "jsval \<Rightarrow> (string \<times> page) list \<Rightarrow> (string \<times> page) list" where
  "pages_delete k ps = (case k of JStr t \<Rightarrow> AList.delete t ps | _ \<Rightarrow> ps)"

definition nodeMap_get :: "session \<Rightarrow> jsval \<Rightarrow> jsval option" where
  "nodeMap_get s k = (case k of JNum n \<Rightarrow> (if 0 \<le> n then nodeMap s (nat n) else None) | _ \<Rightarrow> None)"

definition nodeMap_delete :: "jsval \<Rightarrow> (nat \<rightharpoonup> jsval) \<Rightarrow> (nat \<rightharpoonup> jsval)" where
  "nodeMap_delete k m = (case k of JNum n \<Rightarrow> (if 0 \<le> n then m(nat n := None) else m) | _ \<Rightarrow> m)"

definition strMap_get :: "(string \<rightharpoonup> 'a) \<Rightarrow> jsval \<Rightarrow> 'a option" where
  "strMap_get m k = (case k of JStr t \<Rightarrow> m t | _ \<Rightarrow> None)"

definition strMap_delete :: "jsval \<Rightarrow> (string \<rightharpoonup> 'a) \<Rightarrow> (string \<rightharpoonup> 'a)" where
  "strMap_delete k m = (case k of JStr t \<Rightarrow> m(t := None) | _ \<Rightarrow> m)"

text \<open>The receiver of a backend call (\<open>OnRuntime\<close> for the services of the JavaScript
  runtime), and what a handler does to the outside: a call of a backend primitive with
  its arguments, a frame written to the socket, or \<^verbatim>\<open>ws.close(code, reason)\<close>. A handler's effects are listed in
  program order.\<close>

datatype receiver =
    OnRuntime
  | OnBrowser
  | OnPage page
  | OnMouse page
  | OnKeyboard page
  | OnElement page
  | OnRequest http_request

datatype effect = Call receiver string "jsval list" | Send frame | Close nat string

text \<open>The backend (\<^verbatim>\<open>@cloudflare/puppeteer\<close>) and the rest of the runtime are not part of the
  repository. During one handler run they answer as a \<open>backend\<close> says: every awaited
  primitive resolves with a value or rejects; \<^verbatim>\<open>browser.newPage()\<close> gives a page handle;
  \<^verbatim>\<open>crypto.randomUUID()\<close> gives the \<open>n\<close>-th identifier of the run; \<^verbatim>\<open>page.url()\<close> a string;
  \<^verbatim>\<open>new URL(u).origin\<close> a string or a \<^verbatim>\<open>TypeError\<close>; \<^verbatim>\<open>new Function(src)\<close> a function or a
  \<^verbatim>\<open>SyntaxError\<close>; \<^verbatim>\<open>url.match(pattern)\<close> a match or none, or a \<^verbatim>\<open>SyntaxError\<close>. Every
  theorem below holds for all backends.\<close>

record backend =
  call :: "receiver \<Rightarrow> string \<Rightarrow> thrown + jsval"
  launch :: "thrown + unit"
  newPage :: "thrown + page"
  randomUUID :: "nat \<Rightarrow> string"
  pageUrl :: "page \<Rightarrow> string"
  urlOrigin :: "string \<Rightarrow> thrown + string"
  newFunction :: "string \<Rightarrow> thrown + unit"
  urlMatch :: "string \<Rightarrow> jsval \<Rightarrow> thrown + bool"
  now :: jsval

subsection \<open>Running a handler\<close>

text \<open>A handler is a function of the session: it gives its effects, its result or the
  value it throws, and the session as it leaves it. \<open>bindM\<close> is sequencing (a throw skips
  the rest and keeps the state changes made so far), \<open>tryM\<close> is \<^verbatim>\<open>try { } catch (err) { }\<close>.\<close>

type_synonym 'a cdp = "session \<Rightarrow> effect list \<times> (thrown + 'a) \<times> session"

definition returnM :: "'a \<Rightarrow> 'a cdp" where
  "returnM x = (\<lambda>s. ([], Inr x, s))"

definition throwM :: "thrown \<Rightarrow> 'a cdp" where
  "throwM t = (\<lambda>s. ([], Inl t, s))"

definition bindM :: "'a cdp \<Rightarrow> ('a \<Rightarrow> 'b cdp) \<Rightarrow> 'b cdp" where
  "bindM m f = (\<lambda>s. case m s of
       (es, Inl t, s') \<Rightarrow> (es, Inl t, s')
     | (es, Inr x, s') \<Rightarrow> (case f x s' of (es', r, s'') \<Rightarrow> (es @ es', r, s'')))"

definition tryM :: "'a cdp \<Rightarrow> (thrown \<Rightarrow> 'a cdp) \<Rightarrow> 'a cdp" where
  "tryM m h = (\<lambda>s. case m s of
       (es, Inl t, s') \<Rightarrow> (case h t s' of (es', r, s'') \<Rightarrow> (es @ es', r, s''))
     | (es, Inr x, s') \<Rightarrow> (es, Inr x, s'))"

definition getS :: "session cdp" where
  "getS = (\<lambda>s. ([], Inr s, s))"

definition modifyS :: "(session \<Rightarrow> session) \<Rightarrow> unit cdp" where
  "modifyS g = (\<lambda>s. ([], Inr (), g s))"

definition liftE :: "receiver \<Rightarrow> string \<Rightarrow> jsval list \<Rightarrow> (thrown + 'a) \<Rightarrow> 'a cdp" where
  "liftE rcv name args r = (\<lambda>s. ([Call rcv name args], r, s))"

definition backendCall :: "backend \<Rightarrow> receiver \<Rightarrow> string \<Rightarrow> jsval list \<Rightarrow> jsval cdp" where
  "backendCall w rcv name args = liftE rcv name args (call w rcv name)"

definition sendEvent :: "string \<Rightarrow> jsval \<Rightarrow> unit cdp" where
  "sendEvent method params = (\<lambda>s. ([Send (Event method params)], Inr (), s))"

text \<open>\<^verbatim>\<open>throw new Error(msg)\<close>, and a \<^verbatim>\<open>TypeError\<close> of the engine (the text is V8's).\<close>

definition throwError :: "string \<Rightarrow> 'a cdp" where
  "throwError msg = throwM (JsError msg)"

definition typeError :: "string \<Rightarrow> 'a cdp" where
  "typeError msg = throwM (JsError msg)"

text \<open>A step without effect that returns or throws; the conversion to a string as such a
  step; \<^verbatim>\<open>throw new Error(`prefix${v}`)\<close>, where the template literal is evaluated first and
  may throw itself; and the \<^verbatim>\<open>TypeError\<close> of reading a property of undefined or null.\<close>

definition pureM :: "thrown + 'a \<Rightarrow> 'a cdp" where
  "pureM r = (\<lambda>s. ([], r, s))"

definition stringOf :: "jsval \<Rightarrow> string cdp" where
  "stringOf v = pureM (js_String v)"

definition templateError :: "string \<Rightarrow> jsval \<Rightarrow> 'a cdp" where
  "templateError prefix v = bindM (stringOf v) (\<lambda>t. throwError (prefix @ t))"

definition readErrorText :: "jsval \<Rightarrow> string \<Rightarrow> string" where
  "readErrorText v name =
     ''Cannot read properties of '' @ (if v = JNull then ''null'' else ''undefined'')
       @ '' (reading '' @ [CHR 0x27] @ name @ [CHR 0x27] @ '')''"

definition readError :: "jsval \<Rightarrow> string \<Rightarrow> 'a cdp" where
  "readError v name = typeError (readErrorText v name)"

definition effects_of :: "effect list \<times> (thrown + 'a) \<times> session \<Rightarrow> effect list" where
  "effects_of out = fst out"

definition result_of :: "effect list \<times> (thrown + 'a) \<times> session \<Rightarrow> thrown + 'a" where
  "result_of out = fst (snd out)"

definition session_of :: "effect list \<times> (thrown + 'a) \<times> session \<Rightarrow> session" where
  "session_of out = snd (snd out)"

definition frames_of :: "effect list \<Rightarrow> frame list" where
  "frames_of es = concat (map (\<lambda>e. case e of Send f \<Rightarrow> [f] | _ \<Rightarrow> []) es)"

section \<open>Runtime domain\<close>

text \<open>The empty result \<^verbatim>\<open>{}\<close>.\<close>

definition emptyResult :: jsval where
  "emptyResult = JObj []"

text \<open>The lines shared by \<^verbatim>\<open>evaluate\<close> and \<^verbatim>\<open>callFunctionOn\<close>:
  \<^verbatim>\<open>if (!returnByValue && result !== null && typeof result === 'object') {
      objectId = `obj-${session.objectIdCounter++}`; session.objectMap.set(objectId, result); }\<close>\<close>

definition storeObject :: "jsval \<Rightarrow> jsval \<Rightarrow> jsval cdp" where
  "storeObject returnByValue result =
     (if \<not> truthy returnByValue \<and> result \<noteq> JNull \<and> typeof result = ''object'' then
        bindM getS (\<lambda>s.
        let objectId = ''obj-'' @ digits (objectIdCounter s) in
        bindM (modifyS (\<lambda>s. s\<lparr>objectIdCounter := incr (objectIdCounter s)\<rparr>)) (\<lambda>_.
        bindM (modifyS (\<lambda>s. s\<lparr>objectMap := (objectMap s)(objectId \<mapsto> result)\<rparr>)) (\<lambda>_.
        returnM (JStr objectId))))
      else returnM JUndefined)"

definition subtypeOf :: "jsval \<Rightarrow> jsval" where
  "subtypeOf result =
     (case result of JArr xs \<Rightarrow> JStr ''array'' | JNull \<Rightarrow> JStr ''null'' | _ \<Rightarrow> JUndefined)"

definition exceptionDetails :: "thrown \<Rightarrow> string \<Rightarrow> jsval" where
  "exceptionDetails err fallback =
     JObj [(''exceptionDetails'', JObj [
       (''exceptionId'', JNum 1),
       (''text'', JStr (case err of JsError m \<Rightarrow> m | NonError v \<Rightarrow> fallback)),
       (''lineNumber'', JNum 0),
       (''columnNumber'', JNum 0)])]"

text \<open>\<^verbatim>\<open>Object.getOwnPropertyNames(obj)\<close>, \<^verbatim>\<open>Object.keys(obj)\<close>, \<^verbatim>\<open>obj[key]\<close> and the flags of
  \<^verbatim>\<open>Object.getOwnPropertyDescriptor(obj, key)\<close> for the objects a page hands back: plain
  objects and arrays.\<close>

definition indexKeys :: "jsval list \<Rightarrow> string list" where
  "indexKeys xs = map digits [0..<length xs]"

fun ownPropertyNames :: "jsval \<Rightarrow> string list" where
  "ownPropertyNames (JObj kvs) = map fst kvs"
| "ownPropertyNames (JArr xs) = indexKeys xs @ [''length'']"
| "ownPropertyNames v = []"

fun objectKeys :: "jsval \<Rightarrow> string list" where
  "objectKeys (JObj kvs) = map fst kvs"
| "objectKeys (JArr xs) = indexKeys xs"
| "objectKeys v = []"

fun getIndex :: "jsval \<Rightarrow> string \<Rightarrow> jsval" where
  "getIndex (JObj kvs) k = getProp (JObj kvs) k"
| "getIndex (JArr xs) k =
     (if k = ''length'' then JNum (int (length xs))
      else (case map_of (zip (indexKeys xs) xs) k of Some v \<Rightarrow> v | None \<Rightarrow> JUndefined))"
| "getIndex v k = JUndefined"

definition isArrayLength :: "jsval \<Rightarrow> string \<Rightarrow> bool" where
  "isArrayLength obj k = ((case obj of JArr xs \<Rightarrow> True | _ \<Rightarrow> False) \<and> k = ''length'')"

text \<open>One element of \<^verbatim>\<open>properties\<close>; \<^verbatim>\<open>String(value)\<close> may throw. Then the loop
  \<^verbatim>\<open>for (const key of keys) { ... properties.push({...}) }\<close>.\<close>

definition propertyEntry :: "jsval \<Rightarrow> string \<Rightarrow> thrown + jsval" where
  "propertyEntry obj key =
     (let v = getIndex obj key in
      map_sum id
        (\<lambda>description. JObj [
           (''name'', JStr key),
           (''value'', JObj [(''type'', JStr (typeof v)), (''value'', v), (''description'', JStr description)]),
           (''writable'', JBool True),
           (''configurable'', JBool (\<not> isArrayLength obj key)),
           (''enumerable'', JBool (\<not> isArrayLength obj key)),
           (''isOwn'', JBool True)])
        (js_String v))"

fun propertyEntries :: "jsval \<Rightarrow> string list \<Rightarrow> thrown + jsval list" where
  "propertyEntries obj [] = Inr []"
| "propertyEntries obj (key # keys) =
     (case propertyEntry obj key of
        Inl err \<Rightarrow> Inl err
      | Inr entry \<Rightarrow> map_sum id (\<lambda>rest. entry # rest) (propertyEntries obj keys))"

text \<open>\<^verbatim>\<open>args.map((a) => a.objectId ? session.objectMap.get(a.objectId) : a.value)\<close>; the
  property access throws on the first null or undefined element, \<^verbatim>\<open>map\<close> is missing on
  anything that is not an array.\<close>

definition resolveArgument :: "session \<Rightarrow> jsval \<Rightarrow> jsval" where
  "resolveArgument s a =
     (if truthy (getProp a ''objectId'')
      then (case strMap_get (objectMap s) (getProp a ''objectId'') of Some v \<Rightarrow> v | None \<Rightarrow> JUndefined)
      else getProp a ''value'')"

definition resolveArguments :: "jsval \<Rightarrow> (jsval list) cdp" where
  "resolveArguments args =
     (case args of
        JArr as \<Rightarrow>
          (if \<exists>a \<in> set as. nullish a
           then readError (hd (filter nullish as)) ''objectId''
           else bindM getS (\<lambda>s. returnM (map (resolveArgument s) as)))
      | _ \<Rightarrow> typeError ''args.map is not a function'')"

text \<open>\<^verbatim>\<open>awaitPromise ? `(async () => { return ${expression}; })()` : expression\<close> and the
  source text given to \<^verbatim>\<open>new Function\<close>,
  \<^verbatim>\<open>`return (${functionDeclaration}).apply(this, arguments)`\<close>. Both template literals
  convert a parameter to a string and throw when it has none.\<close>

definition wrapExpression :: "jsval \<Rightarrow> jsval \<Rightarrow> thrown + jsval" where
  "wrapExpression awaitPromise expression =
     (if truthy awaitPromise
      then map_sum id (\<lambda>t. JStr (''(async () => { return '' @ t @ ''; })()'')) (js_String expression)
      else Inr expression)"

definition functionBody :: "jsval \<Rightarrow> thrown + string" where
  "functionBody functionDeclaration =
     map_sum id (\<lambda>t. ''return ('' @ t @ '').apply(this, arguments)'') (js_String functionDeclaration)"

definition handleRuntime :: "page \<Rightarrow> jsval \<Rightarrow> jsval \<Rightarrow> backend \<Rightarrow> jsval cdp" where
  "handleRuntime page command params w =
    (if command = JStr ''evaluate'' then
       (let expression = getProp params ''expression'' in
        if \<not> truthy expression then throwError ''expression is required''
        else
          let returnByValue = coalesce (getProp params ''returnByValue'') (JBool True);
              awaitPromise = coalesce (getProp params ''awaitPromise'') (JBool False)
          in tryM
            (bindM (pureM (wrapExpression awaitPromise expression)) (\<lambda>wrappedExpression.
             bindM (backendCall w (OnPage page) ''evaluate'' [wrappedExpression]) (\<lambda>result.
             bindM (storeObject returnByValue result) (\<lambda>objectId.
             bindM (stringOf result) (\<lambda>description.
             returnM (JObj [(''result'', JObj [
               (''type'', JStr (typeof result)),
               (''subtype'', subtypeOf result),
               (''className'', className result),
               (''value'', if truthy returnByValue then result else JUndefined),
               (''objectId'', objectId),
               (''description'', JStr description)])]))))))
            (\<lambda>err. returnM (exceptionDetails err ''Evaluation failed'')))
     else if command = JStr ''callFunctionOn'' then
       (let functionDeclaration = getProp params ''functionDeclaration'';
            args = orElse (getProp params ''arguments'') (JArr []);
            returnByValue = coalesce (getProp params ''returnByValue'') (JBool True)
        in tryM
          (bindM (resolveArguments args) (\<lambda>argValues.
           bindM (pureM (functionBody functionDeclaration)) (\<lambda>body.
           bindM (liftE OnRuntime ''new Function'' [JStr body] (newFunction w body)) (\<lambda>_.
           bindM (backendCall w (OnPage page) ''evaluate'' (JStr body # argValues)) (\<lambda>result.
           bindM (storeObject returnByValue result) (\<lambda>objectId.
           returnM (JObj [(''result'', JObj [
             (''type'', JStr (typeof result)),
             (''subtype'', subtypeOf result),
             (''value'', if truthy returnByValue then result else JUndefined),
             (''objectId'', objectId)])])))))))
          (\<lambda>err. returnM (exceptionDetails err ''Call failed'')))
     else if command = JStr ''getProperties'' then
       (let objectId = getProp params ''objectId'';
            ownProperties = coalesce (getProp params ''ownProperties'') (JBool True)
        in bindM getS (\<lambda>s.
           case strMap_get (objectMap s) objectId of
             None \<Rightarrow> returnM (JObj [(''result'', JArr [])])
           | Some obj \<Rightarrow>
               (if \<not> truthy obj \<or> typeof obj \<noteq> ''object'' then returnM (JObj [(''result'', JArr [])])
                else
                  let keys = (if truthy ownProperties then ownPropertyNames obj else objectKeys obj)
                  in bindM (pureM (propertyEntries obj keys)) (\<lambda>properties.
                     returnM (JObj [(''result'', JArr properties)])))))
     else if command = JStr ''releaseObject'' then
       (let objectId = getProp params ''objectId'' in
        bindM (modifyS (\<lambda>s. s\<lparr>objectMap := strMap_delete objectId (objectMap s)\<rparr>)) (\<lambda>_.
        returnM emptyResult))
     else if command = JStr ''releaseObjectGroup'' then
       bindM (modifyS (\<lambda>s. s\<lparr>objectMap := Map.empty\<rparr>)) (\<lambda>_.
       returnM emptyResult)
     else if command = JStr ''enable'' \<or> command = JStr ''disable'' then returnM emptyResult
     else templateError ''Unknown Runtime method: '' command)"

section \<open>DOM domain\<close>

text \<open>A function that a handler passes to \<^verbatim>\<open>page.evaluate\<close> runs in the page, not in
  the shim; the call records it by a name. \<^verbatim>\<open>page.url()\<close> is the backend's answer.\<close>

definition inPage :: "string \<Rightarrow> jsval" where
  "inPage name = JStr name"

definition pageUrlB :: "backend \<Rightarrow> page \<Rightarrow> jsval cdp" where
  "pageUrlB w page = liftE (OnPage page) ''url'' [] (Inr (JStr (pageUrl w page)))"

text \<open>\<^verbatim>\<open>const nodeId = session.nodeIdCounter++; session.nodeMap.set(nodeId, selector);\<close>\<close>

definition allocNode :: "jsval \<Rightarrow> nat cdp" where
  "allocNode selector =
     bindM getS (\<lambda>s.
     let nodeId = nodeIdCounter s in
     bindM (modifyS (\<lambda>s. s\<lparr>nodeIdCounter := incr (nodeIdCounter s)\<rparr>)) (\<lambda>_.
     bindM (modifyS (\<lambda>s. s\<lparr>nodeMap := (nodeMap s)(nodeId \<mapsto> selector)\<rparr>)) (\<lambda>_.
     returnM nodeId)))"

text \<open>\<^verbatim>\<open>elements.map((_, i) => { const nodeId = session.nodeIdCounter++;
  session.nodeMap.set(nodeId, `${selector}:nth-of-type(${i + 1})`); return nodeId; })\<close> from
  index \<open>i\<close> on, for \<open>n\<close> more elements. The counter is advanced before the template
  literal is evaluated, so a selector without a string form costs one id and sets no
  entry.\<close>

fun allocNodes :: "jsval \<Rightarrow> nat \<Rightarrow> nat \<Rightarrow> (nat list) cdp" where
  "allocNodes selector i 0 = returnM []"
| "allocNodes selector i (Suc n) =
     bindM getS (\<lambda>s.
     let nodeId = nodeIdCounter s in
     bindM (modifyS (\<lambda>s. s\<lparr>nodeIdCounter := incr (nodeIdCounter s)\<rparr>)) (\<lambda>_.
     bindM (stringOf selector) (\<lambda>t.
     bindM (modifyS (\<lambda>s. s\<lparr>nodeMap :=
              (nodeMap s)(nodeId \<mapsto> JStr (t @ '':nth-of-type('' @ digits (i + 1) @ '')''))\<rparr>)) (\<lambda>_.
     bindM (allocNodes selector (i + 1) n) (\<lambda>rest.
     returnM (nodeId # rest))))))"

text \<open>\<^verbatim>\<open>const selector = session.nodeMap.get(nodeId);\<close> and the check
  \<^verbatim>\<open>if (!selector) throw new Error(`Node not found: ${nodeId}`);\<close> that most commands make.\<close>

definition lookupSelector :: "jsval \<Rightarrow> jsval cdp" where
  "lookupSelector nodeId =
     bindM getS (\<lambda>s. returnM (case nodeMap_get s nodeId of Some sel \<Rightarrow> sel | None \<Rightarrow> JUndefined))"

definition requireSelector :: "jsval \<Rightarrow> jsval cdp" where
  "requireSelector nodeId =
     bindM (lookupSelector nodeId) (\<lambda>selector.
     if \<not> truthy selector then templateError ''Node not found: '' nodeId
     else returnM selector)"

text \<open>\<^verbatim>\<open>toQuad\<close>, on boxes with integer coordinates.\<close>

definition jsAdd :: "jsval \<Rightarrow> jsval \<Rightarrow> jsval" where
  "jsAdd a b = (case (a, b) of (JNum x, JNum y) \<Rightarrow> JNum (x + y) | _ \<Rightarrow> JUndefined)"

definition toQuad :: "jsval \<Rightarrow> jsval" where
  "toQuad box =
     (let x = getProp box ''x''; y = getProp box ''y'';
          width = getProp box ''width''; height = getProp box ''height''
      in JArr [x, y, jsAdd x width, y, jsAdd x width, jsAdd y height, x, jsAdd y height])"

text \<open>\<^verbatim>\<open>f(...xs)\<close> needs an iterable.\<close>

definition spreadable :: "jsval \<Rightarrow> bool" where
  "spreadable v = (case v of JArr xs \<Rightarrow> True | JStr t \<Rightarrow> True | _ \<Rightarrow> False)"

definition spreadArgs :: "jsval \<Rightarrow> jsval list" where
  "spreadArgs v = (case v of JArr xs \<Rightarrow> xs | JStr t \<Rightarrow> map (\<lambda>c. JStr [c]) t | _ \<Rightarrow> [])"

definition handleDOM :: "page \<Rightarrow> jsval \<Rightarrow> jsval \<Rightarrow> backend \<Rightarrow> jsval cdp" where
  "handleDOM page command params w =
    (if command = JStr ''getDocument'' then
       (let depth = coalesce (getProp params ''depth'') (JNum 1) in
        bindM (backendCall w (OnPage page) ''evaluate'' [inPage ''serializeNode(document.documentElement, 0)'', depth]) (\<lambda>doc.
        bindM (allocNode (JStr ''html'')) (\<lambda>rootNodeId.
        bindM (pageUrlB w page) (\<lambda>documentURL.
        bindM (pageUrlB w page) (\<lambda>baseURL.
        returnM (JObj [(''root'', JObj [
          (''nodeId'', JNum (int rootNodeId)),
          (''backendNodeId'', JNum (int rootNodeId)),
          (''nodeType'', JNum 9),
          (''nodeName'', JStr ''#document''),
          (''localName'', JStr []),
          (''nodeValue'', JStr []),
          (''childNodeCount'', JNum 1),
          (''children'', JArr [doc]),
          (''documentURL'', documentURL),
          (''baseURL'', baseURL)])]))))))
     else if command = JStr ''querySelector'' then
       (let selector = getProp params ''selector'' in
        if \<not> truthy selector then throwError ''selector is required''
        else
          bindM (backendCall w (OnPage page) ''$'' [selector]) (\<lambda>element.
          if \<not> truthy element then returnM (JObj [(''nodeId'', JNum 0)])
          else
            bindM (allocNode selector) (\<lambda>nodeId.
            returnM (JObj [(''nodeId'', JNum (int nodeId))]))))
     else if command = JStr ''querySelectorAll'' then
       (let selector = getProp params ''selector'' in
        if \<not> truthy selector then throwError ''selector is required''
        else
          bindM (backendCall w (OnPage page) ''$$'' [selector]) (\<lambda>elements.
          case elements of
            JArr es \<Rightarrow>
              bindM (allocNodes selector 0 (length es)) (\<lambda>nodeIds.
              returnM (JObj [(''nodeIds'', JArr (map (\<lambda>n. JNum (int n)) nodeIds))]))
          | _ \<Rightarrow> typeError ''elements.map is not a function''))
     else if command = JStr ''getOuterHTML'' then
       (let nodeId = getProp params ''nodeId'' in
        bindM (lookupSelector nodeId) (\<lambda>selector.
        if \<not> truthy selector then
          bindM (backendCall w (OnPage page) ''content'' []) (\<lambda>html.
          returnM (JObj [(''outerHTML'', html)]))
        else
          bindM (backendCall w (OnPage page) ''evaluate'' [inPage ''outerHTML'', selector]) (\<lambda>html.
          returnM (JObj [(''outerHTML'', html)]))))
     else if command = JStr ''getAttributes'' then
       (let nodeId = getProp params ''nodeId'' in
        bindM (requireSelector nodeId) (\<lambda>selector.
        bindM (backendCall w (OnPage page) ''evaluate'' [inPage ''attributes'', selector]) (\<lambda>attributes.
        returnM (JObj [(''attributes'', attributes)]))))
     else if command = JStr ''setAttributeValue'' then
       (let nodeId = getProp params ''nodeId'';
            name = getProp params ''name'';
            val = getProp params ''value''
        in bindM (requireSelector nodeId) (\<lambda>selector.
           bindM (backendCall w (OnPage page) ''evaluate'' [inPage ''setAttribute'', selector, name, val]) (\<lambda>_.
           returnM emptyResult)))
     else if command = JStr ''focus'' then
       (let nodeId = getProp params ''nodeId'' in
        bindM (requireSelector nodeId) (\<lambda>selector.
        bindM (backendCall w (OnPage page) ''focus'' [selector]) (\<lambda>_.
        returnM emptyResult)))
     else if command = JStr ''getBoxModel'' then
       (let nodeId = getProp params ''nodeId'' in
        bindM (requireSelector nodeId) (\<lambda>selector.
        bindM (backendCall w (OnPage page) ''evaluate'' [inPage ''boxModel'', selector]) (\<lambda>boxModel.
        if \<not> truthy boxModel then templateError ''Element not found: '' selector
        else if nullish (getProp boxModel ''content'') then readError (getProp boxModel ''content'') ''x''
        else if nullish (getProp boxModel ''padding'') then readError (getProp boxModel ''padding'') ''x''
        else if nullish (getProp boxModel ''border'') then readError (getProp boxModel ''border'') ''x''
        else if nullish (getProp boxModel ''margin'') then readError (getProp boxModel ''margin'') ''x''
        else returnM (JObj [(''model'', JObj [
          (''content'', toQuad (getProp boxModel ''content'')),
          (''padding'', toQuad (getProp boxModel ''padding'')),
          (''border'', toQuad (getProp boxModel ''border'')),
          (''margin'', toQuad (getProp boxModel ''margin'')),
          (''width'', getProp (getProp boxModel ''border'') ''width''),
          (''height'', getProp (getProp boxModel ''border'') ''height'')])]))))
     else if command = JStr ''scrollIntoViewIfNeeded'' then
       (let nodeId = getProp params ''nodeId'' in
        bindM (requireSelector nodeId) (\<lambda>selector.
        bindM (backendCall w (OnPage page) ''evaluate'' [inPage ''scrollIntoView'', selector]) (\<lambda>_.
        returnM emptyResult)))
     else if command = JStr ''removeNode'' then
       (let nodeId = getProp params ''nodeId'' in
        bindM (requireSelector nodeId) (\<lambda>selector.
        bindM (backendCall w (OnPage page) ''evaluate'' [inPage ''removeChild'', selector]) (\<lambda>_.
        bindM (modifyS (\<lambda>s. s\<lparr>nodeMap := nodeMap_delete nodeId (nodeMap s)\<rparr>)) (\<lambda>_.
        returnM emptyResult))))
     else if command = JStr ''setNodeValue'' then
       (let nodeId = getProp params ''nodeId'';
            val = getProp params ''value''
        in bindM (requireSelector nodeId) (\<lambda>selector.
           bindM (backendCall w (OnPage page) ''evaluate'' [inPage ''setTextContent'', selector, val]) (\<lambda>_.
           returnM emptyResult)))
     else if command = JStr ''setFileInputFiles'' then
       (let nodeId = getProp params ''nodeId'';
            files = getProp params ''files''
        in bindM (requireSelector nodeId) (\<lambda>selector.
           bindM (backendCall w (OnPage page) ''$'' [selector]) (\<lambda>element.
           if truthy element then
             (if \<not> spreadable files then typeError ''files is not iterable''
              else bindM (backendCall w (OnElement page) ''uploadFile'' (spreadArgs files)) (\<lambda>_.
                   returnM emptyResult))
           else returnM emptyResult)))
     else if command = JStr ''enable'' \<or> command = JStr ''disable'' then returnM emptyResult
     else templateError ''Unknown DOM method: '' command)"

section \<open>Browser and Target domains\<close>

definition uuidB :: "backend \<Rightarrow> nat \<Rightarrow> string cdp" where
  "uuidB w n = liftE OnRuntime ''crypto.randomUUID'' [] (Inr (randomUUID w n))"

definition handleBrowser :: "jsval \<Rightarrow> jsval \<Rightarrow> backend \<Rightarrow> jsval cdp" where
  "handleBrowser command params w =
    (if command = JStr ''getVersion'' then
       returnM (JObj [
         (''protocolVersion'', JStr ''1.3''),
         (''product'', JStr ''Cloudflare-Browser-Rendering''),
         (''revision'', JStr ''cloudflare''),
         (''userAgent'', JStr ''Mozilla/5.0 Cloudflare Browser Rendering''),
         (''jsVersion'', JStr ''V8'')])
     else if command = JStr ''close'' then
       bindM (backendCall w OnBrowser ''close'' []) (\<lambda>_.
       returnM emptyResult)
     else templateError ''Unknown Browser method: '' command)"

definition targetInfo :: "jsval \<Rightarrow> jsval \<Rightarrow> jsval \<Rightarrow> jsval" where
  "targetInfo targetId title url =
     JObj [(''targetId'', targetId), (''type'', JStr ''page''), (''title'', title),
           (''url'', url), (''attached'', JBool True)]"

text \<open>The loop of \<^verbatim>\<open>getTargets\<close> over \<^verbatim>\<open>session.pages\<close>.\<close>

fun targetInfos :: "backend \<Rightarrow> (string \<times> page) list \<Rightarrow> (jsval list) cdp" where
  "targetInfos w [] = returnM []"
| "targetInfos w ((targetId, page) # rest) =
     bindM (backendCall w (OnPage page) ''title'' []) (\<lambda>title.
     bindM (pageUrlB w page) (\<lambda>url.
     bindM (targetInfos w rest) (\<lambda>infos.
     returnM (targetInfo (JStr targetId) title url # infos))))"

definition handleTarget :: "jsval \<Rightarrow> jsval \<Rightarrow> backend \<Rightarrow> jsval cdp" where
  "handleTarget command params w =
    (if command = JStr ''createTarget'' then
       (let url = orElse (getProp params ''url'') (JStr ''about:blank'') in
        bindM (liftE OnBrowser ''newPage'' [] (newPage w)) (\<lambda>page.
        bindM (uuidB w 0) (\<lambda>targetId.
        bindM (modifyS (\<lambda>s. s\<lparr>pages := AList.update targetId page (pages s)\<rparr>)) (\<lambda>_.
        bindM (if url \<noteq> JStr ''about:blank''
               then bindM (backendCall w (OnPage page) ''goto'' [url]) (\<lambda>_. returnM ())
               else returnM ()) (\<lambda>_.
        bindM (backendCall w (OnPage page) ''title'' []) (\<lambda>title.
        bindM (pageUrlB w page) (\<lambda>pageUrl.
        bindM (sendEvent ''Target.targetCreated''
                 (JObj [(''targetInfo'', targetInfo (JStr targetId) title pageUrl)])) (\<lambda>_.
        returnM (JObj [(''targetId'', JStr targetId)])))))))))
     else if command = JStr ''closeTarget'' then
       (let targetId = getProp params ''targetId'' in
        bindM getS (\<lambda>s.
        case pages_get s targetId of
          None \<Rightarrow> templateError ''Target not found: '' targetId
        | Some page \<Rightarrow>
            bindM (backendCall w (OnPage page) ''close'' []) (\<lambda>_.
            bindM (modifyS (\<lambda>s. s\<lparr>pages := pages_delete targetId (pages s)\<rparr>)) (\<lambda>_.
            bindM (sendEvent ''Target.targetDestroyed'' (JObj [(''targetId'', targetId)])) (\<lambda>_.
            returnM (JObj [(''success'', JBool True)]))))))
     else if command = JStr ''getTargets'' then
       bindM getS (\<lambda>s.
       bindM (targetInfos w (pages s)) (\<lambda>targets.
       returnM (JObj [(''targetInfos'', JArr targets)])))
     else if command = JStr ''attachToTarget'' then
       returnM (JObj [(''sessionId'', getProp params ''targetId'')])
     else templateError ''Unknown Target method: '' command)"

section \<open>Page domain\<close>

text \<open>\<^verbatim>\<open>new URL(page.url()).origin\<close>, and \<^verbatim>\<open>response?.ok()\<close> on the response that
  \<^verbatim>\<open>page.goto\<close> resolves with (null, or a response whose \<open>ok\<close> is its status flag).\<close>

definition originB :: "backend \<Rightarrow> page \<Rightarrow> jsval cdp" where
  "originB w page =
     bindM (pageUrlB w page) (\<lambda>u.
     bindM (liftE OnRuntime ''new URL'' [u] (urlOrigin w (pageUrl w page))) (\<lambda>origin.
     returnM (JStr origin)))"

definition responseOk :: "jsval \<Rightarrow> bool" where
  "responseOk response = (\<not> nullish response \<and> truthy (getProp response ''ok''))"

text \<open>One optional entry of the options object of \<^verbatim>\<open>printToPDF\<close>:
  \<^verbatim>\<open>if (params.k) options.k' = ...\<close>.\<close>

definition optEntry :: "jsval \<Rightarrow> string \<Rightarrow> string \<Rightarrow> (string \<times> jsval) list" where
  "optEntry params k k' = (if truthy (getProp params k) then [(k', getProp params k)] else [])"

text \<open>The entries made with a template literal, \<^verbatim>\<open>`${params.k}in`\<close>, throw when the
  parameter has no string form; \<open>bindE\<close> passes the first throw on.\<close>

definition bindE :: "thrown + 'a \<Rightarrow> ('a \<Rightarrow> thrown + 'b) \<Rightarrow> thrown + 'b" where
  "bindE r f = (case r of Inl err \<Rightarrow> Inl err | Inr x \<Rightarrow> f x)"

definition inchEntry :: "jsval \<Rightarrow> string \<Rightarrow> string \<Rightarrow> thrown + (string \<times> jsval) list" where
  "inchEntry params k k' =
     (if truthy (getProp params k)
      then map_sum id (\<lambda>t. [(k', JStr (t @ ''in''))]) (js_String (getProp params k))
      else Inr [])"

definition pdfOptions :: "jsval \<Rightarrow> thrown + jsval" where
  "pdfOptions params =
     bindE (inchEntry params ''paperWidth'' ''width'') (\<lambda>width.
     bindE (inchEntry params ''paperHeight'' ''height'') (\<lambda>height.
     bindE (inchEntry params ''marginTop'' ''top'') (\<lambda>top.
     bindE (inchEntry params ''marginBottom'' ''bottom'') (\<lambda>bottom.
     bindE (inchEntry params ''marginLeft'' ''left'') (\<lambda>left.
     bindE (inchEntry params ''marginRight'' ''right'') (\<lambda>right.
     let margin = top @ bottom @ left @ right
     in Inr (JObj (optEntry params ''landscape'' ''landscape''
             @ optEntry params ''displayHeaderFooter'' ''displayHeaderFooter''
             @ optEntry params ''printBackground'' ''printBackground''
             @ optEntry params ''scale'' ''scale''
             @ width
             @ height
             @ (if margin = [] then [] else [(''margin'', JObj margin)])
             @ optEntry params ''pageRanges'' ''pageRanges''
             @ optEntry params ''headerTemplate'' ''headerTemplate''
             @ optEntry params ''footerTemplate'' ''footerTemplate''
             @ optEntry params ''preferCSSPageSize'' ''preferCSSPageSize''))))))))"

definition layoutMetrics :: "jsval \<Rightarrow> jsval" where
  "layoutMetrics metrics =
     JObj [
       (''layoutViewport'', JObj [(''pageX'', JNum 0), (''pageY'', JNum 0),
          (''clientWidth'', getProp metrics ''clientWidth''), (''clientHeight'', getProp metrics ''clientHeight'')]),
       (''visualViewport'', JObj [(''offsetX'', JNum 0), (''offsetY'', JNum 0), (''pageX'', JNum 0), (''pageY'', JNum 0),
          (''clientWidth'', getProp metrics ''clientWidth''), (''clientHeight'', getProp metrics ''clientHeight''),
          (''scale'', JNum 1)]),
       (''contentSize'', JObj [(''x'', JNum 0), (''y'', JNum 0),
          (''width'', getProp metrics ''width''), (''height'', getProp metrics ''height'')])]"

definition handlePage :: "page \<Rightarrow> jsval \<Rightarrow> jsval \<Rightarrow> backend \<Rightarrow> jsval cdp" where
  "handlePage page command params w =
    (if command = JStr ''navigate'' then
       (let url = getProp params ''url'' in
        if \<not> truthy url then throwError ''url is required''
        else
          bindM (backendCall w (OnPage page) ''goto'' [url, JObj [(''waitUntil'', JStr ''load'')]]) (\<lambda>response.
          bindM getS (\<lambda>s.
          bindM (pageUrlB w page) (\<lambda>pageUrl.
          bindM (originB w page) (\<lambda>origin.
          bindM (sendEvent ''Page.frameNavigated'' (JObj [(''frame'', JObj [
                   (''id'', JStr (defaultTargetId s)),
                   (''url'', pageUrl),
                   (''securityOrigin'', origin),
                   (''mimeType'', JStr ''text/html'')])])) (\<lambda>_.
          bindM (sendEvent ''Page.loadEventFired'' (JObj [(''timestamp'', now w)])) (\<lambda>_.
          bindM (uuidB w 0) (\<lambda>loaderId.
          returnM (JObj [
            (''frameId'', JStr (defaultTargetId s)),
            (''loaderId'', JStr loaderId),
            (''errorText'', if responseOk response then JUndefined else JStr ''Navigation failed'')])))))))))
     else if command = JStr ''reload'' then
       bindM (backendCall w (OnPage page) ''reload'' []) (\<lambda>_.
       returnM emptyResult)
     else if command = JStr ''getFrameTree'' then
       bindM getS (\<lambda>s.
       bindM (uuidB w 0) (\<lambda>loaderId.
       bindM (pageUrlB w page) (\<lambda>pageUrl.
       bindM (pageUrlB w page) (\<lambda>u.
       bindM (if truthy u then originB w page else returnM (JStr [])) (\<lambda>origin.
       returnM (JObj [(''frameTree'', JObj [
         (''frame'', JObj [
            (''id'', JStr (defaultTargetId s)),
            (''loaderId'', JStr loaderId),
            (''url'', pageUrl),
            (''securityOrigin'', origin),
            (''mimeType'', JStr ''text/html'')]),
         (''childFrames'', JArr [])])]))))))
     else if command = JStr ''captureScreenshot'' then
       (let format = orElse (getProp params ''format'') (JStr ''png'');
            quality = getProp params ''quality'';
            clip = getProp params ''clip''
        in bindM (backendCall w (OnPage page) ''screenshot'' [JObj [
                    (''type'', format),
                    (''encoding'', JStr ''base64''),
                    (''quality'', if format = JStr ''jpeg'' then quality else JUndefined),
                    (''clip'', clip),
                    (''fullPage'', getProp params ''fullPage'')]]) (\<lambda>data.
           returnM (JObj [(''data'', data)])))
     else if command = JStr ''getLayoutMetrics'' then
       bindM (backendCall w (OnPage page) ''evaluate'' [inPage ''scrollAndClientSize'']) (\<lambda>metrics.
       if nullish metrics then readError metrics ''clientWidth''
       else returnM (layoutMetrics metrics))
     else if command = JStr ''bringToFront'' then
       bindM (backendCall w (OnPage page) ''bringToFront'' []) (\<lambda>_.
       returnM emptyResult)
     else if command = JStr ''setContent'' then
       (let html = getProp params ''html'' in
        if \<not> truthy html then throwError ''html is required''
        else
          bindM (backendCall w (OnPage page) ''setContent''
                   [html, JObj [(''waitUntil'', orElse (getProp params ''waitUntil'') (JStr ''load''))]]) (\<lambda>_.
          returnM emptyResult))
     else if command = JStr ''printToPDF'' then
       bindM (pureM (pdfOptions params)) (\<lambda>options.
       bindM (backendCall w (OnPage page) ''pdf'' [options]) (\<lambda>buffer.
       bindM (if typeof buffer = ''string'' then returnM buffer
              else backendCall w OnRuntime ''Buffer.from(buffer).toString(base64)'' [buffer]) (\<lambda>data.
       returnM (JObj [(''data'', data)]))))
     else if command = JStr ''addScriptToEvaluateOnNewDocument'' then
       (let source = getProp params ''source'' in
        if \<not> truthy source then throwError ''source is required''
        else
          bindM (uuidB w 0) (\<lambda>identifier.
          bindM (modifyS (\<lambda>s. s\<lparr>scriptsToEvaluateOnNewDocument :=
                    (scriptsToEvaluateOnNewDocument s)(identifier \<mapsto> source)\<rparr>)) (\<lambda>_.
          bindM (backendCall w (OnPage page) ''evaluateOnNewDocument'' [source]) (\<lambda>_.
          returnM (JObj [(''identifier'', JStr identifier)])))))
     else if command = JStr ''removeScriptToEvaluateOnNewDocument'' then
       (let identifier = getProp params ''identifier'' in
        bindM (modifyS (\<lambda>s. s\<lparr>scriptsToEvaluateOnNewDocument :=
                  strMap_delete identifier (scriptsToEvaluateOnNewDocument s)\<rparr>)) (\<lambda>_.
        returnM emptyResult))
     else if command = JStr ''handleJavaScriptDialog'' then
       (let accept = getProp params ''accept'';
            promptText = getProp params ''promptText''
        in bindM (liftE (OnPage page) ''on'' [JStr ''dialog'', accept, promptText] (Inr ())) (\<lambda>_.
           returnM emptyResult))
     else if command = JStr ''stopLoading'' then
       bindM (backendCall w (OnPage page) ''evaluate'' [inPage ''window.stop()'']) (\<lambda>_.
       returnM emptyResult)
     else if command = JStr ''getNavigationHistory'' then
       bindM (backendCall w (OnPage page) ''evaluate'' [inPage ''navigationHistory'']) (\<lambda>history.
       returnM history)
     else if command = JStr ''navigateToHistoryEntry'' then
       (let entryId = getProp params ''entryId'' in
        bindM (backendCall w (OnPage page) ''evaluate'' [inPage ''window.history.go(delta)'', entryId]) (\<lambda>_.
        returnM emptyResult))
     else if command = JStr ''setBypassCSP'' then
       (let enabled = getProp params ''enabled'' in
        bindM (backendCall w (OnPage page) ''setBypassCSP'' [enabled]) (\<lambda>_.
        returnM emptyResult))
     else if command = JStr ''enable'' \<or> command = JStr ''disable'' then returnM emptyResult
     else templateError ''Unknown Page method: '' command)"

section \<open>Input, Network and Emulation domains\<close>

definition handleInput :: "page \<Rightarrow> jsval \<Rightarrow> jsval \<Rightarrow> backend \<Rightarrow> jsval cdp" where
  "handleInput page command params w =
    (if command = JStr ''dispatchMouseEvent'' then
       (let type = getProp params ''type'';
            x = getProp params ''x'';
            y = getProp params ''y'';
            button = orElse (getProp params ''button'') (JStr ''left'');
            clickCount = orElse (getProp params ''clickCount'') (JNum 1)
        in bindM
             (if type = JStr ''mousePressed'' then
                backendCall w (OnMouse page) ''down'' [JObj [(''button'', button)]]
              else if type = JStr ''mouseReleased'' then
                backendCall w (OnMouse page) ''up'' [JObj [(''button'', button)]]
              else if type = JStr ''mouseMoved'' then
                backendCall w (OnMouse page) ''move'' [x, y]
              else if type = JStr ''mouseWheel'' then
                backendCall w (OnMouse page) ''wheel''
                  [JObj [(''deltaX'', getProp params ''deltaX''), (''deltaY'', getProp params ''deltaY'')]]
              else
                backendCall w (OnMouse page) ''click''
                  [x, y, JObj [(''button'', button), (''clickCount'', clickCount)]]) (\<lambda>_.
           returnM emptyResult))
     else if command = JStr ''dispatchKeyEvent'' then
       (let type = getProp params ''type'';
            key = getProp params ''key'';
            text = getProp params ''text''
        in bindM
             (if type = JStr ''keyDown'' then backendCall w (OnKeyboard page) ''down'' [key]
              else if type = JStr ''keyUp'' then backendCall w (OnKeyboard page) ''up'' [key]
              else if type = JStr ''char'' then
                (if truthy text then backendCall w (OnKeyboard page) ''type'' [text] else returnM JUndefined)
              else
                (if truthy key then backendCall w (OnKeyboard page) ''press'' [key] else returnM JUndefined)) (\<lambda>_.
           returnM emptyResult))
     else if command = JStr ''insertText'' then
       (let text = getProp params ''text'' in
        bindM (if truthy text then backendCall w (OnKeyboard page) ''type'' [text] else returnM JUndefined) (\<lambda>_.
        returnM emptyResult))
     else templateError ''Unknown Input method: '' command)"

text \<open>\<^verbatim>\<open>Object.entries(v)\<close> for a value that is neither null nor undefined.\<close>

definition objectEntries :: "jsval \<Rightarrow> (string \<times> jsval) list" where
  "objectEntries v =
     (case v of
        JObj kvs \<Rightarrow> kvs
      | JArr xs \<Rightarrow> zip (indexKeys xs) xs
      | JStr t \<Rightarrow> zip (indexKeys (map (\<lambda>c. JStr [c]) t)) (map (\<lambda>c. JStr [c]) t)
      | _ \<Rightarrow> [])"

definition cookieInfo :: "jsval \<Rightarrow> jsval" where
  "cookieInfo c =
     JObj [
       (''name'', getProp c ''name''),
       (''value'', getProp c ''value''),
       (''domain'', getProp c ''domain''),
       (''path'', getProp c ''path''),
       (''expires'', getProp c ''expires''),
       (''size'', (case (getProp c ''name'', getProp c ''value'') of
                     (JStr n, JStr v) \<Rightarrow> JNum (int (length n) + int (length v))
                   | _ \<Rightarrow> JUndefined)),
       (''httpOnly'', getProp c ''httpOnly''),
       (''secure'', getProp c ''secure''),
       (''session'', getProp c ''session''),
       (''sameSite'', getProp c ''sameSite'')]"

text \<open>The loop of \<^verbatim>\<open>clearBrowserCookies\<close>.\<close>

fun deleteCookies :: "backend \<Rightarrow> page \<Rightarrow> jsval list \<Rightarrow> unit cdp" where
  "deleteCookies w page [] = returnM ()"
| "deleteCookies w page (cookie # rest) =
     bindM (backendCall w (OnPage page) ''deleteCookie'' [cookie]) (\<lambda>_.
     deleteCookies w page rest)"

text \<open>\<^verbatim>\<open>if (!page) throw new Error('No page available');\<close>\<close>

definition requirePage :: "page option \<Rightarrow> page cdp" where
  "requirePage page = (case page of None \<Rightarrow> throwError ''No page available'' | Some p \<Rightarrow> returnM p)"

definition handleNetwork :: "page option \<Rightarrow> jsval \<Rightarrow> jsval \<Rightarrow> backend \<Rightarrow> jsval cdp" where
  "handleNetwork page command params w =
    (if command = JStr ''enable'' \<or> command = JStr ''disable'' then returnM emptyResult
     else if command = JStr ''setCacheDisabled'' then
       bindM (case page of
                Some p \<Rightarrow> backendCall w (OnPage p) ''setCacheEnabled''
                            [JBool (\<not> truthy (getProp params ''cacheDisabled''))]
              | None \<Rightarrow> returnM JUndefined) (\<lambda>_.
       returnM emptyResult)
     else if command = JStr ''setExtraHTTPHeaders'' then
       (let headers = getProp params ''headers'' in
        bindM (modifyS (\<lambda>s. s\<lparr>extraHTTPHeaders := Map.empty\<rparr>)) (\<lambda>_.
        if nullish headers then typeError ''Cannot convert undefined or null to object''
        else
          bindM (modifyS (\<lambda>s. s\<lparr>extraHTTPHeaders :=
                    fold (\<lambda>(name, val) m. m(name \<mapsto> val)) (objectEntries headers) (extraHTTPHeaders s)\<rparr>)) (\<lambda>_.
          bindM (case page of
                   Some p \<Rightarrow> backendCall w (OnPage p) ''setExtraHTTPHeaders'' [headers]
                 | None \<Rightarrow> returnM JUndefined) (\<lambda>_.
          returnM emptyResult))))
     else if command = JStr ''setCookie'' then
       bindM (requirePage page) (\<lambda>p.
       let cookie = JObj [
             (''name'', getProp params ''name''),
             (''value'', getProp params ''value''),
             (''url'', getProp params ''url''),
             (''domain'', getProp params ''domain''),
             (''path'', getProp params ''path''),
             (''secure'', getProp params ''secure''),
             (''httpOnly'', getProp params ''httpOnly''),
             (''sameSite'', getProp params ''sameSite''),
             (''expires'', getProp params ''expires'')]
       in bindM (backendCall w (OnPage p) ''setCookie'' [cookie]) (\<lambda>_.
          returnM (JObj [(''success'', JBool True)])))
     else if command = JStr ''setCookies'' then
       bindM (requirePage page) (\<lambda>p.
       let cookies = getProp params ''cookies'' in
       if \<not> spreadable cookies then typeError ''cookies is not iterable''
       else
         bindM (backendCall w (OnPage p) ''setCookie'' (spreadArgs cookies)) (\<lambda>_.
         returnM emptyResult))
     else if command = JStr ''getCookies'' then
       bindM (requirePage page) (\<lambda>p.
       let urls = orElse (getProp params ''urls'') (JArr []) in
       if \<not> spreadable urls then typeError ''urls is not iterable''
       else
         bindM (backendCall w (OnPage p) ''cookies'' (spreadArgs urls)) (\<lambda>cookies.
         case cookies of
           JArr cs \<Rightarrow>
             (if \<exists>c \<in> set cs. nullish c then readError (hd (filter nullish cs)) ''name''
              else returnM (JObj [(''cookies'', JArr (map cookieInfo cs))]))
         | _ \<Rightarrow> typeError ''cookies.map is not a function''))
     else if command = JStr ''deleteCookies'' then
       bindM (requirePage page) (\<lambda>p.
       bindM (backendCall w (OnPage p) ''deleteCookie'' [JObj [
                (''name'', getProp params ''name''),
                (''url'', getProp params ''url''),
                (''domain'', getProp params ''domain''),
                (''path'', getProp params ''path'')]]) (\<lambda>_.
       returnM emptyResult))
     else if command = JStr ''clearBrowserCookies'' then
       bindM (requirePage page) (\<lambda>p.
       bindM (backendCall w (OnPage p) ''cookies'' []) (\<lambda>cookies.
       if \<not> spreadable cookies then typeError ''cookies is not iterable''
       else
         bindM (deleteCookies w p (spreadArgs cookies)) (\<lambda>_.
         returnM emptyResult)))
     else if command = JStr ''setUserAgentOverride'' then
       bindM (requirePage page) (\<lambda>p.
       bindM (backendCall w (OnPage p) ''setUserAgent'' [getProp params ''userAgent'']) (\<lambda>_.
       returnM emptyResult))
     else templateError ''Unknown Network method: '' command)"

definition handleEmulation :: "page \<Rightarrow> jsval \<Rightarrow> jsval \<Rightarrow> backend \<Rightarrow> jsval cdp" where
  "handleEmulation page command params w =
    (if command = JStr ''setDeviceMetricsOverride'' then
       bindM (backendCall w (OnPage page) ''setViewport'' [JObj [
                (''width'', getProp params ''width''),
                (''height'', getProp params ''height''),
                (''deviceScaleFactor'', orElse (getProp params ''deviceScaleFactor'') (JNum 1)),
                (''isMobile'', orElse (getProp params ''mobile'') (JBool False))]]) (\<lambda>_.
       returnM emptyResult)
     else if command = JStr ''setUserAgentOverride'' then
       bindM (backendCall w (OnPage page) ''setUserAgent'' [getProp params ''userAgent'']) (\<lambda>_.
       returnM emptyResult)
     else if command = JStr ''clearDeviceMetricsOverride'' then
       bindM (backendCall w (OnPage page) ''setViewport''
                [JObj [(''width'', JNum 1280), (''height'', JNum 720)]]) (\<lambda>_.
       returnM emptyResult)
     else if command = JStr ''setGeolocationOverride'' then
       (let latitude = getProp params ''latitude'';
            longitude = getProp params ''longitude'';
            accuracy = getProp params ''accuracy''
        in bindM (if latitude \<noteq> JUndefined \<and> longitude \<noteq> JUndefined
                  then backendCall w (OnPage page) ''setGeolocation'' [JObj [
                         (''latitude'', latitude),
                         (''longitude'', longitude),
                         (''accuracy'', coalesce accuracy (JNum 100))]]
                  else returnM JUndefined) (\<lambda>_.
           returnM emptyResult))
     else if command = JStr ''clearGeolocationOverride'' then returnM emptyResult
     else if command = JStr ''setTimezoneOverride'' then
       bindM (backendCall w (OnPage page) ''evaluateOnNewDocument''
                [inPage ''overrideDateToString'', getProp params ''timezoneId'']) (\<lambda>_.
       returnM emptyResult)
     else if command = JStr ''setTouchEmulationEnabled'' then
       bindM (if truthy (getProp params ''enabled'')
              then backendCall w (OnPage page) ''evaluateOnNewDocument'' [inPage ''maxTouchPoints'']
              else returnM JUndefined) (\<lambda>_.
       returnM emptyResult)
     else if command = JStr ''setEmulatedMedia'' then
       (let media = getProp params ''media'';
            features = getProp params ''features''
        in bindM (if truthy media then backendCall w (OnPage page) ''emulateMediaType'' [media]
                  else returnM JUndefined) (\<lambda>_.
           bindM (if truthy features then
                    (case features of
                       JArr fs \<Rightarrow>
                         (if \<exists>f \<in> set fs. nullish f
                          then readError (hd (filter nullish fs)) ''name''
                          else backendCall w (OnPage page) ''emulateMediaFeatures''
                                 [JArr (map (\<lambda>f. JObj [(''name'', getProp f ''name''), (''value'', getProp f ''value'')]) fs)])
                     | _ \<Rightarrow> typeError ''features.map is not a function'')
                  else returnM JUndefined) (\<lambda>_.
           returnM emptyResult)))
     else if command = JStr ''setDefaultBackgroundColorOverride'' then
       (let color = getProp params ''color'' in
        bindM (if truthy color then
                 (let r = getProp color ''r''; g = getProp color ''g''; b = getProp color ''b'';
                      a = (if getProp color ''a'' = JUndefined then JNum 1 else getProp color ''a'')
                  in bindM (stringOf r) (\<lambda>tr.
                     bindM (stringOf g) (\<lambda>tg.
                     bindM (stringOf b) (\<lambda>tb.
                     bindM (stringOf a) (\<lambda>ta.
                     backendCall w (OnPage page) ''evaluate''
                       [inPage ''setBackgroundColor'',
                        JStr (''rgba('' @ tr @ '', '' @ tg @ '', '' @ tb @ '', '' @ ta @ '')'')])))))
               else returnM JUndefined) (\<lambda>_.
        returnM emptyResult))
     else templateError ''Unknown Emulation method: '' command)"

section \<open>Fetch domain\<close>

text \<open>The object built from a list of \<^verbatim>\<open>{name, value}\<close> pairs, as \<^verbatim>\<open>headers.reduce\<close> in
  \<^verbatim>\<open>continueRequest\<close> and the loop in \<^verbatim>\<open>fulfillRequest\<close> build it, one assignment
  \<^verbatim>\<open>acc[h.name] = h.value\<close> after the other, starting from \<^verbatim>\<open>{}\<close>. During the loop the object
  is its own properties in property order and its prototype: \<^verbatim>\<open>Object.prototype\<close> at first.

  An assignment reads \<^verbatim>\<open>h.name\<close> (a \<^verbatim>\<open>TypeError\<close> on a null or undefined \<open>h\<close>) and converts it to
  the property key (a \<^verbatim>\<open>TypeError\<close> when it has no string form). The key \<^verbatim>\<open>__proto__\<close> is
  special: unless the object has an own property of that name, or its prototype chain does
  not reach the accessor of \<^verbatim>\<open>Object.prototype\<close> (the prototype is null, or a parsed object
  with an own \<^verbatim>\<open>__proto__\<close> property), the assignment runs that accessor, which makes an
  object, array or null value the new prototype, ignores any other value, and creates no
  property. Every other assignment sets an own property: an existing key keeps its
  place, a new array index (a canonical decimal below \<open>2^32 - 1\<close>) goes among the indices
  in ascending order, before all other keys, any other new key goes last.\<close>

datatype proto = ObjectPrototype | NoPrototype | Inherits jsval

definition isArrayIndex :: "string \<Rightarrow> bool" where
  "isArrayIndex k =
     (k \<noteq> [] \<and> list_all (\<lambda>c. 48 \<le> (of_char c :: nat) \<and> (of_char c :: nat) \<le> 57) k
      \<and> (k = ''0'' \<or> hd k \<noteq> CHR ''0'')
      \<and> foldl (\<lambda>n c. 10 * n + ((of_char c :: nat) - 48)) 0 k < 4294967295)"

definition indexValue :: "string \<Rightarrow> nat" where
  "indexValue k = foldl (\<lambda>n c. 10 * n + ((of_char c :: nat) - 48)) 0 k"

fun insertIndex :: "string \<Rightarrow> jsval \<Rightarrow> (string \<times> jsval) list \<Rightarrow> (string \<times> jsval) list" where
  "insertIndex k v [] = [(k, v)]"
| "insertIndex k v ((k', v') # rest) =
     (if isArrayIndex k' \<and> indexValue k' < indexValue k then (k', v') # insertIndex k v rest
      else (k, v) # (k', v') # rest)"

definition setOwn :: "string \<Rightarrow> jsval \<Rightarrow> (string \<times> jsval) list \<Rightarrow> (string \<times> jsval) list" where
  "setOwn k v props =
     (if k \<in> fst ` set props then AList.update k v props
      else if isArrayIndex k then insertIndex k v props
      else props @ [(k, v)])"

definition setterReachable :: "proto \<Rightarrow> bool" where
  "setterReachable p =
     (case p of
        ObjectPrototype \<Rightarrow> True
      | NoPrototype \<Rightarrow> False
      | Inherits v \<Rightarrow> (case v of JObj kvs \<Rightarrow> ''__proto__'' \<notin> fst ` set kvs | _ \<Rightarrow> True))"

definition assignProperty ::
  "string \<Rightarrow> jsval \<Rightarrow> (string \<times> jsval) list \<times> proto \<Rightarrow> (string \<times> jsval) list \<times> proto" where
  "assignProperty k v acc =
     (case acc of (props, p) \<Rightarrow>
        (if k = ''__proto__'' \<and> k \<notin> fst ` set props \<and> setterReachable p then
           (props, case v of JObj kvs \<Rightarrow> Inherits v | JArr xs \<Rightarrow> Inherits v | JNull \<Rightarrow> NoPrototype | _ \<Rightarrow> p)
         else (setOwn k v props, p)))"

fun assignHeaders ::
  "jsval list \<Rightarrow> (string \<times> jsval) list \<times> proto \<Rightarrow> thrown + (string \<times> jsval) list \<times> proto" where
  "assignHeaders [] acc = Inr acc"
| "assignHeaders (h # hs) acc =
     (if nullish h then Inl (JsError (readErrorText h ''name''))
      else (case js_String (getProp h ''name'') of
              Inl err \<Rightarrow> Inl err
            | Inr k \<Rightarrow> assignHeaders hs (assignProperty k (getProp h ''value'') acc)))"

text \<open>The object handed to the backend is recorded by its own properties.\<close>

definition headerObject :: "jsval list \<Rightarrow> thrown + jsval" where
  "headerObject hs = map_sum id (\<lambda>acc. JObj (fst acc)) (assignHeaders hs ([], ObjectPrototype))"

text \<open>\<^verbatim>\<open>if (headers) overrides.headers = headers.reduce(...)\<close> in \<^verbatim>\<open>continueRequest\<close>, and
  \<^verbatim>\<open>const headers = {}; if (responseHeaders) for (const h of responseHeaders) ...\<close> in
  \<^verbatim>\<open>fulfillRequest\<close>.\<close>

definition headerOverride :: "jsval \<Rightarrow> thrown + (string \<times> jsval) list" where
  "headerOverride headers =
     (if truthy headers then
        (case headers of
           JArr hs \<Rightarrow> map_sum id (\<lambda>obj. [(''headers'', obj)]) (headerObject hs)
         | _ \<Rightarrow> Inl (JsError ''headers.reduce is not a function''))
      else Inr [])"

definition responseHeaderObject :: "jsval \<Rightarrow> thrown + jsval" where
  "responseHeaderObject responseHeaders =
     (if truthy responseHeaders then
        (if \<not> spreadable responseHeaders then Inl (JsError ''responseHeaders is not iterable'')
         else headerObject (spreadArgs responseHeaders))
      else Inr (JObj []))"

text \<open>The chain of conditionals in \<^verbatim>\<open>failRequest\<close> that maps a CDP error reason to an abort
  reason of the backend.\<close>

definition abortReasonOf :: "string \<Rightarrow> string" where
  "abortReasonOf errorReason =
     (if str_includes (toLowerCase errorReason) ''access'' then ''accessdenied''
      else if str_includes (toLowerCase errorReason) ''address'' then ''addressunreachable''
      else if str_includes (toLowerCase errorReason) ''blocked'' then ''blockedbyclient''
      else if str_includes (toLowerCase errorReason) ''connection'' then ''connectionfailed''
      else if str_includes (toLowerCase errorReason) ''timeout'' then ''timedout''
      else ''failed'')"

text \<open>\<^verbatim>\<open>const pending = session.pendingRequests.get(requestId);
  if (!pending) throw new Error(`Request not found: ${requestId}`);\<close>\<close>

definition requirePending :: "jsval \<Rightarrow> http_request cdp" where
  "requirePending requestId =
     bindM getS (\<lambda>s.
     case strMap_get (pendingRequests s) requestId of
       None \<Rightarrow> templateError ''Request not found: '' requestId
     | Some request \<Rightarrow> returnM request)"

definition deletePending :: "jsval \<Rightarrow> unit cdp" where
  "deletePending requestId =
     modifyS (\<lambda>s. s\<lparr>pendingRequests := strMap_delete requestId (pendingRequests s)\<rparr>)"

definition handleFetch :: "page \<Rightarrow> jsval \<Rightarrow> jsval \<Rightarrow> backend \<Rightarrow> jsval cdp" where
  "handleFetch page command params w =
    (if command = JStr ''enable'' then
       (let patterns = getProp params ''patterns'' in
        bindM (modifyS (\<lambda>s. s\<lparr>requestInterceptionEnabled := True\<rparr>)) (\<lambda>_.
        bindM (backendCall w (OnPage page) ''setRequestInterception'' [JBool True]) (\<lambda>_.
        bindM (liftE (OnPage page) ''on'' [JStr ''request''] (Inr ())) (\<lambda>_.
        bindM (modifyS (\<lambda>s. s\<lparr>requestListeners := requestListeners s @ [(page, patterns)]\<rparr>)) (\<lambda>_.
        returnM emptyResult)))))
     else if command = JStr ''disable'' then
       bindM (modifyS (\<lambda>s. s\<lparr>requestInterceptionEnabled := False\<rparr>)) (\<lambda>_.
       bindM (backendCall w (OnPage page) ''setRequestInterception'' [JBool False]) (\<lambda>_.
       returnM emptyResult))
     else if command = JStr ''continueRequest'' then
       (let requestId = getProp params ''requestId'';
            headers = getProp params ''headers''
        in bindM (requirePending requestId) (\<lambda>request.
           bindM (pureM (headerOverride headers)) (\<lambda>headerEntry.
           let overrides = optEntry params ''url'' ''url'' @ optEntry params ''method'' ''method''
                         @ optEntry params ''postData'' ''postData'' @ headerEntry
           in bindM (backendCall w (OnRequest request) ''continue''
                       [if overrides \<noteq> [] then JObj overrides else JUndefined]) (\<lambda>_.
              bindM (deletePending requestId) (\<lambda>_.
              returnM emptyResult)))))
     else if command = JStr ''fulfillRequest'' then
       (let requestId = getProp params ''requestId'';
            responseCode = getProp params ''responseCode'';
            responseHeaders = getProp params ''responseHeaders'';
            body = getProp params ''body''
        in bindM (requirePending requestId) (\<lambda>request.
           bindM (pureM (responseHeaderObject responseHeaders)) (\<lambda>headers.
           bindM (if truthy body then backendCall w OnRuntime ''Buffer.from'' [body, JStr ''base64'']
                  else returnM JUndefined) (\<lambda>bodyBuffer.
           bindM (backendCall w (OnRequest request) ''respond''
                    [JObj [(''status'', responseCode), (''headers'', headers), (''body'', bodyBuffer)]]) (\<lambda>_.
           bindM (deletePending requestId) (\<lambda>_.
           returnM emptyResult))))))
     else if command = JStr ''failRequest'' then
       (let requestId = getProp params ''requestId'';
            errorReason = getProp params ''errorReason''
        in bindM (requirePending requestId) (\<lambda>request.
           case errorReason of
             JStr reason \<Rightarrow>
               (let abortReason = abortReasonOf reason in
                bindM (backendCall w (OnRequest request) ''abort'' [JStr abortReason]) (\<lambda>_.
                bindM (deletePending requestId) (\<lambda>_.
                returnM emptyResult)))
           | JUndefined \<Rightarrow> readError JUndefined ''toLowerCase''
           | JNull \<Rightarrow> readError JNull ''toLowerCase''
           | _ \<Rightarrow> typeError ''errorReason.toLowerCase is not a function''))
     else if command = JStr ''getResponseBody'' then
       returnM (JObj [(''body'', JStr []), (''base64Encoded'', JBool False)])
     else templateError ''Unknown Fetch method: '' command)"

subsection \<open>The request listener\<close>

text \<open>The loop over \<^verbatim>\<open>patterns\<close> in the listener that \<^verbatim>\<open>Fetch.enable\<close> registers: whether
  some pattern has no \<^verbatim>\<open>urlPattern\<close> or one that the url matches.\<close>

fun matchPatterns :: "backend \<Rightarrow> string \<Rightarrow> jsval list \<Rightarrow> thrown + bool" where
  "matchPatterns w url [] = Inr False"
| "matchPatterns w url (pattern # rest) =
     (if nullish pattern then Inl (JsError (readErrorText pattern ''urlPattern''))
      else if \<not> truthy (getProp pattern ''urlPattern'') then Inr True
      else (case urlMatch w url (getProp pattern ''urlPattern'') of
              Inl t \<Rightarrow> Inl t
            | Inr True \<Rightarrow> Inr True
            | Inr False \<Rightarrow> matchPatterns w url rest))"

definition shouldIntercept :: "backend \<Rightarrow> string \<Rightarrow> jsval \<Rightarrow> thrown + bool" where
  "shouldIntercept w url patterns =
     (if \<not> truthy patterns then Inr True
      else if \<not> spreadable patterns then Inl (JsError ''patterns is not iterable'')
      else (case matchPatterns w url (spreadArgs patterns) of
              Inl t \<Rightarrow> Inl t
            | Inr b \<Rightarrow> Inr (patterns = JArr [] \<or> b)))"

definition requestListener :: "backend \<Rightarrow> nat \<Rightarrow> jsval \<Rightarrow> http_request \<Rightarrow> unit cdp" where
  "requestListener w n patterns request =
     bindM getS (\<lambda>s.
     if \<not> requestInterceptionEnabled s then
       bindM (backendCall w (OnRequest request) ''continue'' []) (\<lambda>_. returnM ())
     else
       bindM (uuidB w n) (\<lambda>requestId.
       bindM (liftE OnRuntime ''match'' [JStr (req_url request), patterns]
                (shouldIntercept w (req_url request) patterns)) (\<lambda>intercept.
       if intercept then
         bindM (modifyS (\<lambda>s. s\<lparr>pendingRequests := (pendingRequests s)(requestId \<mapsto> request)\<rparr>)) (\<lambda>_.
         sendEvent ''Fetch.requestPaused'' (JObj [
           (''requestId'', JStr requestId),
           (''request'', JObj [
              (''url'', JStr (req_url request)),
              (''method'', JStr (req_method request)),
              (''headers'', req_headers request),
              (''postData'', req_postData request)]),
           (''frameId'', JStr (defaultTargetId s)),
           (''resourceType'', JStr (req_resourceType request))]))
       else
         bindM (backendCall w (OnRequest request) ''continue'' []) (\<lambda>_. returnM ()))))"

text \<open>The page emits \<^verbatim>\<open>'request'\<close>: every listener registered on that page runs, in the
  order of registration; the \<open>n\<close>-th one draws the \<open>n\<close>-th identifier. A listener is an
  \<^verbatim>\<open>async\<close> function whose promise nobody awaits, so what it throws is dropped.\<close>

fun fireRequest :: "backend \<Rightarrow> nat \<Rightarrow> page \<Rightarrow> http_request \<Rightarrow> (page \<times> jsval) list \<Rightarrow> unit cdp" where
  "fireRequest w n page request [] = returnM ()"
| "fireRequest w n page request ((p, patterns) # rest) =
     (if p = page then
        bindM (tryM (requestListener w n patterns request) (\<lambda>err. returnM ())) (\<lambda>_.
        fireRequest w (n + 1) page request rest)
      else fireRequest w n page request rest)"

definition onRequest :: "backend \<Rightarrow> page \<Rightarrow> http_request \<Rightarrow> unit cdp" where
  "onRequest w page request =
     bindM getS (\<lambda>s. fireRequest w 0 page request (requestListeners s))"

section \<open>Command dispatcher and session\<close>

text \<open>\<^verbatim>\<open>const [domain, command] = method.split('.')\<close>: the element at an index, undefined
  beyond the end.\<close>

definition element :: "string list \<Rightarrow> nat \<Rightarrow> jsval" where
  "element xs i = (if i < length xs then JStr (xs ! i) else JUndefined)"

text \<open>\<^verbatim>\<open>if (!page) throw new Error(`Target not found: ${targetId}`);\<close>\<close>

definition requireTarget :: "page option \<Rightarrow> jsval \<Rightarrow> page cdp" where
  "requireTarget page targetId =
     (case page of
        None \<Rightarrow> templateError ''Target not found: '' targetId
      | Some p \<Rightarrow> returnM p)"

definition handleCDPMethod :: "jsval \<Rightarrow> jsval \<Rightarrow> backend \<Rightarrow> jsval cdp" where
  "handleCDPMethod method params w =
    (case method of
       JStr m \<Rightarrow>
         (let domain = element (split_dot m) 0;
              command = element (split_dot m) 1
          in bindM getS (\<lambda>s.
             let targetId = orElse (getProp params ''targetId'') (JStr (defaultTargetId s));
                 page = pages_get s targetId
             in if domain = JStr ''Browser'' then handleBrowser command params w
                else if domain = JStr ''Target'' then handleTarget command params w
                else if domain = JStr ''Page'' then
                  bindM (requireTarget page targetId) (\<lambda>p. handlePage p command params w)
                else if domain = JStr ''Runtime'' then
                  bindM (requireTarget page targetId) (\<lambda>p. handleRuntime p command params w)
                else if domain = JStr ''DOM'' then
                  bindM (requireTarget page targetId) (\<lambda>p. handleDOM p command params w)
                else if domain = JStr ''Input'' then
                  bindM (requireTarget page targetId) (\<lambda>p. handleInput p command params w)
                else if domain = JStr ''Network'' then handleNetwork page command params w
                else if domain = JStr ''Emulation'' then
                  bindM (requireTarget page targetId) (\<lambda>p. handleEmulation p command params w)
                else if domain = JStr ''Fetch'' then
                  bindM (requireTarget page targetId) (\<lambda>p. handleFetch p command params w)
                else templateError ''Unknown domain: '' domain))
     | JUndefined \<Rightarrow> readError JUndefined ''split''
     | JNull \<Rightarrow> readError JNull ''split''
     | _ \<Rightarrow> typeError ''method.split is not a function'')"

text \<open>The \<^verbatim>\<open>'message'\<close> listener of \<^verbatim>\<open>initCDPSession\<close>. Its argument is what
  \<^verbatim>\<open>JSON.parse(event.data)\<close> gives: \<open>None\<close> when parsing throws. On the parsed value
  \<^verbatim>\<open>null\<close> the access \<^verbatim>\<open>request.method\<close> throws outside both \<^verbatim>\<open>try\<close> blocks, so nothing is
  sent. The message of \<^verbatim>\<open>sendError\<close> is
  \<^verbatim>\<open>err instanceof Error ? err.message : 'Unknown error'\<close>.\<close>

definition errorMessage :: "thrown \<Rightarrow> string" where
  "errorMessage err = (case err of JsError m \<Rightarrow> m | NonError v \<Rightarrow> ''Unknown error'')"

text \<open>\<^verbatim>\<open>try { const result = await handleCDPMethod(...); sendResponse(ws, request.id, result); }
  catch (err) { sendError(ws, request.id, -32000, ...); }\<close> on what the handler did.\<close>

definition respond :: "jsval \<Rightarrow> effect list \<times> (thrown + jsval) \<times> session \<Rightarrow> effect list \<times> session" where
  "respond requestId out =
     (case out of
        (es, Inr result, s') \<Rightarrow> (es @ [Send (Response requestId result)], s')
      | (es, Inl err, s') \<Rightarrow> (es @ [Send (ErrorResponse requestId (- 32000) (errorMessage err))], s'))"

definition onMessage :: "backend \<Rightarrow> jsval option \<Rightarrow> session \<Rightarrow> effect list \<times> session" where
  "onMessage w parsed s =
     (case parsed of
        None \<Rightarrow> ([], s)
      | Some request \<Rightarrow>
          (if nullish request then ([], s)
           else respond (getProp request ''id'')
                  (handleCDPMethod (getProp request ''method'')
                     (orElse (getProp request ''params'') (JObj [])) w s)))"

text \<open>\<^verbatim>\<open>initCDPSession\<close> up to the registration of the listeners: the browser is
  launched, the default page opened, the session built and \<^verbatim>\<open>Target.targetCreated\<close>
  sent; when the launch or the page fails the socket is closed with code 1011 and there
  is no session.\<close>

definition initialSession :: "string \<Rightarrow> page \<Rightarrow> session" where
  "initialSession targetId page =
     \<lparr> pages = [(targetId, page)],
       defaultTargetId = targetId,
       nodeIdCounter = 1,
       nodeMap = Map.empty,
       objectIdCounter = 1,
       objectMap = Map.empty,
       scriptsToEvaluateOnNewDocument = Map.empty,
       extraHTTPHeaders = Map.empty,
       requestInterceptionEnabled = False,
       pendingRequests = Map.empty,
       requestListeners = [] \<rparr>"

definition initCDPSession :: "backend \<Rightarrow> effect list \<times> session option" where
  "initCDPSession w =
     (case launch w of
        Inl err \<Rightarrow> ([Call OnRuntime ''puppeteer.launch'' [], Close 1011 ''Browser launch failed''], None)
      | Inr u \<Rightarrow>
          (case newPage w of
             Inl err \<Rightarrow>
               ([Call OnRuntime ''puppeteer.launch'' [], Call OnBrowser ''newPage'' [],
                 Close 1011 ''Browser launch failed''], None)
           | Inr page \<Rightarrow>
               (let targetId = randomUUID w 0 in
                ([Call OnRuntime ''puppeteer.launch'' [], Call OnBrowser ''newPage'' [],
                  Call OnRuntime ''crypto.randomUUID'' [],
                  Send (Event ''Target.targetCreated''
                    (JObj [(''targetInfo'', targetInfo (JStr targetId) (JStr []) (JStr ''about:blank''))]))],
                 Some (initialSession targetId page)))))"

text \<open>The \<^verbatim>\<open>'close'\<close> listener: the browser is closed (an error is logged and dropped)
  and the session is gone.\<close>

definition onClose :: "session \<Rightarrow> effect list \<times> session option" where
  "onClose s = ([Call OnBrowser ''close'' []], None)"

text \<open>What reaches an open session: a text message on the socket, or a request of one of
  its pages. \<open>step\<close> is one input handled from its arrival to its end, with the backend
  answers of its turn; \<open>run\<close> is a sequence of inputs of which each is handled to its end
  before the next one arrives. The listeners are \<^verbatim>\<open>async\<close> functions and nothing queues
  the inputs: one that arrives while a handler is suspended at an \<^verbatim>\<open>await\<close> is taken at
  once. \<open>run\<close> does not cover such arrivals; for the commands that resolve a parked
  request they are written out below, in the section on pipelined frames.\<close>

datatype input = Message "jsval option" | PageRequest page http_request

definition step :: "backend \<Rightarrow> input \<Rightarrow> session \<Rightarrow> effect list \<times> session" where
  "step w i s =
     (case i of
        Message parsed \<Rightarrow> onMessage w parsed s
      | PageRequest page request \<Rightarrow>
          (case onRequest w page request s of (es, r, s') \<Rightarrow> (es, s')))"

fun run :: "session \<Rightarrow> (input \<times> backend) list \<Rightarrow> session" where
  "run s [] = s"
| "run s ((i, w) # rest) = run (snd (step w i s)) rest"

section \<open>Pipelined frames\<close>

text \<open>\<^verbatim>\<open>Fetch.continueRequest\<close>, \<^verbatim>\<open>fulfillRequest\<close> and \<^verbatim>\<open>failRequest\<close> each await the backend
  once, at \<^verbatim>\<open>await request.continue(...)\<close>, \<^verbatim>\<open>await request.respond(...)\<close> and
  \<^verbatim>\<open>await request.abort(...)\<close>. Up to there the listener, \<^verbatim>\<open>handleCDPMethod\<close> and \<^verbatim>\<open>handleFetch\<close>
  run without a break: the parked request is looked up, the arguments are built and the
  backend method is called. When the promise settles the handler goes on:
  \<^verbatim>\<open>session.pendingRequests.delete(requestId); return {};\<close>, and the listener sends the
  response, or the error frame when the promise rejected. Between the two parts other
  inputs are taken.

  \<open>resolutionCall\<close> is the first part, giving the backend call that is awaited;
  \<open>afterResolution\<close> is the second.\<close>

definition resolutionCall :: "jsval \<Rightarrow> jsval \<Rightarrow> backend \<Rightarrow> (receiver \<times> string \<times> jsval list) cdp" where
  "resolutionCall command params w =
    (if command = JStr ''continueRequest'' then
       (let requestId = getProp params ''requestId'';
            headers = getProp params ''headers''
        in bindM (requirePending requestId) (\<lambda>request.
           bindM (pureM (headerOverride headers)) (\<lambda>headerEntry.
           let overrides = optEntry params ''url'' ''url'' @ optEntry params ''method'' ''method''
                         @ optEntry params ''postData'' ''postData'' @ headerEntry
           in returnM (OnRequest request, ''continue'',
                       [if overrides \<noteq> [] then JObj overrides else JUndefined]))))
     else if command = JStr ''fulfillRequest'' then
       (let requestId = getProp params ''requestId'';
            responseCode = getProp params ''responseCode'';
            responseHeaders = getProp params ''responseHeaders'';
            body = getProp params ''body''
        in bindM (requirePending requestId) (\<lambda>request.
           bindM (pureM (responseHeaderObject responseHeaders)) (\<lambda>headers.
           bindM (if truthy body then backendCall w OnRuntime ''Buffer.from'' [body, JStr ''base64'']
                  else returnM JUndefined) (\<lambda>bodyBuffer.
           returnM (OnRequest request, ''respond'',
                    [JObj [(''status'', responseCode), (''headers'', headers), (''body'', bodyBuffer)]])))))
     else
       (let requestId = getProp params ''requestId'';
            errorReason = getProp params ''errorReason''
        in bindM (requirePending requestId) (\<lambda>request.
           case errorReason of
             JStr reason \<Rightarrow> returnM (OnRequest request, ''abort'', [JStr (abortReasonOf reason)])
           | JUndefined \<Rightarrow> readError JUndefined ''toLowerCase''
           | JNull \<Rightarrow> readError JNull ''toLowerCase''
           | _ \<Rightarrow> typeError ''errorReason.toLowerCase is not a function'')))"








section \<open>The WebSocket upgrade route\<close>

text \<open>\<^verbatim>\<open>timingSafeEqual\<close> reads its strings by \<^verbatim>\<open>charCodeAt\<close>, that is as lists of 16-bit
  code units; \<^verbatim>\<open>^\<close> and \<^verbatim>\<open>|=\<close> work on 32-bit integers. The loop is written with its index;
  next to \<^verbatim>\<open>result\<close> it counts the iterations it makes.\<close>

type_synonym codeunit = "16 word"

function compareLoop :: "codeunit list \<Rightarrow> codeunit list \<Rightarrow> nat \<Rightarrow> 32 word \<times> nat \<Rightarrow> 32 word \<times> nat" where
  "compareLoop a b i (result, n) =
     (if i < length a
      then compareLoop a b (i + 1) (result OR (ucast (a ! i) XOR ucast (b ! i)), n + 1)
      else (result, n))"
  by pat_completeness auto
termination
  by (relation "measure (\<lambda>(a, b, i, r). length a - i)") auto

declare compareLoop.simps [simp del]

definition timingSafeEqualRun :: "codeunit list \<Rightarrow> codeunit list \<Rightarrow> bool \<times> nat" where
  "timingSafeEqualRun a b =
     (if length a \<noteq> length b then (False, 0)
      else (case compareLoop a b 0 (0, 0) of (result, n) \<Rightarrow> (result = 0, n)))"

definition timingSafeEqual :: "codeunit list \<Rightarrow> codeunit list \<Rightarrow> bool" where
  "timingSafeEqual a b = fst (timingSafeEqualRun a b)"

definition iterations :: "codeunit list \<Rightarrow> codeunit list \<Rightarrow> nat" where
  "iterations a b = snd (timingSafeEqualRun a b)"

text \<open>The answers of \<^verbatim>\<open>cdp.get('/')\<close>: a JSON body with a status and its \<^verbatim>\<open>error\<close> text, or
  the upgrade (status 101).\<close>

datatype reply = JsonReply nat string | SwitchingProtocols

text \<open>\<^verbatim>\<open>cdp.get('/')\<close> from the \<^verbatim>\<open>Upgrade\<close> header, the \<^verbatim>\<open>secret\<close> query parameter (\<open>None\<close>
  when absent), \<^verbatim>\<open>c.env.CDP_SECRET\<close> (\<open>None\<close> when not set) and whether \<^verbatim>\<open>c.env.BROWSER\<close> is
  bound. \<^verbatim>\<open>!s\<close> holds for an absent and for an empty string.\<close>

definition missing :: "'a list option \<Rightarrow> bool" where
  "missing s = (case s of None \<Rightarrow> True | Some t \<Rightarrow> t = [])"

definition cdpUpgrade :: "string option \<Rightarrow> codeunit list option \<Rightarrow> codeunit list option \<Rightarrow> bool \<Rightarrow> reply" where
  "cdpUpgrade upgradeHeader providedSecret expectedSecret browser =
     (if map_option toLowerCase upgradeHeader \<noteq> Some ''websocket''
      then JsonReply 200 ''WebSocket upgrade required''
      else
        (case expectedSecret of
           None \<Rightarrow> JsonReply 503 ''CDP endpoint not configured''
         | Some expected \<Rightarrow>
             (if expected = [] then JsonReply 503 ''CDP endpoint not configured''
              else
                (case providedSecret of
                   None \<Rightarrow> JsonReply 401 ''Unauthorized''
                 | Some provided \<Rightarrow>
                     (if provided = [] \<or> \<not> timingSafeEqual provided expected
                      then JsonReply 401 ''Unauthorized''
                      else if \<not> browser then JsonReply 503 ''Browser Rendering not configured''
                      else SwitchingProtocols)))))"

section \<open>Reading a run\<close>

text \<open>The \<^verbatim>\<open>case\<close> labels of the dispatcher and of the handlers.\<close>

definition knownDomains :: "string list" where
  "knownDomains = [''Browser'', ''Target'', ''Page'', ''Runtime'', ''DOM'', ''Input'', ''Network'',
                   ''Emulation'', ''Fetch'']"

definition knownCommands :: "string \<Rightarrow> string list" where
  "knownCommands domain =
    (if domain = ''Browser'' then [''getVersion'', ''close'']
     else if domain = ''Target'' then [''createTarget'', ''closeTarget'', ''getTargets'', ''attachToTarget'']
     else if domain = ''Page'' then
       [''navigate'', ''reload'', ''getFrameTree'', ''captureScreenshot'', ''getLayoutMetrics'',
        ''bringToFront'', ''setContent'', ''printToPDF'', ''addScriptToEvaluateOnNewDocument'',
        ''removeScriptToEvaluateOnNewDocument'', ''handleJavaScriptDialog'', ''stopLoading'',
        ''getNavigationHistory'', ''navigateToHistoryEntry'', ''setBypassCSP'', ''enable'', ''disable'']
     else if domain = ''Runtime'' then
       [''evaluate'', ''callFunctionOn'', ''getProperties'', ''releaseObject'', ''releaseObjectGroup'',
        ''enable'', ''disable'']
     else if domain = ''DOM'' then
       [''getDocument'', ''querySelector'', ''querySelectorAll'', ''getOuterHTML'', ''getAttributes'',
        ''setAttributeValue'', ''focus'', ''getBoxModel'', ''scrollIntoViewIfNeeded'', ''removeNode'',
        ''setNodeValue'', ''setFileInputFiles'', ''enable'', ''disable'']
     else if domain = ''Input'' then [''dispatchMouseEvent'', ''dispatchKeyEvent'', ''insertText'']
     else if domain = ''Network'' then
       [''enable'', ''disable'', ''setCacheDisabled'', ''setExtraHTTPHeaders'', ''setCookie'', ''setCookies'',
        ''getCookies'', ''deleteCookies'', ''clearBrowserCookies'', ''setUserAgentOverride'']
     else if domain = ''Emulation'' then
       [''setDeviceMetricsOverride'', ''setUserAgentOverride'', ''clearDeviceMetricsOverride'',
        ''setGeolocationOverride'', ''clearGeolocationOverride'', ''setTimezoneOverride'',
        ''setTouchEmulationEnabled'', ''setEmulatedMedia'', ''setDefaultBackgroundColorOverride'']
     else if domain = ''Fetch'' then
       [''enable'', ''disable'', ''continueRequest'', ''fulfillRequest'', ''failRequest'', ''getResponseBody'']
     else [])"

text \<open>Whether a method string is routed to the given domain and command.\<close>

definition routedTo :: "jsval \<Rightarrow> string \<Rightarrow> string \<Rightarrow> bool" where
  "routedTo method domain command =
     (case method of
        JStr m \<Rightarrow> element (split_dot m) 0 = JStr domain \<and> element (split_dot m) 1 = JStr command
      | _ \<Rightarrow> False)"

text \<open>A backend whose every primitive resolves with undefined, that finds no element and
  matches no url; and a command frame.\<close>

definition quietBackend :: backend where
  "quietBackend =
     \<lparr> call = (\<lambda>rcv name. Inr JUndefined),
       launch = Inr (),
       newPage = Inr 1,
       randomUUID = (\<lambda>n. ''uuid-'' @ digits n),
       pageUrl = (\<lambda>p. ''about:blank''),
       urlOrigin = (\<lambda>u. Inr ''null''),
       newFunction = (\<lambda>src. Inr ()),
       urlMatch = (\<lambda>u pattern. Inr False),
       now = JNum 0 \<rparr>"

definition answering :: "receiver \<Rightarrow> string \<Rightarrow> thrown + jsval \<Rightarrow> backend" where
  "answering rcv name r = quietBackend\<lparr>call := (call quietBackend)(rcv := (call quietBackend rcv)(name := r))\<rparr>"

definition commandFrame :: "int \<Rightarrow> string \<Rightarrow> (string \<times> jsval) list \<Rightarrow> input" where
  "commandFrame n method params =
     Message (Some (JObj [(''id'', JNum n), (''method'', JStr method), (''params'', JObj params)]))"

text \<open>The results of the response frames among the effects of a turn.\<close>

definition responses :: "effect list \<Rightarrow> jsval list" where
  "responses es = concat (map (\<lambda>e. case e of Send (Response i r) \<Rightarrow> [r] | _ \<Rightarrow> []) es)"

text \<open>The node ids that a result takes from the session's counter: the \<^verbatim>\<open>nodeId\<close> of
  \<^verbatim>\<open>DOM.querySelector\<close>, the \<^verbatim>\<open>nodeIds\<close> of \<^verbatim>\<open>DOM.querySelectorAll\<close>, the \<^verbatim>\<open>root.nodeId\<close> of
  \<^verbatim>\<open>DOM.getDocument\<close>. The number 0 is the answer "no node" of \<^verbatim>\<open>querySelector\<close>, not an id.\<close>

definition positiveIds :: "jsval list \<Rightarrow> nat list" where
  "positiveIds xs = concat (map (\<lambda>x. case x of JNum n \<Rightarrow> (if 0 < n then [nat n] else []) | _ \<Rightarrow> []) xs)"

definition allocatedNodeIdsIn :: "jsval \<Rightarrow> jsval \<Rightarrow> nat list" where
  "allocatedNodeIdsIn method result =
     (if routedTo method ''DOM'' ''getDocument'' then positiveIds [getProp (getProp result ''root'') ''nodeId'']
      else if routedTo method ''DOM'' ''querySelector'' then positiveIds [getProp result ''nodeId'']
      else if routedTo method ''DOM'' ''querySelectorAll'' then
        (case getProp result ''nodeIds'' of JArr xs \<Rightarrow> positiveIds xs | _ \<Rightarrow> [])
      else [])"

text \<open>All node ids that a result hands out. The result of \<^verbatim>\<open>DOM.getDocument\<close> is a tree of
  nodes: the root with its \<^verbatim>\<open>nodeId\<close> from the counter, and in \<^verbatim>\<open>children\<close> the node that
  \<^verbatim>\<open>serializeNode\<close> built in the page, where every node has
  \<^verbatim>\<open>nodeId: Math.floor(Math.random() * 1000000)\<close> and, down to the requested depth, its own
  \<^verbatim>\<open>children\<close>. \<open>nodeIdsOfNode\<close> reads a node's id and then those of its children, in the
  order of the document.\<close>

definition ownNodeId :: "(string \<times> jsval) list \<Rightarrow> nat list" where
  "ownNodeId kvs = (case map_of kvs ''nodeId'' of Some (JNum n) \<Rightarrow> (if 0 \<le> n then [nat n] else []) | _ \<Rightarrow> [])"

fun nodeIdsOfNode :: "jsval \<Rightarrow> nat list"
  and nodeIdsOfChildren :: "(string \<times> jsval) list \<Rightarrow> nat list"
  and nodeIdsOfNodes :: "jsval list \<Rightarrow> nat list" where
  "nodeIdsOfNode (JObj kvs) = ownNodeId kvs @ nodeIdsOfChildren kvs"
| "nodeIdsOfNode JUndefined = []"
| "nodeIdsOfNode JNull = []"
| "nodeIdsOfNode (JBool b) = []"
| "nodeIdsOfNode (JNum n) = []"
| "nodeIdsOfNode (JStr t) = []"
| "nodeIdsOfNode (JArr xs) = []"
| "nodeIdsOfChildren [] = []"
| "nodeIdsOfChildren ((k, v) # kvs) =
     (if k = ''children'' then (case v of JArr xs \<Rightarrow> nodeIdsOfNodes xs | _ \<Rightarrow> [])
      else nodeIdsOfChildren kvs)"
| "nodeIdsOfNodes [] = []"
| "nodeIdsOfNodes (x # xs) = nodeIdsOfNode x @ nodeIdsOfNodes xs"

definition nodeIdsIn :: "jsval \<Rightarrow> jsval \<Rightarrow> nat list" where
  "nodeIdsIn method result =
     (if routedTo method ''DOM'' ''getDocument'' then nodeIdsOfNode (getProp result ''root'')
      else allocatedNodeIdsIn method result)"

text \<open>The object ids that a result hands out: the \<^verbatim>\<open>result.objectId\<close> of \<^verbatim>\<open>Runtime.evaluate\<close>
  and \<^verbatim>\<open>Runtime.callFunctionOn\<close>.\<close>

definition objectIdsIn :: "jsval \<Rightarrow> jsval \<Rightarrow> string list" where
  "objectIdsIn method result =
     (if routedTo method ''Runtime'' ''evaluate'' \<or> routedTo method ''Runtime'' ''callFunctionOn'' then
        (case getProp (getProp result ''result'') ''objectId'' of JStr oid \<Rightarrow> [oid] | _ \<Rightarrow> [])
      else [])"

definition methodOf :: "input \<Rightarrow> jsval" where
  "methodOf i = (case i of Message (Some request) \<Rightarrow> getProp request ''method'' | _ \<Rightarrow> JUndefined)"

definition paramsOf :: "input \<Rightarrow> jsval" where
  "paramsOf i =
     (case i of Message (Some request) \<Rightarrow> orElse (getProp request ''params'') (JObj []) | _ \<Rightarrow> JUndefined)"

definition issuedNodeIds :: "input \<Rightarrow> effect list \<Rightarrow> nat list" where
  "issuedNodeIds i es = concat (map (nodeIdsIn (methodOf i)) (responses es))"

definition allocatedNodeIds :: "input \<Rightarrow> effect list \<Rightarrow> nat list" where
  "allocatedNodeIds i es = concat (map (allocatedNodeIdsIn (methodOf i)) (responses es))"

definition issuedObjectIds :: "input \<Rightarrow> effect list \<Rightarrow> string list" where
  "issuedObjectIds i es = concat (map (objectIdsIn (methodOf i)) (responses es))"

text \<open>All ids handed out during a run, in the order of the frames.\<close>

fun nodeIdsOfRun :: "session \<Rightarrow> (input \<times> backend) list \<Rightarrow> nat list" where
  "nodeIdsOfRun s [] = []"
| "nodeIdsOfRun s ((i, w) # rest) =
     issuedNodeIds i (fst (step w i s)) @ nodeIdsOfRun (snd (step w i s)) rest"

fun allocatedNodeIdsOfRun :: "session \<Rightarrow> (input \<times> backend) list \<Rightarrow> nat list" where
  "allocatedNodeIdsOfRun s [] = []"
| "allocatedNodeIdsOfRun s ((i, w) # rest) =
     allocatedNodeIds i (fst (step w i s)) @ allocatedNodeIdsOfRun (snd (step w i s)) rest"

fun objectIdsOfRun :: "session \<Rightarrow> (input \<times> backend) list \<Rightarrow> string list" where
  "objectIdsOfRun s [] = []"
| "objectIdsOfRun s ((i, w) # rest) =
     issuedObjectIds i (fst (step w i s)) @ objectIdsOfRun (snd (step w i s)) rest"

text \<open>All effects of a run.\<close>

fun effectsOfRun :: "session \<Rightarrow> (input \<times> backend) list \<Rightarrow> effect list" where
  "effectsOfRun s [] = []"
| "effectsOfRun s ((i, w) # rest) = fst (step w i s) @ effectsOfRun (snd (step w i s)) rest"

text \<open>A list of numeric ids that is strictly increasing and lies between two values of a
  counter.\<close>

definition withinIds :: "nat \<Rightarrow> nat \<Rightarrow> nat list \<Rightarrow> bool" where
  "withinIds c c' ids = (sorted_wrt (<) ids \<and> (\<forall>n \<in> set ids. c \<le> n \<and> n < c'))"

text \<open>A \<^verbatim>\<open>Target.closeTarget\<close> command whose \<^verbatim>\<open>targetId\<close> is \<open>t\<close>.\<close>

definition closesTarget :: "string \<Rightarrow> input \<Rightarrow> bool" where
  "closesTarget t i =
     (routedTo (methodOf i) ''Target'' ''closeTarget'' \<and> getProp (paramsOf i) ''targetId'' = JStr t)"

text \<open>The page that the dispatcher resolves for a command:
  \<^verbatim>\<open>session.pages.get(params.targetId || session.defaultTargetId)\<close>.\<close>

definition addressedTarget :: "session \<Rightarrow> jsval \<Rightarrow> jsval" where
  "addressedTarget s params = orElse (getProp params ''targetId'') (JStr (defaultTargetId s))"

definition addressedPage :: "session \<Rightarrow> jsval \<Rightarrow> page option" where
  "addressedPage s params = pages_get s (addressedTarget s params)"

text \<open>The \<^verbatim>\<open>arguments\<close> of a \<^verbatim>\<open>callFunctionOn\<close> that \<^verbatim>\<open>args.map\<close> takes without a
  \<^verbatim>\<open>TypeError\<close> (absent, or an array with no null or undefined element), and the values
  they resolve to.\<close>

definition argumentList :: "jsval \<Rightarrow> jsval list option" where
  "argumentList params =
     (case orElse (getProp params ''arguments'') (JArr []) of
        JArr as \<Rightarrow> (if list_all (\<lambda>a. \<not> nullish a) as then Some as else None)
      | _ \<Rightarrow> None)"

text \<open>The message of what \<^verbatim>\<open>throw new Error(`prefix${v}`)\<close> throws: the \<^verbatim>\<open>Error\<close>'s, or the
  \<^verbatim>\<open>TypeError\<close>'s when \<open>v\<close> has no string form.\<close>

definition templateMessage :: "string \<Rightarrow> jsval \<Rightarrow> string" where
  "templateMessage prefix v =
     (case js_String v of Inr t \<Rightarrow> prefix @ t | Inl err \<Rightarrow> errorMessage err)"

definition idOf :: "input \<Rightarrow> jsval" where
  "idOf i = (case i of Message (Some request) \<Rightarrow> getProp request ''id'' | _ \<Rightarrow> JUndefined)"

text \<open>The command \<open>i\<close> is routed to the given domain and command, and the target it
  addresses resolves to \<open>page\<close> in the session \<open>s\<close>.\<close>

definition reaches :: "session \<Rightarrow> input \<Rightarrow> string \<Rightarrow> string \<Rightarrow> page \<Rightarrow> bool" where
  "reaches s i domain c page =
     (routedTo (methodOf i) domain c \<and> addressedPage s (paramsOf i) = Some page)"



text \<open>A property of the session that a handler keeps; the properties that no update of
  the handlers, other than removing a page or parking a request, can break; and the
  handlers whose effects are backend calls and events only (the response frames and
  \<^verbatim>\<open>ws.close\<close> belong to the listeners).\<close>

definition preserves :: "(session \<Rightarrow> bool) \<Rightarrow> 'a cdp \<Rightarrow> bool" where
  "preserves P m = (\<forall>s. P s \<longrightarrow> P (session_of (m s)))"

definition tolerates :: "(session \<Rightarrow> bool) \<Rightarrow> bool" where
  "tolerates P = (\<forall>s. P s \<longrightarrow>
      (\<forall>m. P (s\<lparr>extraHTTPHeaders := m\<rparr>)) \<and>
      (\<forall>m. P (s\<lparr>scriptsToEvaluateOnNewDocument := m\<rparr>)) \<and>
      (\<forall>m. P (s\<lparr>objectMap := m\<rparr>)) \<and>
      P (s\<lparr>objectIdCounter := incr (objectIdCounter s)\<rparr>) \<and>
      (\<forall>v. P (s\<lparr>nodeIdCounter := incr (nodeIdCounter s), nodeMap := (nodeMap s)(nodeIdCounter s \<mapsto> v)\<rparr>)) \<and>
      P (s\<lparr>nodeIdCounter := incr (nodeIdCounter s)\<rparr>) \<and>
      (\<forall>k. P (s\<lparr>nodeMap := nodeMap_delete k (nodeMap s)\<rparr>)) \<and>
      (\<forall>b. P (s\<lparr>requestInterceptionEnabled := b\<rparr>)) \<and>
      (\<forall>l. P (s\<lparr>requestListeners := l\<rparr>)) \<and>
      (\<forall>k. P (s\<lparr>pendingRequests := strMap_delete k (pendingRequests s)\<rparr>)) \<and>
      (\<forall>k v. P (s\<lparr>pages := AList.update k v (pages s)\<rparr>)))"

definition plainEffect :: "effect \<Rightarrow> bool" where
  "plainEffect e = (case e of Call r n a \<Rightarrow> True | Send (Event m p) \<Rightarrow> True | _ \<Rightarrow> False)"

definition plain :: "'a cdp \<Rightarrow> bool" where
  "plain m = (\<forall>s. list_all plainEffect (effects_of (m s)))"

section \<open>Properties\<close>

subsection \<open>The secret comparison\<close>

lemma xor_zero_iff: "((x::32 word) XOR y = 0) = (x = y)"
proof
  assume h: "x XOR y = 0"
  have "x = (x XOR y) XOR y" by (simp add: xor.assoc)
  then show "x = y" using h by simp
qed simp

lemma ucast_unit_inj: "((ucast (x::codeunit) :: 32 word) = ucast y) = (x = y)"
proof
  assume h: "(ucast x :: 32 word) = ucast y"
  have up: "is_up (ucast :: codeunit \<Rightarrow> 32 word)" by (simp add: is_up)
  have "uint x = uint (ucast x :: 32 word)" using uint_up_ucast[OF up] by simp
  also have "\<dots> = uint y" using h uint_up_ucast[OF up] by simp
  finally show "x = y" by (simp add: word_uint_eq_iff)
qed simp

lemma compareLoop_count: "i \<le> length a \<Longrightarrow> snd (compareLoop a b i (r, n)) = n + (length a - i)"
proof (induction a b i "(r, n)" arbitrary: r n rule: compareLoop.induct)
  case (1 a b i result n)
  show ?case
  proof (cases "i < length a")
    case True
    then show ?thesis using "1.hyps"[OF True] by (subst compareLoop.simps) simp
  next
    case False
    then show ?thesis using "1.prems" by (subst compareLoop.simps) simp
  qed
qed

lemma compareLoop_zero:
  "length a = length b \<Longrightarrow> i \<le> length a \<Longrightarrow>
   (fst (compareLoop a b i (r, n)) = 0) = (r = 0 \<and> drop i a = drop i b)"
proof (induction a b i "(r, n)" arbitrary: r n rule: compareLoop.induct)
  case (1 a b i result n)
  show ?case
  proof (cases "i < length a")
    case True
    have da: "drop i a = a ! i # drop (Suc i) a" using True by (simp add: Cons_nth_drop_Suc)
    have db: "drop i b = b ! i # drop (Suc i) b" using True "1.prems" by (simp add: Cons_nth_drop_Suc)
    show ?thesis
      using True "1.hyps"[OF True] "1.prems"
      by (subst compareLoop.simps) (auto simp: da db or_eq_0_iff xor_zero_iff ucast_unit_inj)
  next
    case False
    then show ?thesis using "1.prems" by (subst compareLoop.simps) simp
  qed
qed

lemma timingSafeEqual_iff: "timingSafeEqual a b = (a = b)"
proof (cases "length a = length b")
  case True
  then show ?thesis
    using compareLoop_zero[of a b 0 0 0]
    by (auto simp: timingSafeEqual_def timingSafeEqualRun_def split: prod.splits)
next
  case False
  then show ?thesis by (auto simp: timingSafeEqual_def timingSafeEqualRun_def)
qed

lemma iterations_eq: "iterations a b = (if length a = length b then length a else 0)"
  using compareLoop_count[of 0 a b 0 0]
  by (auto simp: iterations_def timingSafeEqualRun_def split: prod.splits)

text \<open>
  Claim C7. On a WebSocket upgrade with a configured (non-empty) secret, the route goes
  past the secret check exactly when the provided secret is the configured one, code
  unit for code unit, and answers 401 \<^verbatim>\<open>Unauthorized\<close> for every other provided secret
  (absent, empty, of another length, or differing in any position); what follows the
  check is the 503 for a missing browser binding or the upgrade. With no configured
  secret (absent or empty) the answer is 503 \<^verbatim>\<open>CDP endpoint not configured\<close>, whatever is
  provided. \<^verbatim>\<open>timingSafeEqual\<close> is equality of the two strings, and its loop makes as many
  iterations as the strings are long when the lengths agree (none when they differ), so
  the number of iterations does not depend on where the strings first differ.
\<close>

theorem upgrade_secret_check:
  "(map_option toLowerCase upgradeHeader = Some ''websocket'' \<and> expected \<noteq> [] \<longrightarrow>
      cdpUpgrade upgradeHeader provided (Some expected) browser =
        (if provided = Some expected
         then (if browser then SwitchingProtocols else JsonReply 503 ''Browser Rendering not configured'')
         else JsonReply 401 ''Unauthorized''))
   \<and> (map_option toLowerCase upgradeHeader = Some ''websocket'' \<and> missing configured \<longrightarrow>
      cdpUpgrade upgradeHeader provided configured browser = JsonReply 503 ''CDP endpoint not configured'')
   \<and> timingSafeEqual a b = (a = b)
   \<and> iterations a b = (if length a = length b then length a else 0)"
proof (intro conjI impI)
  assume h: "map_option toLowerCase upgradeHeader = Some ''websocket'' \<and> expected \<noteq> []"
  then show "cdpUpgrade upgradeHeader provided (Some expected) browser =
        (if provided = Some expected
         then (if browser then SwitchingProtocols else JsonReply 503 ''Browser Rendering not configured'')
         else JsonReply 401 ''Unauthorized'')"
    by (cases provided) (auto simp: cdpUpgrade_def timingSafeEqual_iff)
next
  assume "map_option toLowerCase upgradeHeader = Some ''websocket'' \<and> missing configured"
  then show "cdpUpgrade upgradeHeader provided configured browser = JsonReply 503 ''CDP endpoint not configured''"
    by (cases configured) (auto simp: cdpUpgrade_def missing_def)
next
  show "timingSafeEqual a b = (a = b)" by (rule timingSafeEqual_iff)
next
  show "iterations a b = (if length a = length b then length a else 0)" by (rule iterations_eq)
qed

theorem upgrade_secret_check_witness:
  "map_option toLowerCase (Some ''WebSocket'') = Some ''websocket''
   \<and> [115, 51, 99] \<noteq> ([] :: codeunit list)
   \<and> missing (None :: codeunit list option)
   \<and> cdpUpgrade (Some ''WebSocket'') (Some [115, 51, 99]) (Some [115, 51, 99]) True = SwitchingProtocols
   \<and> cdpUpgrade (Some ''WebSocket'') (Some [115, 51, 98]) (Some [115, 51, 99]) True = JsonReply 401 ''Unauthorized''
   \<and> cdpUpgrade (Some ''WebSocket'') (Some [115, 51]) (Some [115, 51, 99]) True = JsonReply 401 ''Unauthorized''
   \<and> cdpUpgrade (Some ''WebSocket'') (Some [115, 51, 99]) None True = JsonReply 503 ''CDP endpoint not configured''
   \<and> iterations [120, 51, 99] [115, 51, 99 :: codeunit] = 3
   \<and> iterations [115, 51, 98] [115, 51, 99 :: codeunit] = 3"
  using upgrade_secret_check [of "Some ''WebSocket''" "[115, 51, 99]" "Some [115, 51, 99]" True None
          "[120, 51, 99]" "[115, 51, 99]"]
        upgrade_secret_check [of "Some ''WebSocket''" "[115, 51, 99]" "Some [115, 51, 98]" True None
          "[115, 51, 98]" "[115, 51, 99]"]
        upgrade_secret_check [of "Some ''WebSocket''" "[115, 51, 99]" "Some [115, 51]" True None
          "[115, 51, 98]" "[115, 51, 99]"]
        upgrade_secret_check [of "Some ''WebSocket''" "[115, 51, 99]" "Some [115, 51, 99]" True None
          "[115, 51, 98]" "[115, 51, 99]"]
  by (simp add: toLowerCase_def lower_char_def missing_def char_of_def bit_0)

subsection \<open>Running handlers step by step\<close>

lemma returnM_apply: "returnM x s = ([], Inr x, s)"
  by (simp add: returnM_def)

lemma throwM_apply: "throwM t s = ([], Inl t, s)"
  by (simp add: throwM_def)

lemma bindM_apply:
  "bindM m f s = (case m s of
       (es, Inl t, s') \<Rightarrow> (es, Inl t, s')
     | (es, Inr x, s') \<Rightarrow> (case f x s' of (es', r, s'') \<Rightarrow> (es @ es', r, s'')))"
  by (simp add: bindM_def)

lemma tryM_apply:
  "tryM m h s = (case m s of
       (es, Inl t, s') \<Rightarrow> (case h t s' of (es', r, s'') \<Rightarrow> (es @ es', r, s''))
     | (es, Inr x, s') \<Rightarrow> (es, Inr x, s'))"
  by (simp add: tryM_def)

lemma getS_apply: "getS s = ([], Inr s, s)"
  by (simp add: getS_def)

lemma modifyS_apply: "modifyS g s = ([], Inr (), g s)"
  by (simp add: modifyS_def)

lemma liftE_apply: "liftE rcv name args r s = ([Call rcv name args], r, s)"
  by (simp add: liftE_def)

lemma sendEvent_apply: "sendEvent m p s = ([Send (Event m p)], Inr (), s)"
  by (simp add: sendEvent_def)

lemma pureM_apply: "pureM r s = ([], r, s)"
  by (simp add: pureM_def)

lemma templateError_apply: "templateError prefix v s = ([], Inl (JsError (templateMessage prefix v)), s)"
  by (cases "printable v")
     (simp_all add: templateError_def stringOf_def pureM_def bindM_def throwError_def throwM_def
        templateMessage_def errorMessage_def js_String_def)

lemmas run_simps = returnM_apply throwM_apply bindM_apply tryM_apply getS_apply modifyS_apply
  liftE_apply sendEvent_apply pureM_apply templateError_apply stringOf_def readError_def
  throwError_def typeError_def backendCall_def pageUrlB_def uuidB_def
  originB_def requireTarget_def requirePage_def requirePending_def deletePending_def
  lookupSelector_def requireSelector_def Let_def

lemmas eval_simps = digits.simps digit_char_def char_of_def bit_0 toLowerCase_def lower_char_def

subsection \<open>Properties of the session that a handler keeps\<close>

lemma preservesD: "preserves P m \<Longrightarrow> P s \<Longrightarrow> m s = (es, r, s') \<Longrightarrow> P s'"
  by (auto simp: preserves_def session_of_def)

lemma preserves_returnM: "preserves P (returnM x)"
  by (simp add: preserves_def session_of_def returnM_def)

lemma preserves_throwM: "preserves P (throwM t)"
  by (simp add: preserves_def session_of_def throwM_def)

lemma preserves_throwError: "preserves P (throwError msg)"
  by (simp add: throwError_def preserves_throwM)

lemma preserves_typeError: "preserves P (typeError msg)"
  by (simp add: typeError_def preserves_throwM)

lemma preserves_pureM: "preserves P (pureM r)"
  by (simp add: preserves_def session_of_def pureM_def)

lemma preserves_stringOf: "preserves P (stringOf v)"
  by (simp add: stringOf_def preserves_pureM)

lemma preserves_templateError: "preserves P (templateError prefix v)"
  by (simp add: preserves_def session_of_def templateError_apply)

lemma preserves_readError: "preserves P (readError v name)"
  by (simp add: readError_def preserves_typeError)

lemma preserves_getS: "preserves P getS"
  by (simp add: preserves_def session_of_def getS_def)

lemma preserves_liftE: "preserves P (liftE rcv name args r)"
  by (simp add: preserves_def session_of_def liftE_def)

lemma preserves_backendCall: "preserves P (backendCall w rcv name args)"
  by (simp add: backendCall_def preserves_liftE)

lemma preserves_sendEvent: "preserves P (sendEvent m p)"
  by (simp add: preserves_def session_of_def sendEvent_def)

lemma preserves_modifyS: "(\<And>s. P s \<Longrightarrow> P (g s)) \<Longrightarrow> preserves P (modifyS g)"
  by (simp add: preserves_def session_of_def modifyS_def)

lemma preserves_bindM:
  assumes m: "preserves P m" and f: "\<And>x. preserves P (f x)"
  shows "preserves P (bindM m f)"
  unfolding preserves_def
proof (intro allI impI)
  fix s assume P: "P s"
  obtain es r s1 where ms: "m s = (es, r, s1)" by (cases "m s") auto
  have P1: "P s1" using preservesD[OF m P ms] .
  show "P (session_of (bindM m f s))"
  proof (cases r)
    case (Inl t)
    then show ?thesis using ms P1 by (simp add: bindM_def session_of_def)
  next
    case (Inr x)
    obtain es' r' s2 where fs: "f x s1 = (es', r', s2)" by (cases "f x s1") auto
    have "P s2" using preservesD[OF f P1 fs] .
    then show ?thesis using ms Inr fs by (simp add: bindM_def session_of_def)
  qed
qed

lemma preserves_tryM:
  assumes m: "preserves P m" and h: "\<And>t. preserves P (h t)"
  shows "preserves P (tryM m h)"
  unfolding preserves_def
proof (intro allI impI)
  fix s assume P: "P s"
  obtain es r s1 where ms: "m s = (es, r, s1)" by (cases "m s") auto
  have P1: "P s1" using preservesD[OF m P ms] .
  show "P (session_of (tryM m h s))"
  proof (cases r)
    case (Inr x)
    then show ?thesis using ms P1 by (simp add: tryM_def session_of_def)
  next
    case (Inl t)
    obtain es' r' s2 where hs: "h t s1 = (es', r', s2)" by (cases "h t s1") auto
    have "P s2" using preservesD[OF h P1 hs] .
    then show ?thesis using ms Inl hs by (simp add: tryM_def session_of_def)
  qed
qed

lemma preserves_if:
  "(b \<Longrightarrow> preserves P m1) \<Longrightarrow> (\<not> b \<Longrightarrow> preserves P m2) \<Longrightarrow> preserves P (if b then m1 else m2)"
  by simp

lemma preserves_case_option:
  "preserves P m1 \<Longrightarrow> (\<And>x. preserves P (m2 x)) \<Longrightarrow>
   preserves P (case v of None \<Rightarrow> m1 | Some x \<Rightarrow> m2 x)"
  by (cases v) simp_all

lemma preserves_case_jsval:
  "preserves P m1 \<Longrightarrow> preserves P m2 \<Longrightarrow> (\<And>b. preserves P (m3 b)) \<Longrightarrow> (\<And>n. preserves P (m4 n)) \<Longrightarrow>
   (\<And>t. preserves P (m5 t)) \<Longrightarrow> (\<And>xs. preserves P (m6 xs)) \<Longrightarrow> (\<And>kvs. preserves P (m7 kvs)) \<Longrightarrow>
   preserves P (case v of JUndefined \<Rightarrow> m1 | JNull \<Rightarrow> m2 | JBool b \<Rightarrow> m3 b | JNum n \<Rightarrow> m4 n
                | JStr t \<Rightarrow> m5 t | JArr xs \<Rightarrow> m6 xs | JObj kvs \<Rightarrow> m7 kvs)"
  by (cases v) simp_all

lemma preserves_pageUrlB: "preserves P (pageUrlB w page)"
  by (simp add: pageUrlB_def preserves_liftE)

lemma preserves_uuidB: "preserves P (uuidB w n)"
  by (simp add: uuidB_def preserves_liftE)

lemma preserves_originB: "preserves P (originB w page)"
  unfolding originB_def
  by (intro preserves_bindM preserves_pageUrlB preserves_liftE preserves_returnM)

lemmas preserves_intros = preserves_returnM preserves_throwM preserves_throwError preserves_typeError
  preserves_pureM preserves_stringOf preserves_templateError preserves_readError
  preserves_getS preserves_liftE preserves_backendCall preserves_sendEvent preserves_bindM
  preserves_tryM preserves_if preserves_case_option preserves_case_jsval preserves_pageUrlB
  preserves_uuidB preserves_originB

lemma handleBrowser_preserves: "preserves P (handleBrowser command params w)"
  unfolding handleBrowser_def by (intro preserves_intros)

lemma handleInput_preserves: "preserves P (handleInput page command params w)"
  unfolding handleInput_def Let_def by (intro preserves_intros)

lemma deleteCookies_preserves: "preserves P (deleteCookies w page cookies)"
  by (induction cookies) (auto intro!: preserves_intros)

lemma requirePage_preserves: "preserves P (requirePage page)"
  unfolding requirePage_def by (intro preserves_intros)

lemma handleEmulation_preserves: "preserves P (handleEmulation page command params w)"
  unfolding handleEmulation_def Let_def by (intro preserves_intros)

lemma handleNetwork_preserves:
  assumes "\<And>s m. P s \<Longrightarrow> P (s\<lparr>extraHTTPHeaders := m\<rparr>)"
  shows "preserves P (handleNetwork page command params w)"
  unfolding handleNetwork_def Let_def
  by (intro preserves_intros preserves_modifyS deleteCookies_preserves requirePage_preserves assms)

lemma handlePage_preserves:
  assumes "\<And>s m. P s \<Longrightarrow> P (s\<lparr>scriptsToEvaluateOnNewDocument := m\<rparr>)"
  shows "preserves P (handlePage page command params w)"
  unfolding handlePage_def Let_def
  by (intro preserves_intros preserves_modifyS assms)

lemma storeObject_preserves:
  assumes "\<And>s m. P s \<Longrightarrow> P (s\<lparr>objectMap := m\<rparr>)"
    and "\<And>s. P s \<Longrightarrow> P (s\<lparr>objectIdCounter := incr (objectIdCounter s)\<rparr>)"
  shows "preserves P (storeObject returnByValue result)"
  unfolding storeObject_def Let_def
  by (intro preserves_intros preserves_modifyS assms)

lemma resolveArguments_preserves: "preserves P (resolveArguments args)"
  unfolding resolveArguments_def by (intro preserves_intros)

lemma handleRuntime_preserves:
  assumes "\<And>s m. P s \<Longrightarrow> P (s\<lparr>objectMap := m\<rparr>)"
    and "\<And>s. P s \<Longrightarrow> P (s\<lparr>objectIdCounter := incr (objectIdCounter s)\<rparr>)"
  shows "preserves P (handleRuntime page command params w)"
  unfolding handleRuntime_def Let_def
  by (intro preserves_intros preserves_modifyS storeObject_preserves resolveArguments_preserves assms)

lemma allocNode_preserves:
  assumes "\<And>s v. P s \<Longrightarrow>
     P (s\<lparr>nodeIdCounter := incr (nodeIdCounter s), nodeMap := (nodeMap s)(nodeIdCounter s \<mapsto> v)\<rparr>)"
  shows "preserves P (allocNode selector)"
  by (simp add: preserves_def session_of_def allocNode_def run_simps assms)

lemma allocNodes_preserves:
  assumes both: "\<And>s v. P s \<Longrightarrow>
     P (s\<lparr>nodeIdCounter := incr (nodeIdCounter s), nodeMap := (nodeMap s)(nodeIdCounter s \<mapsto> v)\<rparr>)"
    and counter: "\<And>s. P s \<Longrightarrow> P (s\<lparr>nodeIdCounter := incr (nodeIdCounter s)\<rparr>)"
  shows "preserves P (allocNodes selector i n)"
proof (induction n arbitrary: i)
  case 0
  show ?case by (simp add: preserves_returnM)
next
  case (Suc n)
  show ?case
    unfolding preserves_def
  proof (intro allI impI)
    fix s :: session assume P: "P s"
    show "P (session_of (allocNodes selector i (Suc n) s))"
    proof (cases "js_String selector")
      case (Inl err)
      then show ?thesis using counter[OF P] by (simp add: run_simps session_of_def)
    next
      case (Inr t)
      let ?s1 = "s\<lparr>nodeIdCounter := incr (nodeIdCounter s),
                   nodeMap := (nodeMap s)(nodeIdCounter s \<mapsto> JStr (t @ '':nth-of-type('' @ digits (i + 1) @ '')''))\<rparr>"
      have P1: "P ?s1" by (rule both[OF P])
      obtain es r s2 where rest: "allocNodes selector (i + 1) n ?s1 = (es, r, s2)"
        by (cases "allocNodes selector (i + 1) n ?s1") auto
      have "P s2" using preservesD[OF Suc.IH P1 rest] .
      then show ?thesis using Inr rest by (cases r) (simp_all add: run_simps session_of_def)
    qed
  qed
qed

lemma lookupSelector_preserves: "preserves P (lookupSelector nodeId)"
  unfolding lookupSelector_def by (intro preserves_intros)

lemma requireSelector_preserves: "preserves P (requireSelector nodeId)"
  unfolding requireSelector_def by (intro preserves_intros lookupSelector_preserves)

lemma handleDOM_preserves:
  assumes "\<And>s v. P s \<Longrightarrow>
     P (s\<lparr>nodeIdCounter := incr (nodeIdCounter s), nodeMap := (nodeMap s)(nodeIdCounter s \<mapsto> v)\<rparr>)"
    and "\<And>s. P s \<Longrightarrow> P (s\<lparr>nodeIdCounter := incr (nodeIdCounter s)\<rparr>)"
    and "\<And>s k. P s \<Longrightarrow> P (s\<lparr>nodeMap := nodeMap_delete k (nodeMap s)\<rparr>)"
  shows "preserves P (handleDOM page command params w)"
  unfolding handleDOM_def Let_def
  by (intro preserves_intros preserves_modifyS allocNode_preserves allocNodes_preserves
        lookupSelector_preserves requireSelector_preserves assms)

lemma requirePending_preserves: "preserves P (requirePending requestId)"
  unfolding requirePending_def by (intro preserves_intros)

lemma deletePending_preserves:
  assumes "\<And>s k. P s \<Longrightarrow> P (s\<lparr>pendingRequests := strMap_delete k (pendingRequests s)\<rparr>)"
  shows "preserves P (deletePending requestId)"
  unfolding deletePending_def by (intro preserves_modifyS assms)

lemma handleFetch_preserves:
  assumes "\<And>s b. P s \<Longrightarrow> P (s\<lparr>requestInterceptionEnabled := b\<rparr>)"
    and "\<And>s l. P s \<Longrightarrow> P (s\<lparr>requestListeners := l\<rparr>)"
    and "\<And>s k. P s \<Longrightarrow> P (s\<lparr>pendingRequests := strMap_delete k (pendingRequests s)\<rparr>)"
  shows "preserves P (handleFetch page command params w)"
  unfolding handleFetch_def Let_def
  by (intro preserves_intros preserves_modifyS requirePending_preserves deletePending_preserves assms)

lemma targetInfos_preserves: "preserves P (targetInfos w ps)"
  by (induction ps) (auto intro!: preserves_intros)

lemma handleTarget_preserves:
  assumes "\<And>s k v. P s \<Longrightarrow> P (s\<lparr>pages := AList.update k v (pages s)\<rparr>)"
    and "\<And>s. command = JStr ''closeTarget'' \<Longrightarrow> P s \<Longrightarrow>
           P (s\<lparr>pages := pages_delete (getProp params ''targetId'') (pages s)\<rparr>)"
  shows "preserves P (handleTarget command params w)"
  unfolding handleTarget_def Let_def
  by (intro preserves_intros preserves_modifyS targetInfos_preserves assms)

lemma requireTarget_preserves: "preserves P (requireTarget page targetId)"
  unfolding requireTarget_def by (intro preserves_intros)

lemma toleratesD:
  assumes "tolerates P" and "P s"
  shows "P (s\<lparr>extraHTTPHeaders := m1\<rparr>)"
    and "P (s\<lparr>scriptsToEvaluateOnNewDocument := m2\<rparr>)"
    and "P (s\<lparr>objectMap := m3\<rparr>)"
    and "P (s\<lparr>objectIdCounter := incr (objectIdCounter s)\<rparr>)"
    and "P (s\<lparr>nodeIdCounter := incr (nodeIdCounter s), nodeMap := (nodeMap s)(nodeIdCounter s \<mapsto> v)\<rparr>)"
    and "P (s\<lparr>nodeIdCounter := incr (nodeIdCounter s)\<rparr>)"
    and "P (s\<lparr>nodeMap := nodeMap_delete k1 (nodeMap s)\<rparr>)"
    and "P (s\<lparr>requestInterceptionEnabled := b\<rparr>)"
    and "P (s\<lparr>requestListeners := l\<rparr>)"
    and "P (s\<lparr>pendingRequests := strMap_delete k2 (pendingRequests s)\<rparr>)"
    and "P (s\<lparr>pages := AList.update k3 v3 (pages s)\<rparr>)"
  using assms(1)[unfolded tolerates_def, rule_format, OF assms(2)] by simp_all

lemma handleCDPMethod_preserves:
  assumes tol: "tolerates P"
    and close: "\<And>s. routedTo method ''Target'' ''closeTarget'' \<Longrightarrow> P s \<Longrightarrow>
           P (s\<lparr>pages := pages_delete (getProp params ''targetId'') (pages s)\<rparr>)"
  shows "preserves P (handleCDPMethod method params w)"
proof (cases "method")
  case (JStr m)
  have T: "preserves P (handleTarget (element (split_dot m) 1) params w)"
    if d: "element (split_dot m) 0 = JStr ''Target''"
  proof (rule handleTarget_preserves)
    fix s k v assume "P s"
    then show "P (s\<lparr>pages := AList.update k v (pages s)\<rparr>)" by (rule toleratesD[OF tol])
  next
    fix s assume c: "element (split_dot m) 1 = JStr ''closeTarget''" and Ps: "P s"
    have "routedTo method ''Target'' ''closeTarget''" using d c JStr by (simp add: routedTo_def)
    from close[OF this Ps]
    show "P (s\<lparr>pages := pages_delete (getProp params ''targetId'') (pages s)\<rparr>)" .
  qed
  show ?thesis
    unfolding handleCDPMethod_def JStr Let_def jsval.case
    by (intro preserves_intros requireTarget_preserves T handleBrowser_preserves handlePage_preserves
          handleRuntime_preserves handleDOM_preserves handleInput_preserves handleNetwork_preserves
          handleEmulation_preserves handleFetch_preserves toleratesD[OF tol])
qed (simp_all add: handleCDPMethod_def preserves_typeError preserves_readError)

lemma onMessage_preserves:
  assumes tol: "tolerates P"
    and close: "\<And>s t. closesTarget t (Message parsed) \<Longrightarrow> P s \<Longrightarrow>
           P (s\<lparr>pages := pages_delete (JStr t) (pages s)\<rparr>)"
    and P: "P s"
  shows "P (snd (onMessage w parsed s))"
proof (cases parsed)
  case None
  then show ?thesis using P by (simp add: onMessage_def)
next
  case (Some request)
  show ?thesis
  proof (cases "nullish request")
    case True
    then show ?thesis using P Some by (simp add: onMessage_def)
  next
    case False
    let ?params = "orElse (getProp request ''params'') (JObj [])"
    let ?m = "handleCDPMethod (getProp request ''method'') ?params w"
    have "preserves P ?m"
    proof (rule handleCDPMethod_preserves[OF tol])
      fix s' assume r: "routedTo (getProp request ''method'') ''Target'' ''closeTarget''" and P': "P s'"
      show "P (s'\<lparr>pages := pages_delete (getProp ?params ''targetId'') (pages s')\<rparr>)"
      proof (cases "getProp ?params ''targetId''")
        case (JStr t')
        have "closesTarget t' (Message parsed)"
          using r JStr Some by (simp add: closesTarget_def methodOf_def paramsOf_def)
        from close[OF this P'] show ?thesis using JStr by simp
      qed (use P' in \<open>simp_all add: pages_delete_def\<close>)
    qed
    then have Pm: "P (session_of (?m s))" using P by (simp add: preserves_def)
    obtain es r s1 where ms: "?m s = (es, r, s1)" by (cases "?m s") auto
    show ?thesis using Some False ms Pm
      by (cases r) (simp_all add: onMessage_def respond_def session_of_def)
  qed
qed

lemma requestListener_preserves:
  assumes "\<And>s k v. P s \<Longrightarrow> P (s\<lparr>pendingRequests := (pendingRequests s)(k \<mapsto> v)\<rparr>)"
  shows "preserves P (requestListener w n patterns request)"
  unfolding requestListener_def Let_def
  by (intro preserves_intros preserves_modifyS assms)

lemma fireRequest_preserves:
  assumes "\<And>s k v. P s \<Longrightarrow> P (s\<lparr>pendingRequests := (pendingRequests s)(k \<mapsto> v)\<rparr>)"
  shows "preserves P (fireRequest w n page request ls)"
proof (induction ls arbitrary: n)
  case Nil
  show ?case by (simp add: preserves_returnM)
next
  case (Cons l ls)
  obtain p patterns where l: "l = (p, patterns)" by (cases l) auto
  show ?case
    unfolding l fireRequest.simps
    by (intro preserves_intros requestListener_preserves assms Cons.IH)
qed

lemma onRequest_preserves:
  assumes "\<And>s k v. P s \<Longrightarrow> P (s\<lparr>pendingRequests := (pendingRequests s)(k \<mapsto> v)\<rparr>)"
  shows "preserves P (onRequest w page request)"
  unfolding onRequest_def
  by (intro preserves_intros fireRequest_preserves assms)

lemma step_preserves:
  assumes tol: "tolerates P"
    and park: "\<And>s k v. P s \<Longrightarrow> P (s\<lparr>pendingRequests := (pendingRequests s)(k \<mapsto> v)\<rparr>)"
    and close: "\<And>s t. closesTarget t i \<Longrightarrow> P s \<Longrightarrow> P (s\<lparr>pages := pages_delete (JStr t) (pages s)\<rparr>)"
    and P: "P s"
  shows "P (snd (step w i s))"
proof (cases i)
  case (Message parsed)
  then show ?thesis
    using onMessage_preserves[OF tol _ P, of parsed w] close by (simp add: step_def)
next
  case (PageRequest page request)
  obtain es r s1 where o: "onRequest w page request s = (es, r, s1)"
    by (cases "onRequest w page request s") auto
  have "preserves P (onRequest w page request)"
    by (rule onRequest_preserves) (rule park)
  then have "P s1" using P o by (rule preservesD)
  then show ?thesis using PageRequest o by (simp add: step_def)
qed

lemma run_preserves:
  assumes tol: "tolerates P"
    and park: "\<And>s k v. P s \<Longrightarrow> P (s\<lparr>pendingRequests := (pendingRequests s)(k \<mapsto> v)\<rparr>)"
    and close: "\<And>s t i. i \<in> fst ` set ins \<Longrightarrow> closesTarget t i \<Longrightarrow> P s \<Longrightarrow>
                  P (s\<lparr>pages := pages_delete (JStr t) (pages s)\<rparr>)"
    and P: "P s"
  shows "P (run s ins)"
  using close P
proof (induction ins arbitrary: s)
  case Nil
  then show ?case by simp
next
  case (Cons a ins)
  obtain i w where a: "a = (i, w)" by (cases a) auto
  have "P (snd (step w i s))"
  proof (rule step_preserves[where P = P])
    show "tolerates P" by (rule tol)
  next
    fix s' k v assume "P s'"
    then show "P (s'\<lparr>pendingRequests := (pendingRequests s')(k \<mapsto> v)\<rparr>)" by (rule park)
  next
    fix s' t assume "closesTarget t i" and "P s'"
    then show "P (s'\<lparr>pages := pages_delete (JStr t) (pages s')\<rparr>)"
      using Cons.prems(1)[of i t s'] by (simp add: a)
  next
    show "P s" by (rule Cons.prems(2))
  qed
  moreover have "P (s'\<lparr>pages := pages_delete (JStr t) (pages s')\<rparr>)"
    if "j \<in> fst ` set ins" "closesTarget t j" "P s'" for s' t j
    using that Cons.prems(1)[of j t s'] by simp
  ultimately have "P (run (snd (step w i s)) ins)"
    by (rule Cons.IH[rotated])
  then show ?case by (simp add: a)
qed

subsection \<open>The default target\<close>

lemma default_target_tolerates:
  "tolerates (\<lambda>s. defaultTargetId s = d \<and> map_of (pages s) d \<noteq> None)"
  by (simp add: tolerates_def update_conv')

text \<open>
  Claim C1, as the code has it. The dispatcher has no guard for the default target:
  \<^verbatim>\<open>Target.closeTarget\<close> looks the given \<^verbatim>\<open>targetId\<close> up and deletes it, whichever it is.
  What holds is: the session is built with its default target in the page map, the
  recorded \<open>defaultTargetId\<close> never changes, and through any run of messages and page
  requests in which no \<^verbatim>\<open>Target.closeTarget\<close> names the default target's own id, the
  default target stays in the page map. Closing any other target, and every other
  command, leaves it there.
\<close>

theorem default_target_kept:
  assumes "list_all (\<lambda>iw. \<not> closesTarget t (fst iw)) ins"
  shows "defaultTargetId (run (initialSession t p) ins) = t
         \<and> map_of (pages (run (initialSession t p) ins)) t \<noteq> None"
proof (rule run_preserves[where P = "\<lambda>s. defaultTargetId s = t \<and> map_of (pages s) t \<noteq> None"])
  show "tolerates (\<lambda>s. defaultTargetId s = t \<and> map_of (pages s) t \<noteq> None)"
    by (rule default_target_tolerates)
next
  fix s :: session and k v assume "defaultTargetId s = t \<and> map_of (pages s) t \<noteq> None"
  then show "defaultTargetId (s\<lparr>pendingRequests := (pendingRequests s)(k \<mapsto> v)\<rparr>) = t
     \<and> map_of (pages (s\<lparr>pendingRequests := (pendingRequests s)(k \<mapsto> v)\<rparr>)) t \<noteq> None"
    by simp
next
  fix s :: session and t' i
  assume i: "i \<in> fst ` set ins" and c: "closesTarget t' i"
    and P: "defaultTargetId s = t \<and> map_of (pages s) t \<noteq> None"
  have "\<not> closesTarget t i" using assms i by (auto simp: list_all_iff)
  then have "t' \<noteq> t" using c by auto
  then show "defaultTargetId (s\<lparr>pages := pages_delete (JStr t') (pages s)\<rparr>) = t
     \<and> map_of (pages (s\<lparr>pages := pages_delete (JStr t') (pages s)\<rparr>)) t \<noteq> None"
    using P by (simp add: pages_delete_def delete_conv')
next
  show "defaultTargetId (initialSession t p) = t \<and> map_of (pages (initialSession t p)) t \<noteq> None"
    by (simp add: initialSession_def)
qed

lemmas exec_simps = step_def onMessage_def respond_def handleCDPMethod_def commandFrame_def quietBackend_def
  answering_def initialSession_def element_def nullish_def orElse_def coalesce_def pages_get_def
  pages_delete_def strMap_get_def strMap_delete_def nodeMap_get_def nodeMap_delete_def
  addressedPage_def addressedTarget_def errorMessage_def emptyResult_def targetInfo_def inPage_def
  routedTo_def methodOf_def paramsOf_def idOf_def closesTarget_def reaches_def

theorem default_target_kept_witness:
  "defaultTargetId (run (initialSession ''t'' 1)
      [(commandFrame 1 ''Target.createTarget'' [], quietBackend\<lparr>newPage := Inr 2\<rparr>),
       (commandFrame 2 ''Target.closeTarget'' [(''targetId'', JStr ''uuid-0'')], quietBackend),
       (commandFrame 3 ''Target.closeTarget'' [], quietBackend)]) = ''t''
   \<and> map_of (pages (run (initialSession ''t'' 1)
      [(commandFrame 1 ''Target.createTarget'' [], quietBackend\<lparr>newPage := Inr 2\<rparr>),
       (commandFrame 2 ''Target.closeTarget'' [(''targetId'', JStr ''uuid-0'')], quietBackend),
       (commandFrame 3 ''Target.closeTarget'' [], quietBackend)])) ''t'' \<noteq> None"
  using default_target_kept [of "''t''"
      "[(commandFrame 1 ''Target.createTarget'' [], quietBackend\<lparr>newPage := Inr 2\<rparr>),
        (commandFrame 2 ''Target.closeTarget'' [(''targetId'', JStr ''uuid-0'')], quietBackend),
        (commandFrame 3 ''Target.closeTarget'' [], quietBackend)]" 1]
  by (simp add: exec_simps)

text \<open>
  Claim C1 as stated fails: on a fresh session whose default target is \<open>t\<close>, the command
  \<^verbatim>\<open>Target.closeTarget {targetId: t}\<close> closes the default page, removes \<open>t\<close> from the page map,
  announces \<^verbatim>\<open>Target.targetDestroyed\<close> and answers \<^verbatim>\<open>{success: true}\<close>; the connection stays
  open.
\<close>

theorem default_target_evicted:
  "step quietBackend (commandFrame 7 ''Target.closeTarget'' [(''targetId'', JStr ''t'')]) (initialSession ''t'' 1)
     = ([Call (OnPage 1) ''close'' [],
         Send (Event ''Target.targetDestroyed'' (JObj [(''targetId'', JStr ''t'')])),
         Send (Response (JNum 7) (JObj [(''success'', JBool True)]))],
        (initialSession ''t'' 1)\<lparr>pages := []\<rparr>)
   \<and> map_of (pages (run (initialSession ''t'' 1)
        [(commandFrame 7 ''Target.closeTarget'' [(''targetId'', JStr ''t'')], quietBackend)])) ''t'' = None"
  by (simp add: exec_simps handleTarget_def run_simps)


subsection \<open>Dispatch\<close>

lemma bindM_returnM: "bindM (returnM x) f = f x"
  by (rule ext) (simp add: bindM_def returnM_def split: prod.splits)

lemma bindM_throwM: "bindM (throwM t) f = throwM t"
  by (rule ext) (simp add: bindM_def throwM_def)

lemma bindM_throwError: "bindM (throwError msg) f = throwError msg"
  by (simp add: throwError_def bindM_throwM)

lemma bindM_templateError: "bindM (templateError prefix v) f = templateError prefix v"
  by (rule ext) (simp add: bindM_def templateError_apply)

lemma bindM_getS: "bindM getS f s = f s s"
  by (simp add: bindM_def getS_def split: prod.splits)

lemma templateMessage_JStr: "templateMessage prefix (JStr t) = prefix @ t"
  by (simp add: templateMessage_def js_String_def)

lemma templateMessage_element: "templateMessage prefix (element xs n) = prefix @ textOf (element xs n)"
  by (simp add: templateMessage_def js_String_def element_def)

lemma dispatch_paged:
  assumes "method = JStr m" and "element (split_dot m) 0 = JStr domain"
  shows "handleCDPMethod method params w s =
     (if domain = ''Browser'' then handleBrowser (element (split_dot m) 1) params w s
      else if domain = ''Target'' then handleTarget (element (split_dot m) 1) params w s
      else if domain = ''Network'' then handleNetwork (addressedPage s params) (element (split_dot m) 1) params w s
      else if domain \<notin> set knownDomains then throwError (''Unknown domain: '' @ domain) s
      else (case addressedPage s params of
              None \<Rightarrow> templateError ''Target not found: '' (addressedTarget s params) s
            | Some p \<Rightarrow>
                (if domain = ''Page'' then handlePage p (element (split_dot m) 1) params w s
                 else if domain = ''Runtime'' then handleRuntime p (element (split_dot m) 1) params w s
                 else if domain = ''DOM'' then handleDOM p (element (split_dot m) 1) params w s
                 else if domain = ''Input'' then handleInput p (element (split_dot m) 1) params w s
                 else if domain = ''Emulation'' then handleEmulation p (element (split_dot m) 1) params w s
                 else handleFetch p (element (split_dot m) 1) params w s)))"
  using assms
  by (cases "addressedPage s params")
     (simp_all add: handleCDPMethod_def Let_def bindM_getS requireTarget_def bindM_returnM
        bindM_templateError addressedPage_def addressedTarget_def knownDomains_def
        templateError_apply templateMessage_JStr throwError_def throwM_def)

lemma dispatch_to:
  assumes "routedTo method domain c" and "addressedPage s params = Some p"
  shows "domain = ''Page'' \<Longrightarrow> handleCDPMethod method params w s = handlePage p (JStr c) params w s"
    and "domain = ''Runtime'' \<Longrightarrow> handleCDPMethod method params w s = handleRuntime p (JStr c) params w s"
    and "domain = ''DOM'' \<Longrightarrow> handleCDPMethod method params w s = handleDOM p (JStr c) params w s"
    and "domain = ''Fetch'' \<Longrightarrow> handleCDPMethod method params w s = handleFetch p (JStr c) params w s"
proof -
  obtain m where m: "method = JStr m" "element (split_dot m) 0 = JStr domain"
      "element (split_dot m) 1 = JStr c"
    using assms(1) by (cases "method") (auto simp: routedTo_def)
  show "domain = ''Page'' \<Longrightarrow> handleCDPMethod method params w s = handlePage p (JStr c) params w s"
    and "domain = ''Runtime'' \<Longrightarrow> handleCDPMethod method params w s = handleRuntime p (JStr c) params w s"
    and "domain = ''DOM'' \<Longrightarrow> handleCDPMethod method params w s = handleDOM p (JStr c) params w s"
    and "domain = ''Fetch'' \<Longrightarrow> handleCDPMethod method params w s = handleFetch p (JStr c) params w s"
    using dispatch_paged[OF m(1) m(2), of params w s] m(3) assms(2)
    by (simp_all add: knownDomains_def)
qed

lemma unknown_command:
  assumes "\<forall>c \<in> set (knownCommands domain). command \<noteq> JStr c"
  shows "domain = ''Browser'' \<Longrightarrow> handleBrowser command params w = templateError ''Unknown Browser method: '' command"
    and "domain = ''Target'' \<Longrightarrow> handleTarget command params w = templateError ''Unknown Target method: '' command"
    and "domain = ''Page'' \<Longrightarrow> handlePage p command params w = templateError ''Unknown Page method: '' command"
    and "domain = ''Runtime'' \<Longrightarrow> handleRuntime p command params w = templateError ''Unknown Runtime method: '' command"
    and "domain = ''DOM'' \<Longrightarrow> handleDOM p command params w = templateError ''Unknown DOM method: '' command"
    and "domain = ''Input'' \<Longrightarrow> handleInput p command params w = templateError ''Unknown Input method: '' command"
    and "domain = ''Network'' \<Longrightarrow> handleNetwork po command params w = templateError ''Unknown Network method: '' command"
    and "domain = ''Emulation'' \<Longrightarrow> handleEmulation p command params w = templateError ''Unknown Emulation method: '' command"
    and "domain = ''Fetch'' \<Longrightarrow> handleFetch p command params w = templateError ''Unknown Fetch method: '' command"
  using assms
  by (simp_all add: knownCommands_def handleBrowser_def handleTarget_def handlePage_def handleRuntime_def
        handleDOM_def handleInput_def handleNetwork_def handleEmulation_def handleFetch_def)

text \<open>
  Claim C8. A frame that parses and whose method is a string naming an unknown domain, or
  a known domain with a command that is none of that domain's \<^verbatim>\<open>case\<close> labels, is answered
  by exactly one frame, the error frame \<^verbatim>\<open>{id, error: {code: -32000, message}}\<close> with the
  frame's own id, and the session is left as it was. The message is
  \<^verbatim>\<open>Unknown domain: ...\<close>, or \<^verbatim>\<open>Unknown <Domain> method: ...\<close> (with \<^verbatim>\<open>undefined\<close> for a method
  without a dot), or, in a domain that needs a page when the addressed target does not
  resolve, the message of \<^verbatim>\<open>throw new Error(`Target not found: ${targetId}`)\<close>: that text
  with the target id as JavaScript prints it, or the \<^verbatim>\<open>TypeError\<close>'s when the given
  \<^verbatim>\<open>targetId\<close> has no string form. A text that does not parse produces no effect at all and
  leaves the session as it was.
\<close>

theorem unknown_method_error:
  assumes "getProp request ''method'' = JStr m"
    and "element (split_dot m) 0 = JStr domain"
    and "domain \<notin> set knownDomains
         \<or> (\<forall>c \<in> set (knownCommands domain). element (split_dot m) 1 \<noteq> JStr c)"
  shows "onMessage w (Some request) s =
           ([Send (ErrorResponse (getProp request ''id'') (- 32000)
              (if domain \<notin> set knownDomains then ''Unknown domain: '' @ domain
               else if domain \<in> {''Page'', ''Runtime'', ''DOM'', ''Input'', ''Emulation'', ''Fetch''}
                       \<and> addressedPage s (orElse (getProp request ''params'') (JObj [])) = None
               then templateMessage ''Target not found: ''
                      (addressedTarget s (orElse (getProp request ''params'') (JObj [])))
               else ''Unknown '' @ domain @ '' method: '' @ textOf (element (split_dot m) 1)))], s)
         \<and> onMessage w None s = ([], s)"
proof -
  let ?params = "orElse (getProp request ''params'') (JObj [])"
  let ?command = "element (split_dot m) 1"
  let ?msg = "if domain \<notin> set knownDomains then ''Unknown domain: '' @ domain
               else if domain \<in> {''Page'', ''Runtime'', ''DOM'', ''Input'', ''Emulation'', ''Fetch''}
                       \<and> addressedPage s ?params = None
               then templateMessage ''Target not found: '' (addressedTarget s ?params)
               else ''Unknown '' @ domain @ '' method: '' @ textOf ?command"
  have nn: "\<not> nullish request" using assms(1) by (cases request) (auto simp: nullish_def)
  have H: "handleCDPMethod (JStr m) ?params w s = ([], Inl (JsError ?msg), s)"
  proof (cases "domain \<in> set knownDomains")
    case False
    then show ?thesis
      using dispatch_paged[OF refl assms(2), of ?params w s]
      by (auto simp: knownDomains_def throwError_def throwM_def)
  next
    case True
    then have u: "\<forall>c \<in> set (knownCommands domain). ?command \<noteq> JStr c" using assms(3) by blast
    note uc = unknown_command[OF u]
    from True have "domain = ''Browser'' \<or> domain = ''Target'' \<or> domain = ''Page''
      \<or> domain = ''Runtime'' \<or> domain = ''DOM'' \<or> domain = ''Input'' \<or> domain = ''Network''
      \<or> domain = ''Emulation'' \<or> domain = ''Fetch''"
      by (simp add: knownDomains_def)
    then show ?thesis
    proof (elim disjE)
      assume d: "domain = ''Browser''"
      show ?thesis using d dispatch_paged[OF refl assms(2), of ?params w s] uc(1)[OF d]
        by (simp add: knownDomains_def throwError_def throwM_def templateError_apply templateMessage_element)
    next
      assume d: "domain = ''Target''"
      show ?thesis using d dispatch_paged[OF refl assms(2), of ?params w s] uc(2)[OF d]
        by (simp add: knownDomains_def throwError_def throwM_def templateError_apply templateMessage_element)
    next
      assume d: "domain = ''Page''"
      show ?thesis using d dispatch_paged[OF refl assms(2), of ?params w s] uc(3)[OF d]
        by (simp add: knownDomains_def throwError_def throwM_def templateError_apply templateMessage_element split: option.splits)
    next
      assume d: "domain = ''Runtime''"
      show ?thesis using d dispatch_paged[OF refl assms(2), of ?params w s] uc(4)[OF d]
        by (simp add: knownDomains_def throwError_def throwM_def templateError_apply templateMessage_element split: option.splits)
    next
      assume d: "domain = ''DOM''"
      show ?thesis using d dispatch_paged[OF refl assms(2), of ?params w s] uc(5)[OF d]
        by (simp add: knownDomains_def throwError_def throwM_def templateError_apply templateMessage_element split: option.splits)
    next
      assume d: "domain = ''Input''"
      show ?thesis using d dispatch_paged[OF refl assms(2), of ?params w s] uc(6)[OF d]
        by (simp add: knownDomains_def throwError_def throwM_def templateError_apply templateMessage_element split: option.splits)
    next
      assume d: "domain = ''Network''"
      show ?thesis using d dispatch_paged[OF refl assms(2), of ?params w s] uc(7)[OF d]
        by (simp add: knownDomains_def throwError_def throwM_def templateError_apply templateMessage_element)
    next
      assume d: "domain = ''Emulation''"
      show ?thesis using d dispatch_paged[OF refl assms(2), of ?params w s] uc(8)[OF d]
        by (simp add: knownDomains_def throwError_def throwM_def templateError_apply templateMessage_element split: option.splits)
    next
      assume d: "domain = ''Fetch''"
      show ?thesis using d dispatch_paged[OF refl assms(2), of ?params w s] uc(9)[OF d]
        by (simp add: knownDomains_def throwError_def throwM_def templateError_apply templateMessage_element split: option.splits)
    qed
  qed
  have "onMessage w (Some request) s =
          ([Send (ErrorResponse (getProp request ''id'') (- 32000) ?msg)], s)"
    using nn H assms(1) by (simp add: onMessage_def respond_def errorMessage_def)
  moreover have "onMessage w None s = ([], s)" by (simp add: onMessage_def)
  ultimately show ?thesis by blast
qed

text \<open>How the number \<open>10 ^ 21\<close> prints.\<close>

lemmas number_simps = numberToString_def roundDouble_def shortestDigits_def candidatesAt_def nearer_def
  distanceTo_def bitLength.simps digits.simps digit_char_def char_of_def bit_0 Let_def upt_rec

lemma prints_exponent: "textOf (JNum 1000000000000000000000) = ''1e+21''"
  by (simp add: show_int_def number_simps)

theorem unknown_method_error_witness:
  "onMessage quietBackend (Some (JObj [(''id'', JNum 5), (''method'', JStr ''Foo.bar'')])) (initialSession ''t'' 1)
     = ([Send (ErrorResponse (JNum 5) (- 32000) ''Unknown domain: Foo'')], initialSession ''t'' 1)
   \<and> onMessage quietBackend (Some (JObj [(''id'', JNum 6), (''method'', JStr ''Page.fly'')])) (initialSession ''t'' 1)
     = ([Send (ErrorResponse (JNum 6) (- 32000) ''Unknown Page method: fly'')], initialSession ''t'' 1)
   \<and> onMessage quietBackend
        (Some (JObj [(''id'', JNum 7), (''method'', JStr ''DOM.fly''), (''params'', JObj [(''targetId'', JStr ''x'')])]))
        (initialSession ''t'' 1)
     = ([Send (ErrorResponse (JNum 7) (- 32000) ''Target not found: x'')], initialSession ''t'' 1)
   \<and> onMessage quietBackend
        (Some (JObj [(''id'', JNum 8), (''method'', JStr ''DOM.fly''),
                     (''params'', JObj [(''targetId'', JNum 1000000000000000000000)])]))
        (initialSession ''t'' 1)
     = ([Send (ErrorResponse (JNum 8) (- 32000) ''Target not found: 1e+21'')], initialSession ''t'' 1)
   \<and> onMessage quietBackend
        (Some (JObj [(''id'', JNum 9), (''method'', JStr ''Page''),
                     (''params'', JObj [(''targetId'', JObj [(''toString'', JNum 1)])])]))
        (initialSession ''t'' 1)
     = ([Send (ErrorResponse (JNum 9) (- 32000) ''Cannot convert object to primitive value'')],
        initialSession ''t'' 1)
   \<and> onMessage quietBackend (Some (JObj [(''id'', JNum 10), (''method'', JStr ''Page'')])) (initialSession ''t'' 1)
     = ([Send (ErrorResponse (JNum 10) (- 32000) ''Unknown Page method: undefined'')], initialSession ''t'' 1)"
  using unknown_method_error [of "JObj [(''id'', JNum 5), (''method'', JStr ''Foo.bar'')]" "''Foo.bar''" "''Foo''"
          quietBackend "initialSession ''t'' 1"]
        unknown_method_error [of "JObj [(''id'', JNum 6), (''method'', JStr ''Page.fly'')]" "''Page.fly''" "''Page''"
          quietBackend "initialSession ''t'' 1"]
        unknown_method_error [of "JObj [(''id'', JNum 7), (''method'', JStr ''DOM.fly''), (''params'', JObj [(''targetId'', JStr ''x'')])]"
          "''DOM.fly''" "''DOM''" quietBackend "initialSession ''t'' 1"]
        unknown_method_error [of "JObj [(''id'', JNum 8), (''method'', JStr ''DOM.fly''),
                     (''params'', JObj [(''targetId'', JNum 1000000000000000000000)])]"
          "''DOM.fly''" "''DOM''" quietBackend "initialSession ''t'' 1"]
        unknown_method_error [of "JObj [(''id'', JNum 9), (''method'', JStr ''Page''),
                     (''params'', JObj [(''targetId'', JObj [(''toString'', JNum 1)])])]"
          "''Page''" "''Page''" quietBackend "initialSession ''t'' 1"]
        unknown_method_error [of "JObj [(''id'', JNum 10), (''method'', JStr ''Page'')]"
          "''Page''" "''Page''" quietBackend "initialSession ''t'' 1"]
  by (simp add: element_def knownDomains_def knownCommands_def addressedPage_def addressedTarget_def
        orElse_def pages_get_def initialSession_def templateMessage_def js_String_def errorMessage_def
        prints_exponent del: textOf.simps(4))


lemma step_reaches:
  assumes "reaches s i domain c page"
  shows "domain = ''Page'' \<Longrightarrow>
           step w i s = respond (idOf i) (handlePage page (JStr c) (paramsOf i) w s)"
    and "domain = ''Runtime'' \<Longrightarrow>
           step w i s = respond (idOf i) (handleRuntime page (JStr c) (paramsOf i) w s)"
    and "domain = ''DOM'' \<Longrightarrow>
           step w i s = respond (idOf i) (handleDOM page (JStr c) (paramsOf i) w s)"
    and "domain = ''Fetch'' \<Longrightarrow>
           step w i s = respond (idOf i) (handleFetch page (JStr c) (paramsOf i) w s)"
proof -
  have r: "routedTo (methodOf i) domain c" and a: "addressedPage s (paramsOf i) = Some page"
    using assms by (simp_all add: reaches_def)
  obtain request where i: "i = Message (Some request)"
    using r by (cases i) (auto simp: routedTo_def methodOf_def split: option.splits)
  have nn: "\<not> nullish request"
    using r i by (cases request) (auto simp: routedTo_def methodOf_def nullish_def)
  have st: "step w i s = respond (idOf i) (handleCDPMethod (methodOf i) (paramsOf i) w s)"
    using i nn by (simp add: step_def onMessage_def idOf_def methodOf_def paramsOf_def)
  show "domain = ''Page'' \<Longrightarrow>
           step w i s = respond (idOf i) (handlePage page (JStr c) (paramsOf i) w s)"
    and "domain = ''Runtime'' \<Longrightarrow>
           step w i s = respond (idOf i) (handleRuntime page (JStr c) (paramsOf i) w s)"
    and "domain = ''DOM'' \<Longrightarrow>
           step w i s = respond (idOf i) (handleDOM page (JStr c) (paramsOf i) w s)"
    and "domain = ''Fetch'' \<Longrightarrow>
           step w i s = respond (idOf i) (handleFetch page (JStr c) (paramsOf i) w s)"
    using st dispatch_to[OF r a, of w] by simp_all
qed

lemma reaches_update:
  "reaches (s\<lparr>objectMap := m\<rparr>) i domain c page = reaches s i domain c page"
  "reaches (s\<lparr>pendingRequests := pr\<rparr>) i domain c page = reaches s i domain c page"
  by (simp_all add: reaches_def addressedPage_def addressedTarget_def pages_get_def split: jsval.splits)

subsection \<open>Runtime: release and exceptions\<close>

lemma releaseObjectGroup_run:
  "handleRuntime page (JStr ''releaseObjectGroup'') params w s = ([], Inr emptyResult, s\<lparr>objectMap := Map.empty\<rparr>)"
  by (simp add: handleRuntime_def run_simps)

lemma getProperties_unknown:
  "strMap_get (objectMap s) (getProp params ''objectId'') = None \<Longrightarrow>
   handleRuntime page (JStr ''getProperties'') params w s = ([], Inr (JObj [(''result'', JArr [])]), s)"
  by (simp add: handleRuntime_def run_simps)

text \<open>
  Claim C5. \<^verbatim>\<open>handleRuntime\<close> on \<^verbatim>\<open>releaseObjectGroup\<close> never reads its parameters: for every
  \<open>params\<close> it has no effect on the backend, returns \<^verbatim>\<open>{}\<close> and leaves the session with an
  empty object map. In that session \<^verbatim>\<open>getProperties\<close>, for every \<open>params\<close> (so for every
  object id, valid before or not), returns \<^verbatim>\<open>{result: []}\<close>. On the socket: when the
  commands reach the Runtime handler (their addressed target resolves), the first is
  answered by the response frame \<^verbatim>\<open>{id, result: {}}\<close>, the second, sent to the session the
  first has left, by the response frame
  \<^verbatim>\<open>{id, result: {result: []}}\<close>, never by an error frame.
\<close>

theorem release_object_group:
  "handleRuntime page (JStr ''releaseObjectGroup'') params w s
     = ([], Inr emptyResult, s\<lparr>objectMap := Map.empty\<rparr>)
   \<and> handleRuntime page2 (JStr ''getProperties'') params2 w2 (s\<lparr>objectMap := Map.empty\<rparr>)
     = ([], Inr (JObj [(''result'', JArr [])]), s\<lparr>objectMap := Map.empty\<rparr>)
   \<and> (reaches s i ''Runtime'' ''releaseObjectGroup'' page \<and> reaches s i2 ''Runtime'' ''getProperties'' page2 \<longrightarrow>
        step w i s = ([Send (Response (idOf i) emptyResult)], s\<lparr>objectMap := Map.empty\<rparr>)
        \<and> step w2 i2 (s\<lparr>objectMap := Map.empty\<rparr>)
            = ([Send (Response (idOf i2) (JObj [(''result'', JArr [])]))], s\<lparr>objectMap := Map.empty\<rparr>))"
proof (intro conjI impI)
  show "handleRuntime page (JStr ''releaseObjectGroup'') params w s
     = ([], Inr emptyResult, s\<lparr>objectMap := Map.empty\<rparr>)"
    by (rule releaseObjectGroup_run)
next
  show "handleRuntime page2 (JStr ''getProperties'') params2 w2 (s\<lparr>objectMap := Map.empty\<rparr>)
     = ([], Inr (JObj [(''result'', JArr [])]), s\<lparr>objectMap := Map.empty\<rparr>)"
    by (rule getProperties_unknown) (simp add: strMap_get_def split: jsval.splits)
next
  assume h: "reaches s i ''Runtime'' ''releaseObjectGroup'' page \<and> reaches s i2 ''Runtime'' ''getProperties'' page2"
  show "step w i s = ([Send (Response (idOf i) emptyResult)], s\<lparr>objectMap := Map.empty\<rparr>)"
    using step_reaches(2)[of s i "''Runtime''" "''releaseObjectGroup''" page w] h
    by (simp add: releaseObjectGroup_run respond_def)
  have r2: "reaches (s\<lparr>objectMap := Map.empty\<rparr>) i2 ''Runtime'' ''getProperties'' page2"
    using h by (simp add: reaches_update)
  have g: "handleRuntime page2 (JStr ''getProperties'') (paramsOf i2) w2 (s\<lparr>objectMap := Map.empty\<rparr>)
     = ([], Inr (JObj [(''result'', JArr [])]), s\<lparr>objectMap := Map.empty\<rparr>)"
    by (rule getProperties_unknown) (simp add: strMap_get_def split: jsval.splits)
  show "step w2 i2 (s\<lparr>objectMap := Map.empty\<rparr>)
            = ([Send (Response (idOf i2) (JObj [(''result'', JArr [])]))], s\<lparr>objectMap := Map.empty\<rparr>)"
    using step_reaches(2)[OF r2, of w2] g by (simp add: respond_def)
qed

theorem release_object_group_witness:
  "strMap_get (objectMap ((initialSession ''t'' 1)\<lparr>objectIdCounter := 2,
        objectMap := [''obj-1'' \<mapsto> JObj [(''a'', JNum 1)]]\<rparr>)) (JStr ''obj-1'') = Some (JObj [(''a'', JNum 1)])
   \<and> step quietBackend (commandFrame 3 ''Runtime.releaseObjectGroup'' [(''objectGroup'', JStr ''g'')])
        ((initialSession ''t'' 1)\<lparr>objectIdCounter := 2, objectMap := [''obj-1'' \<mapsto> JObj [(''a'', JNum 1)]]\<rparr>)
      = ([Send (Response (JNum 3) (JObj []))],
         (initialSession ''t'' 1)\<lparr>objectIdCounter := 2, objectMap := Map.empty\<rparr>)
   \<and> step quietBackend (commandFrame 4 ''Runtime.getProperties'' [(''objectId'', JStr ''obj-1'')])
        ((initialSession ''t'' 1)\<lparr>objectIdCounter := 2, objectMap := Map.empty\<rparr>)
      = ([Send (Response (JNum 4) (JObj [(''result'', JArr [])]))],
         (initialSession ''t'' 1)\<lparr>objectIdCounter := 2, objectMap := Map.empty\<rparr>)"
  using release_object_group [of 1 "JObj []" quietBackend
      "(initialSession ''t'' 1)\<lparr>objectIdCounter := 2, objectMap := [''obj-1'' \<mapsto> JObj [(''a'', JNum 1)]]\<rparr>"
      1 "JObj []" quietBackend
      "commandFrame 3 ''Runtime.releaseObjectGroup'' [(''objectGroup'', JStr ''g'')]"
      "commandFrame 4 ''Runtime.getProperties'' [(''objectId'', JStr ''obj-1'')]"]
  by (simp add: reaches_def routedTo_def methodOf_def paramsOf_def idOf_def commandFrame_def element_def
        addressedPage_def addressedTarget_def orElse_def pages_get_def initialSession_def strMap_get_def
        emptyResult_def)


lemma evaluate_throws:
  assumes "truthy (getProp params ''expression'')"
    and "wrapExpression (coalesce (getProp params ''awaitPromise'') (JBool False))
           (getProp params ''expression'') = Inr wrapped"
    and "call w (OnPage page) ''evaluate'' = Inl err"
  shows "handleRuntime page (JStr ''evaluate'') params w s =
           ([Call (OnPage page) ''evaluate'' [wrapped]],
            Inr (exceptionDetails err ''Evaluation failed''), s)"
  using assms by (simp add: handleRuntime_def run_simps)

lemma resolveArguments_run:
  "argumentList params = Some as \<Longrightarrow>
   resolveArguments (orElse (getProp params ''arguments'') (JArr [])) s
     = ([], Inr (map (resolveArgument s) as), s)"
  by (auto simp: argumentList_def resolveArguments_def run_simps bindM_getS list_all_iff
           split: jsval.splits if_splits)

lemma callFunctionOn_throws:
  assumes "argumentList params = Some as"
    and "functionBody (getProp params ''functionDeclaration'') = Inr body"
    and "newFunction w body = Inr ()"
    and "call w (OnPage page) ''evaluate'' = Inl err"
  shows "handleRuntime page (JStr ''callFunctionOn'') params w s =
           ([Call OnRuntime ''new Function'' [JStr body],
             Call (OnPage page) ''evaluate'' (JStr body # map (resolveArgument s) as)],
            Inr (exceptionDetails err ''Call failed''), s)"
  using assms(2,3,4) resolveArguments_run[OF assms(1), of s]
  by (simp add: handleRuntime_def run_simps)

lemma frames_of_append: "frames_of (es @ es') = frames_of es @ frames_of es'"
  by (simp add: frames_of_def)

text \<open>Whatever happens inside the \<^verbatim>\<open>try\<close> of \<^verbatim>\<open>evaluate\<close> and \<^verbatim>\<open>callFunctionOn\<close>, the handler
  returns; what it does to the outside are backend calls.\<close>

lemma frames_of_calls: "frames_of (Call rcv name args # es) = frames_of es"
  by (simp add: frames_of_def)

lemma storeObject_cases:
  "storeObject returnByValue result s = ([], Inr JUndefined, s)
   \<or> storeObject returnByValue result s =
        ([], Inr (JStr (''obj-'' @ digits (objectIdCounter s))),
         s\<lparr>objectIdCounter := incr (objectIdCounter s),
           objectMap := (objectMap s)(''obj-'' @ digits (objectIdCounter s) \<mapsto> result)\<rparr>)"
  by (simp add: storeObject_def run_simps)

lemma evaluate_returns:
  assumes "truthy (getProp params ''expression'')"
  shows "\<exists>es r s'. handleRuntime page (JStr ''evaluate'') params w s = (es, Inr r, s') \<and> frames_of es = []"
proof -
  let ?wrap = "wrapExpression (coalesce (getProp params ''awaitPromise'') (JBool False))
                 (getProp params ''expression'')"
  let ?rbv = "coalesce (getProp params ''returnByValue'') (JBool True)"
  show ?thesis
  proof (cases ?wrap)
    case (Inl err)
    then show ?thesis using assms by (simp add: handleRuntime_def run_simps frames_of_def)
  next
    case wr: (Inr wrapped)
    show ?thesis
    proof (cases "call w (OnPage page) ''evaluate''")
      case (Inl err)
      then show ?thesis using assms wr by (simp add: handleRuntime_def run_simps frames_of_def)
    next
      case (Inr result)
      show ?thesis
        using storeObject_cases[of ?rbv result s]
      proof (elim disjE)
        assume st: "storeObject ?rbv result s = ([], Inr JUndefined, s)"
        show ?thesis
          using assms wr Inr st
          by (cases "js_String result") (simp_all add: handleRuntime_def run_simps frames_of_def)
      next
        assume st: "storeObject ?rbv result s =
          ([], Inr (JStr (''obj-'' @ digits (objectIdCounter s))),
           s\<lparr>objectIdCounter := incr (objectIdCounter s),
             objectMap := (objectMap s)(''obj-'' @ digits (objectIdCounter s) \<mapsto> result)\<rparr>)"
        show ?thesis
          using assms wr Inr st
          by (cases "js_String result") (simp_all add: handleRuntime_def run_simps frames_of_def)
      qed
    qed
  qed
qed

lemma resolveArguments_pure: "\<exists>r1. resolveArguments args s = ([], r1, s)"
proof (cases args)
  case (JArr as)
  show ?thesis
    by (cases "\<exists>a \<in> set as. nullish a")
       (simp_all add: JArr resolveArguments_def readError_def typeError_def throwM_apply bindM_getS returnM_apply)
qed (simp_all add: resolveArguments_def typeError_def throwM_apply)

lemma callFunctionOn_returns:
  "\<exists>es r s'. handleRuntime page (JStr ''callFunctionOn'') params w s = (es, Inr r, s') \<and> frames_of es = []"
proof -
  let ?args = "orElse (getProp params ''arguments'') (JArr [])"
  let ?rbv = "coalesce (getProp params ''returnByValue'') (JBool True)"
  obtain r1 where ra: "resolveArguments ?args s = ([], r1, s)"
    using resolveArguments_pure[of ?args s] by blast
  show ?thesis
  proof (cases r1)
    case (Inl err)
    then show ?thesis using ra by (simp add: handleRuntime_def run_simps frames_of_def)
  next
    case a: (Inr argValues)
    show ?thesis
    proof (cases "functionBody (getProp params ''functionDeclaration'')")
      case (Inl err)
      then show ?thesis using ra a by (simp add: handleRuntime_def run_simps frames_of_def)
    next
      case b: (Inr body)
      show ?thesis
      proof (cases "newFunction w body")
        case (Inl err)
        then show ?thesis using ra a b by (simp add: handleRuntime_def run_simps frames_of_def)
      next
        case f: (Inr u)
        show ?thesis
        proof (cases "call w (OnPage page) ''evaluate''")
          case (Inl err)
          then show ?thesis using ra a b f by (simp add: handleRuntime_def run_simps frames_of_def)
        next
          case (Inr result)
          show ?thesis
            using storeObject_cases[of ?rbv result s] ra a b f Inr
            by (auto simp: handleRuntime_def run_simps frames_of_def)
        qed
      qed
    qed
  qed
qed

text \<open>
  Claim C6. When a \<^verbatim>\<open>Runtime.evaluate\<close> command reaches the page (its target resolves, its
  expression is non-empty and the expression handed to the page is built) and
  \<^verbatim>\<open>page.evaluate\<close> throws, the only frame sent is the response frame with the request's id
  whose result is \<^verbatim>\<open>{exceptionDetails: {...}}\<close>; no error frame is sent, the socket is not
  closed and the session is unchanged. The same holds for \<^verbatim>\<open>Runtime.callFunctionOn\<close> (with
  the text \<^verbatim>\<open>Call failed\<close> as fallback) when its arguments resolve and the function is built.
  The \<^verbatim>\<open>text\<close> of the details is the message of the thrown \<^verbatim>\<open>Error\<close>; a thrown value that is
  not an \<^verbatim>\<open>Error\<close> has no message and gives the fallback text. More generally, whatever is
  thrown inside the \<^verbatim>\<open>try\<close> of the two commands (by the page, by a template literal, by
  \<^verbatim>\<open>new Function\<close>, by the arguments), a \<^verbatim>\<open>Runtime.evaluate\<close> with a non-empty expression and
  every \<^verbatim>\<open>Runtime.callFunctionOn\<close> that reach the handler are answered by exactly one
  frame, a response frame with the request's id, never an error frame.
\<close>

theorem evaluation_exception_is_result:
  "(reaches s i ''Runtime'' ''evaluate'' page \<and> truthy (getProp (paramsOf i) ''expression'')
      \<and> wrapExpression (coalesce (getProp (paramsOf i) ''awaitPromise'') (JBool False))
           (getProp (paramsOf i) ''expression'') = Inr wrapped
      \<and> call w (OnPage page) ''evaluate'' = Inl err \<longrightarrow>
      step w i s =
        ([Call (OnPage page) ''evaluate'' [wrapped],
          Send (Response (idOf i) (exceptionDetails err ''Evaluation failed''))], s))
   \<and> (reaches s i2 ''Runtime'' ''callFunctionOn'' page2 \<and> argumentList (paramsOf i2) = Some as
      \<and> functionBody (getProp (paramsOf i2) ''functionDeclaration'') = Inr body
      \<and> newFunction w2 body = Inr ()
      \<and> call w2 (OnPage page2) ''evaluate'' = Inl err2 \<longrightarrow>
      step w2 i2 s =
        ([Call OnRuntime ''new Function'' [JStr body],
          Call (OnPage page2) ''evaluate'' (JStr body # map (resolveArgument s) as),
          Send (Response (idOf i2) (exceptionDetails err2 ''Call failed''))], s))
   \<and> (reaches s i3 ''Runtime'' ''evaluate'' page3 \<and> truthy (getProp (paramsOf i3) ''expression'') \<longrightarrow>
        (\<exists>r. frames_of (fst (step w3 i3 s)) = [Response (idOf i3) r]))
   \<and> (reaches s i4 ''Runtime'' ''callFunctionOn'' page4 \<longrightarrow>
        (\<exists>r. frames_of (fst (step w4 i4 s)) = [Response (idOf i4) r]))
   \<and> getProp (getProp (exceptionDetails (JsError msg) fallback) ''exceptionDetails'') ''text'' = JStr msg
   \<and> getProp (getProp (exceptionDetails (NonError v) fallback) ''exceptionDetails'') ''text'' = JStr fallback"
proof (intro conjI impI)
  assume h: "reaches s i ''Runtime'' ''evaluate'' page \<and> truthy (getProp (paramsOf i) ''expression'')
      \<and> wrapExpression (coalesce (getProp (paramsOf i) ''awaitPromise'') (JBool False))
           (getProp (paramsOf i) ''expression'') = Inr wrapped
      \<and> call w (OnPage page) ''evaluate'' = Inl err"
  then have r: "reaches s i ''Runtime'' ''evaluate'' page" by simp
  show "step w i s =
        ([Call (OnPage page) ''evaluate'' [wrapped],
          Send (Response (idOf i) (exceptionDetails err ''Evaluation failed''))], s)"
    using step_reaches(2)[OF r refl, of w] evaluate_throws[of "paramsOf i" wrapped w page err s] h
    by (simp add: respond_def)
next
  assume h: "reaches s i2 ''Runtime'' ''callFunctionOn'' page2 \<and> argumentList (paramsOf i2) = Some as
      \<and> functionBody (getProp (paramsOf i2) ''functionDeclaration'') = Inr body
      \<and> newFunction w2 body = Inr ()
      \<and> call w2 (OnPage page2) ''evaluate'' = Inl err2"
  then have r: "reaches s i2 ''Runtime'' ''callFunctionOn'' page2" by simp
  show "step w2 i2 s =
        ([Call OnRuntime ''new Function'' [JStr body],
          Call (OnPage page2) ''evaluate'' (JStr body # map (resolveArgument s) as),
          Send (Response (idOf i2) (exceptionDetails err2 ''Call failed''))], s)"
    using step_reaches(2)[OF r refl, of w2] callFunctionOn_throws[of "paramsOf i2" as body w2 page2 err2 s] h
    by (simp add: respond_def)
next
  assume h: "reaches s i3 ''Runtime'' ''evaluate'' page3 \<and> truthy (getProp (paramsOf i3) ''expression'')"
  then have r: "reaches s i3 ''Runtime'' ''evaluate'' page3" by simp
  obtain es r' s' where e: "handleRuntime page3 (JStr ''evaluate'') (paramsOf i3) w3 s = (es, Inr r', s')"
      and f: "frames_of es = []"
    using evaluate_returns[of "paramsOf i3" page3 w3 s] h by blast
  have "frames_of (fst (step w3 i3 s)) = [Response (idOf i3) r']"
    using step_reaches(2)[OF r refl, of w3] e f
    by (simp add: respond_def frames_of_append) (simp add: frames_of_def)
  then show "\<exists>r. frames_of (fst (step w3 i3 s)) = [Response (idOf i3) r]" by blast
next
  assume r: "reaches s i4 ''Runtime'' ''callFunctionOn'' page4"
  obtain es r' s' where e: "handleRuntime page4 (JStr ''callFunctionOn'') (paramsOf i4) w4 s = (es, Inr r', s')"
      and f: "frames_of es = []"
    using callFunctionOn_returns[of page4 "paramsOf i4" w4 s] by blast
  have "frames_of (fst (step w4 i4 s)) = [Response (idOf i4) r']"
    using step_reaches(2)[OF r refl, of w4] e f
    by (simp add: respond_def frames_of_append) (simp add: frames_of_def)
  then show "\<exists>r. frames_of (fst (step w4 i4 s)) = [Response (idOf i4) r]" by blast
next
  show "getProp (getProp (exceptionDetails (JsError msg) fallback) ''exceptionDetails'') ''text'' = JStr msg"
    by (simp add: exceptionDetails_def)
next
  show "getProp (getProp (exceptionDetails (NonError v) fallback) ''exceptionDetails'') ''text'' = JStr fallback"
    by (simp add: exceptionDetails_def)
qed

theorem evaluation_exception_is_result_witness:
  "step (answering (OnPage 1) ''evaluate'' (Inl (JsError ''boom is not defined'')))
        (commandFrame 8 ''Runtime.evaluate'' [(''expression'', JStr ''boom'')]) (initialSession ''t'' 1)
     = ([Call (OnPage 1) ''evaluate'' [JStr ''boom''],
         Send (Response (JNum 8) (JObj [(''exceptionDetails'', JObj [
            (''exceptionId'', JNum 1), (''text'', JStr ''boom is not defined''),
            (''lineNumber'', JNum 0), (''columnNumber'', JNum 0)])]))],
        initialSession ''t'' 1)
   \<and> step (answering (OnPage 1) ''evaluate'' (Inl (JsError ''boom is not defined'')))
        (commandFrame 9 ''Runtime.callFunctionOn'' [(''functionDeclaration'', JStr ''f'')]) (initialSession ''t'' 1)
     = ([Call OnRuntime ''new Function'' [JStr ''return (f).apply(this, arguments)''],
         Call (OnPage 1) ''evaluate'' [JStr ''return (f).apply(this, arguments)''],
         Send (Response (JNum 9) (JObj [(''exceptionDetails'', JObj [
            (''exceptionId'', JNum 1), (''text'', JStr ''boom is not defined''),
            (''lineNumber'', JNum 0), (''columnNumber'', JNum 0)])]))],
        initialSession ''t'' 1)
   \<and> frames_of (fst (step quietBackend
        (commandFrame 10 ''Runtime.evaluate''
           [(''expression'', JObj [(''toString'', JNum 1)]), (''awaitPromise'', JBool True)])
        (initialSession ''t'' 1)))
     = [Response (JNum 10) (JObj [(''exceptionDetails'', JObj [
            (''exceptionId'', JNum 1), (''text'', JStr ''Cannot convert object to primitive value''),
            (''lineNumber'', JNum 0), (''columnNumber'', JNum 0)])])]
   \<and> frames_of (fst (step quietBackend
        (commandFrame 11 ''Runtime.callFunctionOn'' [(''functionDeclaration'', JObj [(''toString'', JNum 1)])])
        (initialSession ''t'' 1)))
     = [Response (JNum 11) (JObj [(''exceptionDetails'', JObj [
            (''exceptionId'', JNum 1), (''text'', JStr ''Cannot convert object to primitive value''),
            (''lineNumber'', JNum 0), (''columnNumber'', JNum 0)])])]"
  using evaluation_exception_is_result [where s = "initialSession ''t'' 1"
      and i = "commandFrame 8 ''Runtime.evaluate'' [(''expression'', JStr ''boom'')]" and page = 1
      and wrapped = "JStr ''boom''"
      and w = "answering (OnPage 1) ''evaluate'' (Inl (JsError ''boom is not defined''))"
      and err = "JsError ''boom is not defined''"
      and ?i2.0 = "commandFrame 9 ''Runtime.callFunctionOn'' [(''functionDeclaration'', JStr ''f'')]"
      and ?page2.0 = 1 and as = "[]" and body = "''return (f).apply(this, arguments)''"
      and ?w2.0 = "answering (OnPage 1) ''evaluate'' (Inl (JsError ''boom is not defined''))"
      and ?err2.0 = "JsError ''boom is not defined''"
      and ?i3.0 = "commandFrame 10 ''Runtime.evaluate''
           [(''expression'', JObj [(''toString'', JNum 1)]), (''awaitPromise'', JBool True)]"
      and ?page3.0 = 1 and ?w3.0 = quietBackend
      and ?i4.0 = "commandFrame 11 ''Runtime.callFunctionOn'' [(''functionDeclaration'', JObj [(''toString'', JNum 1)])]"
      and ?page4.0 = 1 and ?w4.0 = quietBackend]
  by (simp add: exec_simps handleRuntime_def run_simps js_String_def wrapExpression_def functionBody_def
        argumentList_def resolveArguments_def exceptionDetails_def frames_of_def)

subsection \<open>Page.navigate\<close>

lemma navigate_run:
  "handlePage page (JStr ''navigate'') params w s =
     (if \<not> truthy (getProp params ''url'') then ([], Inl (JsError ''url is required''), s)
      else
        (case call w (OnPage page) ''goto'' of
           Inl err \<Rightarrow>
             ([Call (OnPage page) ''goto'' [getProp params ''url'', JObj [(''waitUntil'', JStr ''load'')]]],
              Inl err, s)
         | Inr response \<Rightarrow>
             (case urlOrigin w (pageUrl w page) of
                Inl err \<Rightarrow>
                  ([Call (OnPage page) ''goto'' [getProp params ''url'', JObj [(''waitUntil'', JStr ''load'')]],
                    Call (OnPage page) ''url'' [], Call (OnPage page) ''url'' [],
                    Call OnRuntime ''new URL'' [JStr (pageUrl w page)]],
                   Inl err, s)
              | Inr origin \<Rightarrow>
                  ([Call (OnPage page) ''goto'' [getProp params ''url'', JObj [(''waitUntil'', JStr ''load'')]],
                    Call (OnPage page) ''url'' [], Call (OnPage page) ''url'' [],
                    Call OnRuntime ''new URL'' [JStr (pageUrl w page)],
                    Send (Event ''Page.frameNavigated'' (JObj [(''frame'', JObj [
                      (''id'', JStr (defaultTargetId s)),
                      (''url'', JStr (pageUrl w page)),
                      (''securityOrigin'', JStr origin),
                      (''mimeType'', JStr ''text/html'')])])),
                    Send (Event ''Page.loadEventFired'' (JObj [(''timestamp'', now w)])),
                    Call OnRuntime ''crypto.randomUUID'' []],
                   Inr (JObj [
                     (''frameId'', JStr (defaultTargetId s)),
                     (''loaderId'', JStr (randomUUID w 0)),
                     (''errorText'', if responseOk response then JUndefined else JStr ''Navigation failed'')]),
                   s))))"
  by (simp add: handlePage_def run_simps split: sum.splits)

text \<open>
  Claim C10. A \<^verbatim>\<open>Page.navigate\<close> that reaches the Page handler navigates the page that
  \<^verbatim>\<open>params.targetId\<close> (or, without one, the default target) resolves to: the \<^verbatim>\<open>goto\<close> goes to
  that page. When the navigation and the reading of the origin succeed, the turn is
  exactly: the backend calls, \<^verbatim>\<open>Page.frameNavigated\<close> with \<^verbatim>\<open>frame.id = defaultTargetId\<close>,
  \<^verbatim>\<open>Page.loadEventFired\<close>, and the response with \<^verbatim>\<open>frameId = defaultTargetId\<close>. Whatever the
  backend answers, every response of the turn has \<^verbatim>\<open>frameId = defaultTargetId\<close> and every
  \<^verbatim>\<open>Page.frameNavigated\<close> event has \<^verbatim>\<open>frame.id = defaultTargetId\<close>; so when the addressed
  target is not the default one, the frame id reported is not the id of the target that
  was navigated.
\<close>

theorem navigate_reports_default_target:
  "(reaches s i ''Page'' ''navigate'' page \<and> truthy (getProp (paramsOf i) ''url'')
      \<and> call w (OnPage page) ''goto'' = Inr response \<and> urlOrigin w (pageUrl w page) = Inr origin \<longrightarrow>
      step w i s =
        ([Call (OnPage page) ''goto'' [getProp (paramsOf i) ''url'', JObj [(''waitUntil'', JStr ''load'')]],
          Call (OnPage page) ''url'' [], Call (OnPage page) ''url'' [],
          Call OnRuntime ''new URL'' [JStr (pageUrl w page)],
          Send (Event ''Page.frameNavigated'' (JObj [(''frame'', JObj [
            (''id'', JStr (defaultTargetId s)),
            (''url'', JStr (pageUrl w page)),
            (''securityOrigin'', JStr origin),
            (''mimeType'', JStr ''text/html'')])])),
          Send (Event ''Page.loadEventFired'' (JObj [(''timestamp'', now w)])),
          Call OnRuntime ''crypto.randomUUID'' [],
          Send (Response (idOf i) (JObj [
            (''frameId'', JStr (defaultTargetId s)),
            (''loaderId'', JStr (randomUUID w 0)),
            (''errorText'', if responseOk response then JUndefined else JStr ''Navigation failed'')]))],
         s))
   \<and> (reaches s i ''Page'' ''navigate'' page \<longrightarrow>
        (\<forall>r \<in> set (responses (fst (step w i s))). getProp r ''frameId'' = JStr (defaultTargetId s))
        \<and> (\<forall>p. Send (Event ''Page.frameNavigated'' p) \<in> set (fst (step w i s)) \<longrightarrow>
               getProp (getProp p ''frame'') ''id'' = JStr (defaultTargetId s))
        \<and> (addressedTarget s (paramsOf i) \<noteq> JStr (defaultTargetId s) \<longrightarrow>
             (\<forall>r \<in> set (responses (fst (step w i s))). getProp r ''frameId'' \<noteq> addressedTarget s (paramsOf i))))"
proof (intro conjI impI)
  assume h: "reaches s i ''Page'' ''navigate'' page \<and> truthy (getProp (paramsOf i) ''url'')
      \<and> call w (OnPage page) ''goto'' = Inr response \<and> urlOrigin w (pageUrl w page) = Inr origin"
  then have r: "reaches s i ''Page'' ''navigate'' page" by simp
  show "step w i s =
        ([Call (OnPage page) ''goto'' [getProp (paramsOf i) ''url'', JObj [(''waitUntil'', JStr ''load'')]],
          Call (OnPage page) ''url'' [], Call (OnPage page) ''url'' [],
          Call OnRuntime ''new URL'' [JStr (pageUrl w page)],
          Send (Event ''Page.frameNavigated'' (JObj [(''frame'', JObj [
            (''id'', JStr (defaultTargetId s)),
            (''url'', JStr (pageUrl w page)),
            (''securityOrigin'', JStr origin),
            (''mimeType'', JStr ''text/html'')])])),
          Send (Event ''Page.loadEventFired'' (JObj [(''timestamp'', now w)])),
          Call OnRuntime ''crypto.randomUUID'' [],
          Send (Response (idOf i) (JObj [
            (''frameId'', JStr (defaultTargetId s)),
            (''loaderId'', JStr (randomUUID w 0)),
            (''errorText'', if responseOk response then JUndefined else JStr ''Navigation failed'')]))],
         s)"
    using step_reaches(1)[OF r refl, of w] h
    by (simp add: navigate_run respond_def)
next
  assume r: "reaches s i ''Page'' ''navigate'' page"
  note st = step_reaches(1)[OF r refl, of w]
  show "\<forall>r \<in> set (responses (fst (step w i s))). getProp r ''frameId'' = JStr (defaultTargetId s)"
    by (simp add: st navigate_run respond_def responses_def split: sum.splits)
next
  assume r: "reaches s i ''Page'' ''navigate'' page"
  note st = step_reaches(1)[OF r refl, of w]
  show "\<forall>p. Send (Event ''Page.frameNavigated'' p) \<in> set (fst (step w i s)) \<longrightarrow>
               getProp (getProp p ''frame'') ''id'' = JStr (defaultTargetId s)"
    by (auto simp: st navigate_run respond_def split: sum.splits)
next
  assume r: "reaches s i ''Page'' ''navigate'' page"
    and n: "addressedTarget s (paramsOf i) \<noteq> JStr (defaultTargetId s)"
  note st = step_reaches(1)[OF r refl, of w]
  show "\<forall>r \<in> set (responses (fst (step w i s))). getProp r ''frameId'' \<noteq> addressedTarget s (paramsOf i)"
    using n by (simp add: st navigate_run respond_def responses_def split: sum.splits)
qed

theorem navigate_reports_default_target_witness:
  "step (answering (OnPage 2) ''goto'' (Inr (JObj [(''ok'', JBool True)])))
        (commandFrame 1 ''Page.navigate'' [(''url'', JStr ''https://example.com''), (''targetId'', JStr ''u'')])
        ((initialSession ''t'' 1)\<lparr>pages := [(''t'', 1), (''u'', 2)]\<rparr>)
     = ([Call (OnPage 2) ''goto'' [JStr ''https://example.com'', JObj [(''waitUntil'', JStr ''load'')]],
         Call (OnPage 2) ''url'' [], Call (OnPage 2) ''url'' [],
         Call OnRuntime ''new URL'' [JStr ''about:blank''],
         Send (Event ''Page.frameNavigated'' (JObj [(''frame'', JObj [
           (''id'', JStr ''t''),
           (''url'', JStr ''about:blank''),
           (''securityOrigin'', JStr ''null''),
           (''mimeType'', JStr ''text/html'')])])),
         Send (Event ''Page.loadEventFired'' (JObj [(''timestamp'', JNum 0)])),
         Call OnRuntime ''crypto.randomUUID'' [],
         Send (Response (JNum 1) (JObj [
           (''frameId'', JStr ''t''),
           (''loaderId'', JStr ''uuid-0''),
           (''errorText'', JUndefined)]))],
        (initialSession ''t'' 1)\<lparr>pages := [(''t'', 1), (''u'', 2)]\<rparr>)"
  using navigate_reports_default_target [of "(initialSession ''t'' 1)\<lparr>pages := [(''t'', 1), (''u'', 2)]\<rparr>"
      "commandFrame 1 ''Page.navigate'' [(''url'', JStr ''https://example.com''), (''targetId'', JStr ''u'')]"
      2 "answering (OnPage 2) ''goto'' (Inr (JObj [(''ok'', JBool True)]))" "JObj [(''ok'', JBool True)]" "''null''"]
  by (simp add: reaches_def routedTo_def methodOf_def paramsOf_def idOf_def commandFrame_def element_def
        addressedPage_def addressedTarget_def orElse_def nullish_def pages_get_def
        initialSession_def answering_def quietBackend_def responseOk_def eval_simps)


subsection \<open>The node id 0\<close>

lemma incr_pos: "0 < c \<Longrightarrow> 0 < incr c"
  by (simp add: incr_def)

lemma sentinel_tolerates: "tolerates (\<lambda>s. nodeMap s 0 = None \<and> 0 < nodeIdCounter s)"
  by (auto simp: tolerates_def incr_pos nodeMap_delete_def split: jsval.splits)

lemma sentinel_free:
  "nodeMap (run (initialSession t p) ins) 0 = None \<and> 0 < nodeIdCounter (run (initialSession t p) ins)"
proof (rule run_preserves[where P = "\<lambda>s. nodeMap s 0 = None \<and> 0 < nodeIdCounter s"])
  show "tolerates (\<lambda>s. nodeMap s 0 = None \<and> 0 < nodeIdCounter s)" by (rule sentinel_tolerates)
next
  fix s :: session and k v assume "nodeMap s 0 = None \<and> 0 < nodeIdCounter s"
  then show "nodeMap (s\<lparr>pendingRequests := (pendingRequests s)(k \<mapsto> v)\<rparr>) 0 = None
     \<and> 0 < nodeIdCounter (s\<lparr>pendingRequests := (pendingRequests s)(k \<mapsto> v)\<rparr>)"
    by simp
next
  fix s :: session and t' i assume "nodeMap s 0 = None \<and> 0 < nodeIdCounter s"
  then show "nodeMap (s\<lparr>pages := pages_delete (JStr t') (pages s)\<rparr>) 0 = None
     \<and> 0 < nodeIdCounter (s\<lparr>pages := pages_delete (JStr t') (pages s)\<rparr>)"
    by simp
next
  show "nodeMap (initialSession t p) 0 = None \<and> 0 < nodeIdCounter (initialSession t p)"
    by (simp add: initialSession_def)
qed

lemma querySelector_no_match:
  assumes "truthy (getProp params ''selector'')"
    and "call w (OnPage page) ''$'' = Inr found" and "\<not> truthy found"
  shows "handleDOM page (JStr ''querySelector'') params w s =
           ([Call (OnPage page) ''$'' [getProp params ''selector'']], Inr (JObj [(''nodeId'', JNum 0)]), s)"
  using assms by (simp add: handleDOM_def run_simps)

lemma getOuterHTML_document:
  assumes "nodeMap_get s (getProp params ''nodeId'') = None"
    and "call w (OnPage page) ''content'' = Inr html"
  shows "handleDOM page (JStr ''getOuterHTML'') params w s =
           ([Call (OnPage page) ''content'' []], Inr (JObj [(''outerHTML'', html)]), s)"
  using assms by (simp add: handleDOM_def run_simps)

text \<open>
  Claim C4. When \<^verbatim>\<open>DOM.querySelector\<close> reaches the page with a non-empty selector and
  \<^verbatim>\<open>page.$\<close> finds no element, the answer is the response frame \<^verbatim>\<open>{id, result: {nodeId: 0}}\<close>,
  not an error, and the session is unchanged (no id is allocated). In every session
  reached from construction by any run, the node counter is positive and 0 is not a key
  of the node map. So in every such session a \<^verbatim>\<open>DOM.getOuterHTML\<close> with \<^verbatim>\<open>nodeId: 0\<close> finds no
  selector and answers with \<^verbatim>\<open>page.content()\<close>, the HTML of the whole document, when the
  backend delivers it.
\<close>

theorem query_selector_sentinel:
  "(reaches s i ''DOM'' ''querySelector'' page \<and> truthy (getProp (paramsOf i) ''selector'')
      \<and> call w (OnPage page) ''$'' = Inr found \<and> \<not> truthy found \<longrightarrow>
      step w i s = ([Call (OnPage page) ''$'' [getProp (paramsOf i) ''selector''],
                     Send (Response (idOf i) (JObj [(''nodeId'', JNum 0)]))], s))
   \<and> nodeMap (run (initialSession t p) ins) 0 = None
   \<and> 0 < nodeIdCounter (run (initialSession t p) ins)
   \<and> (reaches (run (initialSession t p) ins) i2 ''DOM'' ''getOuterHTML'' page2
      \<and> getProp (paramsOf i2) ''nodeId'' = JNum 0
      \<and> call w2 (OnPage page2) ''content'' = Inr html \<longrightarrow>
      step w2 i2 (run (initialSession t p) ins)
        = ([Call (OnPage page2) ''content'' [], Send (Response (idOf i2) (JObj [(''outerHTML'', html)]))],
           run (initialSession t p) ins))"
proof (intro conjI impI)
  assume h: "reaches s i ''DOM'' ''querySelector'' page \<and> truthy (getProp (paramsOf i) ''selector'')
      \<and> call w (OnPage page) ''$'' = Inr found \<and> \<not> truthy found"
  then have r: "reaches s i ''DOM'' ''querySelector'' page" by simp
  show "step w i s = ([Call (OnPage page) ''$'' [getProp (paramsOf i) ''selector''],
                     Send (Response (idOf i) (JObj [(''nodeId'', JNum 0)]))], s)"
    using step_reaches(3)[OF r refl, of w] querySelector_no_match[of "paramsOf i" w page found s] h
    by (simp add: respond_def)
next
  show "nodeMap (run (initialSession t p) ins) 0 = None"
    and "0 < nodeIdCounter (run (initialSession t p) ins)"
    using sentinel_free[of t p ins] by simp_all
next
  let ?s = "run (initialSession t p) ins"
  assume h: "reaches ?s i2 ''DOM'' ''getOuterHTML'' page2
      \<and> getProp (paramsOf i2) ''nodeId'' = JNum 0
      \<and> call w2 (OnPage page2) ''content'' = Inr html"
  then have r: "reaches ?s i2 ''DOM'' ''getOuterHTML'' page2" by simp
  have n: "nodeMap_get ?s (getProp (paramsOf i2) ''nodeId'') = None"
    using h sentinel_free[of t p ins] by (simp add: nodeMap_get_def)
  show "step w2 i2 ?s
        = ([Call (OnPage page2) ''content'' [], Send (Response (idOf i2) (JObj [(''outerHTML'', html)]))], ?s)"
    using step_reaches(3)[OF r refl, of w2] getOuterHTML_document[OF n, of w2 page2 html] h
    by (simp add: respond_def)
qed

theorem query_selector_sentinel_witness:
  "step quietBackend (commandFrame 2 ''DOM.querySelector'' [(''selector'', JStr ''#none'')])
        (run (initialSession ''t'' 1)
           [(commandFrame 1 ''DOM.querySelector'' [(''selector'', JStr ''a'')],
             answering (OnPage 1) ''$'' (Inr (JObj [])))])
     = ([Call (OnPage 1) ''$'' [JStr ''#none''], Send (Response (JNum 2) (JObj [(''nodeId'', JNum 0)]))],
        (initialSession ''t'' 1)\<lparr>nodeIdCounter := 2, nodeMap := [1 \<mapsto> JStr ''a'']\<rparr>)
   \<and> step (answering (OnPage 1) ''content'' (Inr (JStr ''<html></html>'')))
        (commandFrame 3 ''DOM.getOuterHTML'' [(''nodeId'', JNum 0)])
        (run (initialSession ''t'' 1)
           [(commandFrame 1 ''DOM.querySelector'' [(''selector'', JStr ''a'')],
             answering (OnPage 1) ''$'' (Inr (JObj [])))])
     = ([Call (OnPage 1) ''content'' [],
         Send (Response (JNum 3) (JObj [(''outerHTML'', JStr ''<html></html>'')]))],
        (initialSession ''t'' 1)\<lparr>nodeIdCounter := 2, nodeMap := [1 \<mapsto> JStr ''a'']\<rparr>)"
  using query_selector_sentinel [of
      "run (initialSession ''t'' 1)
           [(commandFrame 1 ''DOM.querySelector'' [(''selector'', JStr ''a'')],
             answering (OnPage 1) ''$'' (Inr (JObj [])))]"
      "commandFrame 2 ''DOM.querySelector'' [(''selector'', JStr ''#none'')]" 1 quietBackend JUndefined
      "''t''" 1
      "[(commandFrame 1 ''DOM.querySelector'' [(''selector'', JStr ''a'')],
             answering (OnPage 1) ''$'' (Inr (JObj [])))]"
      "commandFrame 3 ''DOM.getOuterHTML'' [(''nodeId'', JNum 0)]" 1
      "answering (OnPage 1) ''content'' (Inr (JStr ''<html></html>''))" "JStr ''<html></html>''"]
  by (simp add: exec_simps handleDOM_def run_simps allocNode_def incr_def)


subsection \<open>Fetch: parked requests\<close>












subsection \<open>The two parts of a resolving command\<close>


text \<open>The first part changes nothing in the session.\<close>

lemma resolutionCall_reads:
  assumes "c = ''continueRequest'' \<or> c = ''fulfillRequest'' \<or> c = ''failRequest''"
  shows "snd (snd (resolutionCall (JStr c) params w s)) = s"
  using assms
proof (elim disjE)
  assume c: "c = ''continueRequest''"
  show ?thesis
    by (cases "strMap_get (pendingRequests s) (getProp params ''requestId'')";
        cases "headerOverride (getProp params ''headers'')")
       (simp_all add: c resolutionCall_def run_simps)
next
  assume c: "c = ''fulfillRequest''"
  show ?thesis
    by (cases "strMap_get (pendingRequests s) (getProp params ''requestId'')";
        cases "responseHeaderObject (getProp params ''responseHeaders'')";
        cases "call w OnRuntime ''Buffer.from''")
       (simp_all add: c resolutionCall_def run_simps)
next
  assume c: "c = ''failRequest''"
  show ?thesis
    by (cases "strMap_get (pendingRequests s) (getProp params ''requestId'')";
        cases "getProp params ''errorReason''")
       (simp_all add: c resolutionCall_def run_simps)
qed






end
